theory Spec2Isabelle
  imports Complex_Main "HOL-Library.Monad_Syntax"
begin

section \<open>Numbers and exceptions\<close>

text \<open>
  The calculator is written in TypeScript. Its \<^verbatim>\<open>number\<close> values are modelled as exact
  rationals (\<^typ>\<open>rat\<close>): every finite double is a rational, comparisons of doubles are
  exact, and the arithmetic is taken without rounding. The numerator and the denominator of
  a \<^verbatim>\<open>Fraction\<close> are integer-valued numbers; they are modelled as \<^typ>\<open>int\<close>, which is
  what the doubles compute as long as no intermediate value leaves the range in which
  integers are exact (the specification puts larger values out of scope). Where a
  property depends on that range, the range is a hypothesis of the theorem: see the
  functions \<open>_in_range\<close> below.
  A thrown exception is the value \<open>None\<close>.
\<close>

text \<open>The remainder operator \<^verbatim>\<open>a % b\<close>: the result takes the sign of the dividend.\<close>

definition js_rem :: "int \<Rightarrow> int \<Rightarrow> int" where
  "js_rem a b = sgn a * (\<bar>a\<bar> mod \<bar>b\<bar>)"

section \<open>fraction.ts: class Fraction\<close>

record fraction =
  numerator :: int
  denominator :: int

text \<open>\<^verbatim>\<open>private gcd(a, b) { return b === 0 ? a : this.gcd(b, a % b); }\<close>\<close>

function gcd_js :: "int \<Rightarrow> int \<Rightarrow> int" where
  "gcd_js a b = (if b = 0 then a else gcd_js b (js_rem a b))"
  by pat_completeness auto
termination
proof (relation "measure (\<lambda>(a, b). nat \<bar>b\<bar>)")
  show "wf (measure (\<lambda>(a, b). nat \<bar>b\<bar>))" by simp
next
  fix a b :: int
  assume "b \<noteq> 0"
  then have "\<bar>a\<bar> mod \<bar>b\<bar> < \<bar>b\<bar>" by simp
  moreover have "0 \<le> \<bar>a\<bar> mod \<bar>b\<bar>" using \<open>b \<noteq> 0\<close> by simp
  ultimately have "\<bar>js_rem a b\<bar> < \<bar>b\<bar>"
    using \<open>b \<noteq> 0\<close> by (simp add: js_rem_def abs_mult abs_sgn_eq)
  then show "((b, js_rem a b), (a, b)) \<in> measure (\<lambda>(a, b). nat \<bar>b\<bar>)" by simp
qed

declare gcd_js.simps [simp del]

lemma gcd_js_0 [simp]: "gcd_js a 0 = a"
  by (simp add: gcd_js.simps [of a 0])

lemma gcd_js_rec: "b \<noteq> 0 \<Longrightarrow> gcd_js a b = gcd_js b (js_rem a b)"
  by (subst gcd_js.simps) simp

text \<open>
  The constructor: it throws on a zero denominator, divides both parts by the greatest
  common divisor of their absolute values (the division is exact, see \<open>gcd_js_dvd\<close>) and
  moves the sign to the numerator.
\<close>

definition new_Fraction :: "int \<Rightarrow> int \<Rightarrow> fraction option" where
  "new_Fraction n d =
     (if d = 0 then None
      else
        let g = gcd_js \<bar>n\<bar> \<bar>d\<bar>;
            num = n div g;
            den = d div g
        in if den < 0 then Some \<lparr>numerator = - num, denominator = - den\<rparr>
           else Some \<lparr>numerator = num, denominator = den\<rparr>)"

definition Fraction_add :: "fraction \<Rightarrow> fraction \<Rightarrow> fraction option" where
  "Fraction_add this other =
     (let newNum = numerator this * denominator other + numerator other * denominator this;
          newDen = denominator this * denominator other
      in new_Fraction newNum newDen)"

definition Fraction_subtract :: "fraction \<Rightarrow> fraction \<Rightarrow> fraction option" where
  "Fraction_subtract this other =
     (let newNum = numerator this * denominator other - numerator other * denominator this;
          newDen = denominator this * denominator other
      in new_Fraction newNum newDen)"

definition Fraction_multiply :: "fraction \<Rightarrow> fraction \<Rightarrow> fraction option" where
  "Fraction_multiply this other =
     new_Fraction (numerator this * numerator other) (denominator this * denominator other)"

definition Fraction_divide :: "fraction \<Rightarrow> fraction \<Rightarrow> fraction option" where
  "Fraction_divide this other =
     (if numerator other = 0 then None
      else new_Fraction (numerator this * denominator other) (denominator this * numerator other))"

definition Fraction_toDecimal :: "fraction \<Rightarrow> rat" where
  "Fraction_toDecimal this = of_int (numerator this) / of_int (denominator this)"

definition Fraction_isInteger :: "fraction \<Rightarrow> bool" where
  "Fraction_isInteger this = (denominator this = 1)"

definition Fraction_isZero :: "fraction \<Rightarrow> bool" where
  "Fraction_isZero this = (numerator this = 0)"

definition Fraction_abs :: "fraction \<Rightarrow> fraction option" where
  "Fraction_abs this = new_Fraction \<bar>numerator this\<bar> (denominator this)"

definition Fraction_negate :: "fraction \<Rightarrow> fraction option" where
  "Fraction_negate this = new_Fraction (- numerator this) (denominator this)"

definition Fraction_equals :: "fraction \<Rightarrow> fraction \<Rightarrow> bool" where
  "Fraction_equals this other =
     (numerator this = numerator other \<and> denominator this = denominator other)"

definition Fraction_lessThan :: "fraction \<Rightarrow> fraction \<Rightarrow> bool" where
  "Fraction_lessThan this other =
     (numerator this * denominator other < numerator other * denominator this)"

definition Fraction_clone :: "fraction \<Rightarrow> fraction option" where
  "Fraction_clone this = new_Fraction (numerator this) (denominator this)"

subsection \<open>Fraction.fromDecimal\<close>

text \<open>
  The state of the continued-fraction loop: the convergents \<open>h1/k1\<close> (current) and
  \<open>h2/k2\<close> (previous), and the remainder \<open>x\<close>; the fields carry the prefix \<open>cf_\<close>.
\<close>

record cf_state =
  cf_h1 :: int
  cf_h2 :: int
  cf_k1 :: int
  cf_k2 :: int
  cf_x :: rat

text \<open>The literal \<^verbatim>\<open>1e-10\<close>.\<close>

definition tolerance :: rat where
  "tolerance = 1 / 10 ^ 10"

text \<open>
  One pass through the body of the \<^verbatim>\<open>do ... while\<close> loop; the flag says whether the loop
  goes round again. \<^verbatim>\<open>break\<close> leaves with the convergents already overwritten and \<open>x\<close>
  untouched. When \<open>x - a\<close> is zero the source computes \<open>x = 1 / 0 = Infinity\<close>, the test
  \<^verbatim>\<open>x !== Infinity\<close> fails and \<open>x\<close> is not read again. The denominator \<open>k1\<close> is 1
  after the first pass and never 0 afterwards, so \<open>h1 / k1\<close> is a proper quotient.
\<close>

definition fromDecimal_body :: "rat \<Rightarrow> rat \<Rightarrow> cf_state \<Rightarrow> cf_state \<times> bool" where
  "fromDecimal_body decimal maxDenominator s =
     (let a = \<lfloor>cf_x s\<rfloor>;
          s1 = s\<lparr>cf_h1 := a * cf_h1 s + cf_h2 s, cf_h2 := cf_h1 s,
                 cf_k1 := a * cf_k1 s + cf_k2 s, cf_k2 := cf_k1 s\<rparr>
      in if of_int (cf_k1 s1) > maxDenominator then (s1, False)
         else
           let s2 = s1\<lparr>cf_x := 1 / (cf_x s - of_int a)\<rparr>
           in (s2, \<bar>decimal - of_int (cf_h1 s2) / of_int (cf_k1 s2)\<bar> > tolerance
                   \<and> cf_x s - of_int a \<noteq> 0))"

function fromDecimal_loop :: "rat \<Rightarrow> rat \<Rightarrow> cf_state \<Rightarrow> cf_state" where
  "fromDecimal_loop decimal maxDenominator s =
     (case fromDecimal_body decimal maxDenominator s of
        (s', again) \<Rightarrow> if again then fromDecimal_loop decimal maxDenominator s' else s')"
  by pat_completeness auto

text \<open>
  The loop ends: each further pass strictly decreases the denominator of the remainder
  \<open>x\<close> (Euclid's algorithm on the input).
\<close>

lemma quotient_of_remainder:
  assumes "r - of_int \<lfloor>r\<rfloor> \<noteq> (0::rat)"
  shows "snd (quotient_of (1 / (r - of_int \<lfloor>r\<rfloor>))) < snd (quotient_of r)"
proof -
  obtain a b where q: "quotient_of r = (a, b)" by (cases "quotient_of r")
  then have r: "r = of_int a / of_int b" and b: "0 < b" and cop: "coprime a b"
    by (auto simp: quotient_of_div quotient_of_denom_pos quotient_of_coprime)
  have fl: "\<lfloor>r\<rfloor> = a div b" unfolding r by (rule floor_divide_of_int_eq)
  have "of_int a = (of_int (a div b * b + a mod b) :: rat)" by simp
  then have "(of_int a :: rat) = of_int (a div b) * of_int b + of_int (a mod b)"
    by (simp only: of_int_add of_int_mult)
  then have "rat_of_int a / of_int b - of_int (a div b) = of_int (a mod b) / of_int b"
    using b by (simp add: field_simps)
  then have frac: "r - of_int \<lfloor>r\<rfloor> = of_int (a mod b) / of_int b"
    by (simp only: fl) (simp only: r)
  with assms b have nz: "a mod b \<noteq> 0" by auto
  with b have pos: "0 < a mod b" by (simp add: order_less_le)
  have c2: "coprime b (a mod b)" using cop by (metis coprime_iff_gcd_eq_1 gcd_red_int)
  have "1 / (r - of_int \<lfloor>r\<rfloor>) = Fract b (a mod b)"
    unfolding frac by (simp add: Fract_of_int_quotient)
  moreover have "quotient_of (Fract b (a mod b)) = (b, a mod b)"
    using pos c2 by (simp add: quotient_of_Fract)
  ultimately have "snd (quotient_of (1 / (r - of_int \<lfloor>r\<rfloor>))) = a mod b" by simp
  then show ?thesis using b by (simp add: q)
qed

lemma fromDecimal_body_again:
  assumes "fromDecimal_body decimal maxDenominator s = (s', True)"
  shows "cf_x s - of_int \<lfloor>cf_x s\<rfloor> \<noteq> 0 \<and> cf_x s' = 1 / (cf_x s - of_int \<lfloor>cf_x s\<rfloor>)"
  using assms by (auto simp: fromDecimal_body_def Let_def split: if_splits)

termination fromDecimal_loop
proof (relation "measure (\<lambda>(decimal, maxDenominator, s). nat (snd (quotient_of (cf_x s))))", goal_cases)
  case 1
  show ?case by simp
next
  case (2 decimal maxDenominator s s' again)
  then have "fromDecimal_body decimal maxDenominator s = (s', True)" by simp
  from fromDecimal_body_again [OF this] quotient_of_remainder [of "cf_x s"]
  have "snd (quotient_of (cf_x s')) < snd (quotient_of (cf_x s))" by simp
  moreover have "0 < snd (quotient_of (cf_x s))" by (rule quotient_of_denom_pos') 
  ultimately show ?case by simp
qed

declare fromDecimal_loop.simps [simp del]

text \<open>
  \<^verbatim>\<open>static fromDecimal(decimal, maxDenominator = 10000)\<close>. \<^verbatim>\<open>Number.isInteger\<close> is the
  test \<open>of_int \<lfloor>decimal\<rfloor> = decimal\<close>.
\<close>

definition cf_init :: "rat \<Rightarrow> cf_state" where
  "cf_init decimal = \<lparr>cf_h1 = 1, cf_h2 = 0, cf_k1 = 0, cf_k2 = 1, cf_x = decimal\<rparr>"

definition Fraction_fromDecimal :: "rat \<Rightarrow> rat \<Rightarrow> fraction option" where
  "Fraction_fromDecimal decimal0 maxDenominator =
     (if decimal0 = 0 then new_Fraction 0 1
      else
        let sign = (if decimal0 < 0 then - 1 else 1);
            decimal = \<bar>decimal0\<bar>
        in if of_int \<lfloor>decimal\<rfloor> = decimal then new_Fraction (sign * \<lfloor>decimal\<rfloor>) 1
           else
             let s = fromDecimal_loop decimal maxDenominator (cf_init decimal)
             in new_Fraction (sign * cf_h1 s) (cf_k1 s))"

text \<open>
  The run of the loop, pass by pass: the state after \<open>n\<close> passes, and whether the first
  \<open>n\<close> passes all asked for another one (so that pass \<open>n + 1\<close> is executed).
\<close>

fun fromDecimal_iter :: "rat \<Rightarrow> rat \<Rightarrow> nat \<Rightarrow> cf_state" where
  "fromDecimal_iter decimal maxDenominator 0 = cf_init decimal"
| "fromDecimal_iter decimal maxDenominator (Suc n) =
     fst (fromDecimal_body decimal maxDenominator (fromDecimal_iter decimal maxDenominator n))"

fun fromDecimal_runs :: "rat \<Rightarrow> rat \<Rightarrow> nat \<Rightarrow> bool" where
  "fromDecimal_runs decimal maxDenominator 0 = True"
| "fromDecimal_runs decimal maxDenominator (Suc n) =
     (fromDecimal_runs decimal maxDenominator n \<and>
      snd (fromDecimal_body decimal maxDenominator (fromDecimal_iter decimal maxDenominator n)))"

text \<open>The data-model invariant: lowest terms, the denominator strictly positive.\<close>

definition lowest_terms :: "fraction \<Rightarrow> bool" where
  "lowest_terms f = (0 < denominator f \<and> gcd (numerator f) (denominator f) = 1)"

section \<open>Properties of Fraction\<close>

lemma gcd_js_eq_gcd: "0 \<le> a \<Longrightarrow> 0 \<le> b \<Longrightarrow> gcd_js a b = gcd a b"
proof (induction a b rule: gcd_js.induct)
  case (1 a b)
  show ?case
  proof (cases "b = 0")
    case True
    with "1.prems" show ?thesis by simp
  next
    case False
    with "1.prems" have pos: "0 < b" by simp
    have rem: "js_rem a b = a mod b"
      using "1.prems" pos by (cases "a = 0") (simp_all add: js_rem_def)
    have "0 \<le> js_rem a b" using pos by (simp add: rem)
    with "1.IH" False "1.prems" have "gcd_js b (js_rem a b) = gcd b (js_rem a b)" by simp
    then have "gcd_js a b = gcd b (a mod b)" using False by (simp add: rem gcd_js_rec)
    also have "\<dots> = gcd a b" by (metis gcd.commute gcd_red_int)
    finally show ?thesis .
  qed
qed

lemma gcd_js_abs: "gcd_js \<bar>n\<bar> \<bar>d\<bar> = gcd n d"
  by (simp add: gcd_js_eq_gcd)

lemma gcd_js_dvd: "gcd_js \<bar>n\<bar> \<bar>d\<bar> dvd n \<and> gcd_js \<bar>n\<bar> \<bar>d\<bar> dvd d"
  by (simp add: gcd_js_abs)

lemma new_Fraction_lowest_terms:
  assumes "new_Fraction n d = Some f"
  shows "lowest_terms f"
proof -
  from assms have d: "d \<noteq> 0" by (auto simp: new_Fraction_def split: if_splits)
  define g where "g = gcd n d"
  have gpos: "0 < g" using d by (simp add: g_def)
  have cop: "gcd (n div g) (d div g) = 1"
    unfolding g_def using d by (metis coprime_iff_gcd_eq_1 div_gcd_coprime)
  have dnz: "d div g \<noteq> 0"
    using d gpos by (metis dvd_div_eq_0_iff g_def gcd_dvd2)
  show ?thesis
  proof (cases "d div g < 0")
    case True
    with assms d have "f = \<lparr>numerator = - (n div g), denominator = - (d div g)\<rparr>"
      by (simp add: new_Fraction_def gcd_js_abs g_def Let_def)
    with True cop show ?thesis by (simp add: lowest_terms_def)
  next
    case False
    with assms d have "f = \<lparr>numerator = n div g, denominator = d div g\<rparr>"
      by (simp add: new_Fraction_def gcd_js_abs g_def Let_def)
    with False dnz cop show ?thesis by (simp add: lowest_terms_def)
  qed
qed

text \<open>
  C2. Every Fraction that the constructor or an arithmetic operation (add, subtract,
  multiply, divide, negate, abs, clone) produces is in lowest terms with a strictly
  positive denominator, the sign in the numerator; the constructor turns (2,4) into 1/2,
  (-3,-6) into 1/2 and (3,-6) into -1/2.
\<close>

theorem Fraction_results_lowest_terms:
  "(\<forall>n d f. new_Fraction n d = Some f \<longrightarrow> lowest_terms f) \<and>
   (\<forall>a b f. Fraction_add a b = Some f \<longrightarrow> lowest_terms f) \<and>
   (\<forall>a b f. Fraction_subtract a b = Some f \<longrightarrow> lowest_terms f) \<and>
   (\<forall>a b f. Fraction_multiply a b = Some f \<longrightarrow> lowest_terms f) \<and>
   (\<forall>a b f. Fraction_divide a b = Some f \<longrightarrow> lowest_terms f) \<and>
   (\<forall>a f. Fraction_negate a = Some f \<longrightarrow> lowest_terms f) \<and>
   (\<forall>a f. Fraction_abs a = Some f \<longrightarrow> lowest_terms f) \<and>
   (\<forall>a f. Fraction_clone a = Some f \<longrightarrow> lowest_terms f) \<and>
   new_Fraction 2 4 = Some \<lparr>numerator = 1, denominator = 2\<rparr> \<and>
   new_Fraction (- 3) (- 6) = Some \<lparr>numerator = 1, denominator = 2\<rparr> \<and>
   new_Fraction 3 (- 6) = Some \<lparr>numerator = - 1, denominator = 2\<rparr>"
proof -
  have ex: "new_Fraction 2 4 = Some \<lparr>numerator = 1, denominator = 2\<rparr>"
    "new_Fraction (- 3) (- 6) = Some \<lparr>numerator = 1, denominator = 2\<rparr>"
    "new_Fraction 3 (- 6) = Some \<lparr>numerator = - 1, denominator = 2\<rparr>"
    by code_simp+
  have ops: "Fraction_add a b = Some f \<Longrightarrow> lowest_terms f"
    "Fraction_subtract a b = Some f \<Longrightarrow> lowest_terms f"
    "Fraction_multiply a b = Some f \<Longrightarrow> lowest_terms f"
    "Fraction_divide a b = Some f \<Longrightarrow> lowest_terms f"
    "Fraction_negate a = Some f \<Longrightarrow> lowest_terms f"
    "Fraction_abs a = Some f \<Longrightarrow> lowest_terms f"
    "Fraction_clone a = Some f \<Longrightarrow> lowest_terms f" for a b f
    by (auto simp: Fraction_add_def Fraction_subtract_def Fraction_multiply_def
        Fraction_divide_def Fraction_negate_def Fraction_abs_def Fraction_clone_def Let_def
        split: if_splits dest: new_Fraction_lowest_terms)
  show ?thesis
    using ex ops new_Fraction_lowest_terms by blast
qed

text \<open>Witness for C2: each operation at a concrete input.\<close>

theorem Fraction_results_lowest_terms_witness:
  "new_Fraction 6 (- 4) = Some \<lparr>numerator = - 3, denominator = 2\<rparr>
   \<and> Fraction_add \<lparr>numerator = 1, denominator = 2\<rparr> \<lparr>numerator = 1, denominator = 6\<rparr>
       = Some \<lparr>numerator = 2, denominator = 3\<rparr>
   \<and> Fraction_subtract \<lparr>numerator = 1, denominator = 2\<rparr> \<lparr>numerator = 1, denominator = 6\<rparr>
       = Some \<lparr>numerator = 1, denominator = 3\<rparr>
   \<and> Fraction_multiply \<lparr>numerator = 2, denominator = 3\<rparr> \<lparr>numerator = - 3, denominator = 4\<rparr>
       = Some \<lparr>numerator = - 1, denominator = 2\<rparr>
   \<and> Fraction_divide \<lparr>numerator = 2, denominator = 3\<rparr> \<lparr>numerator = - 4, denominator = 3\<rparr>
       = Some \<lparr>numerator = - 1, denominator = 2\<rparr>
   \<and> Fraction_negate \<lparr>numerator = 2, denominator = 3\<rparr> = Some \<lparr>numerator = - 2, denominator = 3\<rparr>
   \<and> Fraction_abs \<lparr>numerator = - 2, denominator = 3\<rparr> = Some \<lparr>numerator = 2, denominator = 3\<rparr>
   \<and> Fraction_clone \<lparr>numerator = - 2, denominator = 3\<rparr> = Some \<lparr>numerator = - 2, denominator = 3\<rparr>
   \<and> lowest_terms \<lparr>numerator = - 3, denominator = 2\<rparr>
   \<and> lowest_terms \<lparr>numerator = 2, denominator = 3\<rparr>
   \<and> lowest_terms \<lparr>numerator = 1, denominator = 3\<rparr>
   \<and> lowest_terms \<lparr>numerator = - 1, denominator = 2\<rparr>
   \<and> lowest_terms \<lparr>numerator = - 2, denominator = 3\<rparr>"
proof -
  have e: "new_Fraction 6 (- 4) = Some \<lparr>numerator = - 3, denominator = 2\<rparr>"
    "Fraction_add \<lparr>numerator = 1, denominator = 2\<rparr> \<lparr>numerator = 1, denominator = 6\<rparr>
       = Some \<lparr>numerator = 2, denominator = 3\<rparr>"
    "Fraction_subtract \<lparr>numerator = 1, denominator = 2\<rparr> \<lparr>numerator = 1, denominator = 6\<rparr>
       = Some \<lparr>numerator = 1, denominator = 3\<rparr>"
    "Fraction_multiply \<lparr>numerator = 2, denominator = 3\<rparr> \<lparr>numerator = - 3, denominator = 4\<rparr>
       = Some \<lparr>numerator = - 1, denominator = 2\<rparr>"
    "Fraction_divide \<lparr>numerator = 2, denominator = 3\<rparr> \<lparr>numerator = - 4, denominator = 3\<rparr>
       = Some \<lparr>numerator = - 1, denominator = 2\<rparr>"
    "Fraction_negate \<lparr>numerator = 2, denominator = 3\<rparr> = Some \<lparr>numerator = - 2, denominator = 3\<rparr>"
    "Fraction_abs \<lparr>numerator = - 2, denominator = 3\<rparr> = Some \<lparr>numerator = 2, denominator = 3\<rparr>"
    "Fraction_clone \<lparr>numerator = - 2, denominator = 3\<rparr> = Some \<lparr>numerator = - 2, denominator = 3\<rparr>"
    by code_simp+
  note T = Fraction_results_lowest_terms
  note c1 = T [THEN conjunct1, rule_format]
  note c2 = T [THEN conjunct2, THEN conjunct1, rule_format]
  note c3 = T [THEN conjunct2, THEN conjunct2, THEN conjunct1, rule_format]
  note c4 = T [THEN conjunct2, THEN conjunct2, THEN conjunct2, THEN conjunct1, rule_format]
  note c6 = T [THEN conjunct2, THEN conjunct2, THEN conjunct2, THEN conjunct2, THEN conjunct2,
      THEN conjunct1, rule_format]
  from c1 [OF e(1)] c2 [OF e(2)] c3 [OF e(3)] c4 [OF e(4)] c6 [OF e(6)] e
  show ?thesis by simp
qed

section \<open>Properties of Fraction.fromDecimal\<close>

lemma fromDecimal_body_k1:
  "cf_k1 (fst (fromDecimal_body d m s)) = \<lfloor>cf_x s\<rfloor> * cf_k1 s + cf_k2 s"
  "cf_k2 (fst (fromDecimal_body d m s)) = cf_k1 s"
  by (simp_all add: fromDecimal_body_def Let_def)

lemma fromDecimal_body_again_x:
  assumes "snd (fromDecimal_body d m s)"
  shows "cf_x s - of_int \<lfloor>cf_x s\<rfloor> \<noteq> 0"
    and "cf_x (fst (fromDecimal_body d m s)) = 1 / (cf_x s - of_int \<lfloor>cf_x s\<rfloor>)"
    and "of_int (cf_k1 (fst (fromDecimal_body d m s))) \<le> m"
  using assms by (auto simp: fromDecimal_body_def Let_def split: if_splits)

lemma recip_frac_gt_1:
  fixes r :: rat
  assumes "r - of_int \<lfloor>r\<rfloor> \<noteq> 0"
  shows "1 < 1 / (r - of_int \<lfloor>r\<rfloor>)"
proof -
  have "0 \<le> r - of_int \<lfloor>r\<rfloor>" "r - of_int \<lfloor>r\<rfloor> < 1" by linarith+
  with assms have "0 < r - of_int \<lfloor>r\<rfloor>" by (simp only: order_less_le) simp
  with \<open>r - of_int \<lfloor>r\<rfloor> < 1\<close> show ?thesis by simp
qed

lemma fromDecimal_invariant:
  assumes "fromDecimal_runs d m (Suc n)"
  shows "1 < cf_x (fromDecimal_iter d m (Suc n))
       \<and> 1 \<le> cf_k1 (fromDecimal_iter d m (Suc n))
       \<and> int n \<le> cf_k1 (fromDecimal_iter d m (Suc n))
       \<and> 0 \<le> cf_k2 (fromDecimal_iter d m (Suc n))
       \<and> (1 \<le> n \<longrightarrow> 1 \<le> cf_k2 (fromDecimal_iter d m (Suc n)))"
  using assms
proof (induction n)
  case 0
  then have again: "snd (fromDecimal_body d m (cf_init d))" by simp
  from fromDecimal_body_again_x [OF again] recip_frac_gt_1 [of "cf_x (cf_init d)"]
  have "1 < cf_x (fst (fromDecimal_body d m (cf_init d)))" by simp
  then show ?case by (simp add: fromDecimal_body_k1) (simp add: cf_init_def)
next
  case (Suc n)
  let ?s = "fromDecimal_iter d m (Suc n)"
  from Suc.prems have runs: "fromDecimal_runs d m (Suc n)"
    and again: "snd (fromDecimal_body d m ?s)" by simp_all
  from Suc.IH [OF runs] have x: "1 < cf_x ?s" and k1: "1 \<le> cf_k1 ?s" and kn: "int n \<le> cf_k1 ?s"
    and k2: "0 \<le> cf_k2 ?s" and k2': "1 \<le> n \<longrightarrow> 1 \<le> cf_k2 ?s" by simp_all
  from x have a: "1 \<le> \<lfloor>cf_x ?s\<rfloor>" by linarith
  from fromDecimal_body_again_x [OF again] recip_frac_gt_1 [of "cf_x ?s"]
  have x': "1 < cf_x (fst (fromDecimal_body d m ?s))" by simp
  have "cf_k1 ?s \<le> \<lfloor>cf_x ?s\<rfloor> * cf_k1 ?s" using a k1 by (simp add: mult_le_cancel_right1)
  then have mono: "cf_k1 ?s + cf_k2 ?s \<le> cf_k1 (fst (fromDecimal_body d m ?s))"
    by (simp add: fromDecimal_body_k1)
  have "int (Suc n) \<le> cf_k1 (fst (fromDecimal_body d m ?s))"
  proof (cases "n = 0")
    case True
    with mono k1 k2 show ?thesis by simp
  next
    case False
    with k2' have "1 \<le> cf_k2 ?s" by simp
    with mono kn show ?thesis by simp
  qed
  with x' mono k1 k2 show ?case by (simp add: fromDecimal_body_k1)
qed

lemma fromDecimal_k1_mono:
  assumes "fromDecimal_runs d m (Suc n)"
  shows "cf_k1 (fromDecimal_iter d m (Suc n)) + cf_k2 (fromDecimal_iter d m (Suc n))
         \<le> cf_k1 (fromDecimal_iter d m (Suc (Suc n)))"
proof -
  let ?s = "fromDecimal_iter d m (Suc n)"
  from fromDecimal_invariant [OF assms] have x: "1 < cf_x ?s" and k1: "1 \<le> cf_k1 ?s" by simp_all
  from x have a: "1 \<le> \<lfloor>cf_x ?s\<rfloor>" by linarith
  have "cf_k1 ?s \<le> \<lfloor>cf_x ?s\<rfloor> * cf_k1 ?s" using a k1 by (simp add: mult_le_cancel_right1)
  then show ?thesis by (simp add: fromDecimal_body_k1)
qed

lemma fromDecimal_runs_bound:
  assumes "fromDecimal_runs d m n"
  shows "int n \<le> max 0 (\<lfloor>m\<rfloor> + 1)"
proof (cases n)
  case 0
  then show ?thesis by simp
next
  case (Suc k)
  with assms have runs: "fromDecimal_runs d m (Suc k)" by simp
  then have again: "snd (fromDecimal_body d m (fromDecimal_iter d m k))" by simp
  from fromDecimal_body_again_x(3) [OF again] have "of_int (cf_k1 (fromDecimal_iter d m (Suc k))) \<le> m" by simp
  then have le: "cf_k1 (fromDecimal_iter d m (Suc k)) \<le> \<lfloor>m\<rfloor>" by (simp add: le_floor_iff)
  from fromDecimal_invariant [OF runs] have "int k \<le> cf_k1 (fromDecimal_iter d m (Suc k))" by simp
  with le Suc show ?thesis by simp
qed

lemma fromDecimal_runs_antimono: "fromDecimal_runs d m n \<Longrightarrow> k \<le> n \<Longrightarrow> fromDecimal_runs d m k"
  by (induction n) (auto simp: le_Suc_eq)

lemma fromDecimal_loop_iter:
  assumes "fromDecimal_runs d m n"
  shows "fromDecimal_loop d m (cf_init d) = fromDecimal_loop d m (fromDecimal_iter d m n)"
  using assms
proof (induction n)
  case 0
  then show ?case by simp
next
  case (Suc n)
  then have "fromDecimal_loop d m (fromDecimal_iter d m n) = fromDecimal_loop d m (fromDecimal_iter d m (Suc n))"
    by (subst fromDecimal_loop.simps) (simp add: split_beta)
  with Suc show ?case by simp
qed

lemma fromDecimal_exit:
  "\<exists>n. int n \<le> max 0 (\<lfloor>m\<rfloor> + 1) \<and> fromDecimal_runs d m n
       \<and> \<not> snd (fromDecimal_body d m (fromDecimal_iter d m n))
       \<and> fromDecimal_loop d m (cf_init d) = fromDecimal_iter d m (Suc n)"
proof -
  have "\<exists>n. \<not> fromDecimal_runs d m n"
  proof (rule ccontr)
    assume "\<not> ?thesis"
    then have "fromDecimal_runs d m (nat (max 0 (\<lfloor>m\<rfloor> + 1)) + 1)" by blast
    from fromDecimal_runs_bound [OF this] show False by simp
  qed
  then obtain k where k: "\<not> fromDecimal_runs d m k" and least: "\<And>j. j < k \<Longrightarrow> fromDecimal_runs d m j"
    using exists_least_iff [of "\<lambda>n. \<not> fromDecimal_runs d m n"] by auto
  from k obtain n where kn: "k = Suc n" by (cases k) auto
  from least kn have runs: "fromDecimal_runs d m n" by simp
  with k kn have stop: "\<not> snd (fromDecimal_body d m (fromDecimal_iter d m n))" by simp
  have "fromDecimal_loop d m (fromDecimal_iter d m n) = fromDecimal_iter d m (Suc n)"
    using stop by (subst fromDecimal_loop.simps) (simp add: split_beta)
  with fromDecimal_loop_iter [OF runs] fromDecimal_runs_bound [OF runs] runs stop
  show ?thesis by auto
qed


lemma new_Fraction_Some: "d \<noteq> 0 \<Longrightarrow> \<exists>f. new_Fraction n d = Some f"
  by (simp add: new_Fraction_def Let_def)

lemma fromDecimal_exit_k1:
  assumes "fromDecimal_runs d m n"
  shows "1 \<le> cf_k1 (fromDecimal_iter d m (Suc n))"
proof (cases n)
  case 0
  then show ?thesis by (simp add: fromDecimal_body_k1) (simp add: cf_init_def)
next
  case (Suc k)
  with assms have runs: "fromDecimal_runs d m (Suc k)" by simp
  from fromDecimal_invariant [OF runs] fromDecimal_k1_mono [OF runs] Suc
  show ?thesis by simp
qed

lemma Fraction_fromDecimal_Some: "\<exists>f. Fraction_fromDecimal decimal0 maxDenominator = Some f"
proof -
  obtain n where "fromDecimal_runs \<bar>decimal0\<bar> maxDenominator n"
    and "fromDecimal_loop \<bar>decimal0\<bar> maxDenominator (cf_init \<bar>decimal0\<bar>)
         = fromDecimal_iter \<bar>decimal0\<bar> maxDenominator (Suc n)"
    using fromDecimal_exit [of maxDenominator "\<bar>decimal0\<bar>"] by blast
  with fromDecimal_exit_k1 [of "\<bar>decimal0\<bar>" maxDenominator n]
  have "cf_k1 (fromDecimal_loop \<bar>decimal0\<bar> maxDenominator (cf_init \<bar>decimal0\<bar>)) \<noteq> 0" by simp
  then show ?thesis
    by (simp add: Fraction_fromDecimal_def Let_def new_Fraction_Some)
qed

text \<open>
  C4 (the code differs). When the denominator of the new convergent exceeds
  \<open>maxDenominator\<close> the loop breaks after \<open>h1\<close> and \<open>k1\<close> have been overwritten, and the
  overflowing convergent is what is returned: \<open>fromDecimal(0.5, 1)\<close> is 1/2, and with the
  default limit \<open>fromDecimal(3.14159)\<close> is 76149/24239. The last convergents within the
  limit are 0/1 and 9563/3044.
\<close>

theorem fromDecimal_returns_overflowing_convergent:
  "Fraction_fromDecimal (1 / 2) 1 = Some \<lparr>numerator = 1, denominator = 2\<rparr>
   \<and> Fraction_fromDecimal (314159 / 100000) 10000
       = Some \<lparr>numerator = 76149, denominator = 24239\<rparr>"
  by code_simp

text \<open>
  C10 as stated fails: for the input 0.75 the first pass leaves the denominator at 1
  (positive), the loop goes round again, and the second pass leaves it at 1.
\<close>

theorem fromDecimal_denominator_not_strict_counterexample:
  "\<not> (\<forall>decimal maxDenominator n.
        fromDecimal_runs decimal maxDenominator n
        \<and> 0 < cf_k1 (fromDecimal_iter decimal maxDenominator n)
        \<longrightarrow> cf_k1 (fromDecimal_iter decimal maxDenominator n)
            < cf_k1 (fromDecimal_iter decimal maxDenominator (Suc n)))"
proof
  assume a: "\<forall>decimal maxDenominator n.
        fromDecimal_runs decimal maxDenominator n
        \<and> 0 < cf_k1 (fromDecimal_iter decimal maxDenominator n)
        \<longrightarrow> cf_k1 (fromDecimal_iter decimal maxDenominator n)
            < cf_k1 (fromDecimal_iter decimal maxDenominator (Suc n))"
  have "fromDecimal_runs (3 / 4) 10000 (Suc 0)
        \<and> 0 < cf_k1 (fromDecimal_iter (3 / 4) 10000 (Suc 0))
        \<and> \<not> cf_k1 (fromDecimal_iter (3 / 4) 10000 (Suc 0))
            < cf_k1 (fromDecimal_iter (3 / 4) 10000 (Suc (Suc 0)))"
    by code_simp
  with a show False by blast
qed

text \<open>
  C10, amended. fromDecimal returns a Fraction for every input. In the loop the
  denominator \<open>k1\<close> is 1 after the first pass, never decreases in a later pass and strictly
  increases in every pass from the third on. The loop leaves at a pass whose new
  denominator exceeds \<open>maxDenominator\<close>, whose error is at most \<open>1e-10\<close> or whose
  remainder has no fractional part, and at most \<open>max 0 (\<lfloor>maxDenominator\<rfloor> + 1)\<close> passes
  ask for another one.
\<close>

theorem fromDecimal_terminates:
  "(\<exists>f. Fraction_fromDecimal decimal0 maxDenominator = Some f)
   \<and> cf_k1 (fromDecimal_iter decimal maxDenominator 1) = 1
   \<and> (\<forall>n. fromDecimal_runs decimal maxDenominator n \<and> 1 \<le> n
        \<longrightarrow> cf_k1 (fromDecimal_iter decimal maxDenominator n)
            \<le> cf_k1 (fromDecimal_iter decimal maxDenominator (Suc n)))
   \<and> (\<forall>n. fromDecimal_runs decimal maxDenominator n \<and> 2 \<le> n
        \<longrightarrow> cf_k1 (fromDecimal_iter decimal maxDenominator n)
            < cf_k1 (fromDecimal_iter decimal maxDenominator (Suc n)))
   \<and> (\<exists>n. int n \<le> max 0 (\<lfloor>maxDenominator\<rfloor> + 1)
          \<and> fromDecimal_runs decimal maxDenominator n
          \<and> \<not> snd (fromDecimal_body decimal maxDenominator
                     (fromDecimal_iter decimal maxDenominator n))
          \<and> fromDecimal_loop decimal maxDenominator (cf_init decimal)
              = fromDecimal_iter decimal maxDenominator (Suc n)
          \<and> (maxDenominator < of_int (cf_k1 (fromDecimal_iter decimal maxDenominator (Suc n)))
              \<or> \<bar>decimal - of_int (cf_h1 (fromDecimal_iter decimal maxDenominator (Suc n)))
                            / of_int (cf_k1 (fromDecimal_iter decimal maxDenominator (Suc n)))\<bar>
                  \<le> tolerance
              \<or> cf_x (fromDecimal_iter decimal maxDenominator n)
                  = of_int \<lfloor>cf_x (fromDecimal_iter decimal maxDenominator n)\<rfloor>))"
proof -
  let ?it = "fromDecimal_iter decimal maxDenominator"
  have first: "cf_k1 (?it 1) = 1"
    by (simp add: fromDecimal_body_k1) (simp add: cf_init_def)
  have mono: "cf_k1 (?it n) \<le> cf_k1 (?it (Suc n))"
    if "fromDecimal_runs decimal maxDenominator n \<and> 1 \<le> n" for n
  proof -
    from that obtain k where n: "n = Suc k" by (cases n) auto
    with that have runs: "fromDecimal_runs decimal maxDenominator (Suc k)" by simp
    from fromDecimal_invariant [OF runs] fromDecimal_k1_mono [OF runs] n
    show ?thesis by simp
  qed
  have strict: "cf_k1 (?it n) < cf_k1 (?it (Suc n))"
    if "fromDecimal_runs decimal maxDenominator n \<and> 2 \<le> n" for n
  proof -
    from that obtain k where n: "n = Suc k" and k: "1 \<le> k" by (cases n) auto
    with that have runs: "fromDecimal_runs decimal maxDenominator (Suc k)" by simp
    from fromDecimal_invariant [OF runs] k have "1 \<le> cf_k2 (?it (Suc k))" by simp
    with fromDecimal_k1_mono [OF runs] n show ?thesis by simp
  qed
  obtain n where n: "int n \<le> max 0 (\<lfloor>maxDenominator\<rfloor> + 1)"
    "fromDecimal_runs decimal maxDenominator n"
    "\<not> snd (fromDecimal_body decimal maxDenominator (?it n))"
    "fromDecimal_loop decimal maxDenominator (cf_init decimal) = ?it (Suc n)"
    using fromDecimal_exit [of maxDenominator decimal] by blast
  from n(3) have why: "maxDenominator < of_int (cf_k1 (?it (Suc n)))
      \<or> \<bar>decimal - of_int (cf_h1 (?it (Suc n))) / of_int (cf_k1 (?it (Suc n)))\<bar> \<le> tolerance
      \<or> cf_x (?it n) = of_int \<lfloor>cf_x (?it n)\<rfloor>"
    by (auto simp: fromDecimal_body_def Let_def split: if_splits)
  from n why have ex: "\<exists>n. int n \<le> max 0 (\<lfloor>maxDenominator\<rfloor> + 1)
          \<and> fromDecimal_runs decimal maxDenominator n
          \<and> \<not> snd (fromDecimal_body decimal maxDenominator (?it n))
          \<and> fromDecimal_loop decimal maxDenominator (cf_init decimal) = ?it (Suc n)
          \<and> (maxDenominator < of_int (cf_k1 (?it (Suc n)))
              \<or> \<bar>decimal - of_int (cf_h1 (?it (Suc n))) / of_int (cf_k1 (?it (Suc n)))\<bar> \<le> tolerance
              \<or> cf_x (?it n) = of_int \<lfloor>cf_x (?it n)\<rfloor>)"
    by blast
  from Fraction_fromDecimal_Some first mono strict ex show ?thesis by blast
qed

text \<open>Witness for C10: the input 0.4142 with the default limit, three passes into the loop.\<close>

theorem fromDecimal_terminates_witness:
  "fromDecimal_runs (2071 / 5000) 10000 3
   \<and> cf_k1 (fromDecimal_iter (2071 / 5000) 10000 1) = 1
   \<and> cf_k1 (fromDecimal_iter (2071 / 5000) 10000 3) \<le> cf_k1 (fromDecimal_iter (2071 / 5000) 10000 (Suc 3))
   \<and> cf_k1 (fromDecimal_iter (2071 / 5000) 10000 3) < cf_k1 (fromDecimal_iter (2071 / 5000) 10000 (Suc 3))
   \<and> cf_k1 (fromDecimal_iter (2071 / 5000) 10000 3) = 5
   \<and> cf_k1 (fromDecimal_iter (2071 / 5000) 10000 (Suc 3)) = 12
   \<and> (\<exists>f. Fraction_fromDecimal (2071 / 5000) 10000 = Some f)"
proof -
  have r: "fromDecimal_runs (2071 / 5000) 10000 3 \<and> (1::nat) \<le> 3 \<and> (2::nat) \<le> 3
    \<and> cf_k1 (fromDecimal_iter (2071 / 5000) 10000 3) = 5
    \<and> cf_k1 (fromDecimal_iter (2071 / 5000) 10000 (Suc 3)) = 12"
    by code_simp
  show ?thesis
    using r fromDecimal_terminates [of "2071 / 5000" 10000 "2071 / 5000"] by blast
qed

section \<open>laplaceExpansion.ts: the axis selector\<close>

text \<open>
  A read \<^verbatim>\<open>matrix[i][j]\<close>. Outside the array the source reads \<^verbatim>\<open>undefined\<close>; what happens
  next depends on the caller and is written out there.
\<close>

definition cell :: "'a list list \<Rightarrow> nat \<Rightarrow> nat \<Rightarrow> 'a option" where
  "cell matrix i j =
     (if i < length matrix \<and> j < length (matrix ! i) then Some (matrix ! i ! j) else None)"

text \<open>
  The result \<^verbatim>\<open>{ type, index, zeroCount }\<close> of the axis selector; the scan visits the rows
  0, 1, ... and then the columns 0, 1, ...
\<close>

datatype axis = Row | Column

record optimal =
  opt_type :: axis
  opt_index :: nat
  opt_zeroCount :: int

definition scanOrder :: "nat \<Rightarrow> (axis \<times> nat) list" where
  "scanOrder n = map (Pair Row) [0..<n] @ map (Pair Column) [0..<n]"

text \<open>
  Position \<open>k\<close> of a list holds the first greatest count: every earlier position has a
  strictly smaller count, no position has a greater one.
\<close>

definition first_greatest :: "('a \<Rightarrow> int) \<Rightarrow> 'a list \<Rightarrow> nat \<Rightarrow> bool" where
  "first_greatest count xs k =
     (k < length xs
      \<and> (\<forall>k' \<in> set [0..<k]. count (xs ! k') < count (xs ! k))
      \<and> (\<forall>k' \<in> set [0..<length xs]. count (xs ! k') \<le> count (xs ! k)))"

text \<open>
  The yardstick for the selector, in the words of the specification: the entries of a row
  or of a column of the matrix, and the number of them that a test calls zero. It is
  written without the loops of the code.
\<close>

definition axis_entries :: "'a list list \<Rightarrow> axis \<times> nat \<Rightarrow> 'a list" where
  "axis_entries matrix a =
     (case a of (Row, i) \<Rightarrow> matrix ! i | (Column, j) \<Rightarrow> map (\<lambda>row. row ! j) matrix)"

definition zero_entries :: "('a \<Rightarrow> bool) \<Rightarrow> 'a list list \<Rightarrow> axis \<times> nat \<Rightarrow> int" where
  "zero_entries is_zero matrix a = int (length (filter is_zero (axis_entries matrix a)))"

text \<open>
  LaplaceExpansion.findOptimalExpansionRowOrColumn (floating point). The test
  \<^verbatim>\<open>Math.abs(matrix[i][j]) < 1e-10\<close> is false on \<^verbatim>\<open>undefined\<close>.
\<close>

definition nearZeroCell :: "rat list list \<Rightarrow> nat \<Rightarrow> nat \<Rightarrow> bool" where
  "nearZeroCell matrix i j = (case cell matrix i j of Some v \<Rightarrow> \<bar>v\<bar> < tolerance | None \<Rightarrow> False)"

definition LaplaceExpansion_zeros :: "rat list list \<Rightarrow> axis \<times> nat \<Rightarrow> int" where
  "LaplaceExpansion_zeros matrix a =
     (let n = length matrix in
      case a of
        (Row, i) \<Rightarrow> int (length (filter (\<lambda>j. nearZeroCell matrix i j) [0..<n]))
      | (Column, j) \<Rightarrow> int (length (filter (\<lambda>i. nearZeroCell matrix i j) [0..<n])))"

definition LaplaceExpansion_findOptimalExpansionRowOrColumn :: "rat list list \<Rightarrow> optimal" where
  "LaplaceExpansion_findOptimalExpansionRowOrColumn matrix =
     (let n = length matrix;
          best0 = \<lparr>opt_type = Row, opt_index = 0, opt_zeroCount = 0\<rparr>;
          best1 = fold (\<lambda>i best.
                    let zeros = LaplaceExpansion_zeros matrix (Row, i)
                    in if zeros > opt_zeroCount best
                       then \<lparr>opt_type = Row, opt_index = i, opt_zeroCount = zeros\<rparr> else best)
                    [0..<n] best0
      in fold (\<lambda>j best.
                let zeros = LaplaceExpansion_zeros matrix (Column, j)
                in if zeros > opt_zeroCount best
                   then \<lparr>opt_type = Column, opt_index = j, opt_zeroCount = zeros\<rparr> else best)
           [0..<n] best1)"

text \<open>
  LaplaceExpansionFractions.findOptimalExpansionRowOrColumn (exact). The counter starts
  at -1. The call \<^verbatim>\<open>matrix[i][j].isZero()\<close> throws a TypeError on \<^verbatim>\<open>undefined\<close>, which
  happens exactly when one of the rows is shorter than the matrix is high.
\<close>

definition LaplaceExpansionFractions_zeros :: "fraction list list \<Rightarrow> axis \<times> nat \<Rightarrow> int" where
  "LaplaceExpansionFractions_zeros matrix a =
     (let n = length matrix in
      case a of
        (Row, i) \<Rightarrow> int (length (filter (\<lambda>j. Fraction_isZero (matrix ! i ! j)) [0..<n]))
      | (Column, j) \<Rightarrow> int (length (filter (\<lambda>i. Fraction_isZero (matrix ! i ! j)) [0..<n])))"

definition LaplaceExpansionFractions_findOptimalExpansionRowOrColumn ::
  "fraction list list \<Rightarrow> optimal option" where
  "LaplaceExpansionFractions_findOptimalExpansionRowOrColumn matrix =
     (let n = length matrix in
      if list_ex (\<lambda>row. length row < n) matrix then None
      else
        let best0 = \<lparr>opt_type = Row, opt_index = 0, opt_zeroCount = - 1\<rparr>;
            best1 = fold (\<lambda>i best.
                      let zeros = LaplaceExpansionFractions_zeros matrix (Row, i)
                      in if zeros > opt_zeroCount best
                         then \<lparr>opt_type = Row, opt_index = i, opt_zeroCount = zeros\<rparr> else best)
                      [0..<n] best0
        in Some (fold (\<lambda>j best.
                  let zeros = LaplaceExpansionFractions_zeros matrix (Column, j)
                  in if zeros > opt_zeroCount best
                     then \<lparr>opt_type = Column, opt_index = j, opt_zeroCount = zeros\<rparr> else best)
             [0..<n] best1))"

text \<open>The body of each of the four scanning loops, and the Fraction n/1 of an integer.\<close>

definition scan_step :: "(axis \<times> nat \<Rightarrow> int) \<Rightarrow> axis \<times> nat \<Rightarrow> optimal \<Rightarrow> optimal" where
  "scan_step count a best =
     (if count a > opt_zeroCount best
      then \<lparr>opt_type = fst a, opt_index = snd a, opt_zeroCount = count a\<rparr> else best)"

definition fr :: "int \<Rightarrow> fraction" where
  "fr n = \<lparr>numerator = n, denominator = 1\<rparr>"

section \<open>Properties of the axis selector\<close>

lemma fold_two_loops:
  "fold (\<lambda>j best.
           if opt_zeroCount best < count (Column, j)
           then \<lparr>opt_type = Column, opt_index = j, opt_zeroCount = count (Column, j)\<rparr>
           else best) [0..<n]
     (fold (\<lambda>i best.
           if opt_zeroCount best < count (Row, i)
           then \<lparr>opt_type = Row, opt_index = i, opt_zeroCount = count (Row, i)\<rparr>
           else best) [0..<n] best0)
   = fold (scan_step count) (scanOrder n) best0"
proof -
  have r: "(\<lambda>i best.
           if opt_zeroCount best < count (Row, i)
           then \<lparr>opt_type = Row, opt_index = i, opt_zeroCount = count (Row, i)\<rparr>
           else best)
        = scan_step count \<circ> Pair Row"
    by (rule ext)+ (simp add: scan_step_def)
  have c: "(\<lambda>j best.
           if opt_zeroCount best < count (Column, j)
           then \<lparr>opt_type = Column, opt_index = j, opt_zeroCount = count (Column, j)\<rparr>
           else best)
        = scan_step count \<circ> Pair Column"
    by (rule ext)+ (simp add: scan_step_def)
  show ?thesis
    unfolding r c scanOrder_def by (simp add: fold_map)
qed

lemma first_greatest_iff:
  "first_greatest count xs k \<longleftrightarrow>
     k < length xs \<and> (\<forall>k' < k. count (xs ! k') < count (xs ! k))
     \<and> (\<forall>k' < length xs. count (xs ! k') \<le> count (xs ! k))"
  by (auto simp: first_greatest_def)

lemma scan_first_greatest:
  "(fold (scan_step count) xs best0 = best0 \<and> (\<forall>a \<in> set xs. count a \<le> opt_zeroCount best0))
   \<or> (\<exists>k. first_greatest count xs k
          \<and> (opt_type (fold (scan_step count) xs best0), opt_index (fold (scan_step count) xs best0)) = xs ! k
          \<and> opt_zeroCount (fold (scan_step count) xs best0) = count (xs ! k)
          \<and> opt_zeroCount best0 < count (xs ! k))"
proof (induction xs rule: rev_induct)
  case Nil
  then show ?case by simp
next
  case (snoc a xs)
  let ?r = "fold (scan_step count) xs best0"
  show ?case
  proof (cases "count a > opt_zeroCount ?r")
    case True
    have all_lt: "\<forall>k' < length xs. count (xs ! k') < count a"
    proof (intro allI impI)
      fix k' assume k': "k' < length xs"
      from snoc.IH show "count (xs ! k') < count a"
      proof
        assume "?r = best0 \<and> (\<forall>a \<in> set xs. count a \<le> opt_zeroCount best0)"
        with k' True show ?thesis by (metis nth_mem order_le_less_trans)
      next
        assume "\<exists>k. first_greatest count xs k
          \<and> (opt_type ?r, opt_index ?r) = xs ! k
          \<and> opt_zeroCount ?r = count (xs ! k)
          \<and> opt_zeroCount best0 < count (xs ! k)"
        then obtain k where "first_greatest count xs k" "opt_zeroCount ?r = count (xs ! k)" by blast
        with k' True show ?thesis
          unfolding first_greatest_iff by (metis order_le_less_trans)
      qed
    qed
    have ge0: "opt_zeroCount best0 \<le> opt_zeroCount ?r"
      using snoc.IH by auto
    have "first_greatest count (xs @ [a]) (length xs)"
      using all_lt by (auto simp: first_greatest_iff nth_append less_Suc_eq)
    moreover have "fold (scan_step count) (xs @ [a]) best0
        = \<lparr>opt_type = fst a, opt_index = snd a, opt_zeroCount = count a\<rparr>"
      using True by (simp add: scan_step_def)
    ultimately show ?thesis using True ge0
      by (intro disjI2 exI [of _ "length xs"]) simp
  next
    case False
    then have same: "fold (scan_step count) (xs @ [a]) best0 = ?r" by (simp add: scan_step_def)
    from snoc.IH show ?thesis
    proof
      assume "?r = best0 \<and> (\<forall>a \<in> set xs. count a \<le> opt_zeroCount best0)"
      with False same show ?thesis by auto
    next
      assume "\<exists>k. first_greatest count xs k
          \<and> (opt_type ?r, opt_index ?r) = xs ! k
          \<and> opt_zeroCount ?r = count (xs ! k)
          \<and> opt_zeroCount best0 < count (xs ! k)"
      then obtain k where k: "first_greatest count xs k" "(opt_type ?r, opt_index ?r) = xs ! k"
        "opt_zeroCount ?r = count (xs ! k)" "opt_zeroCount best0 < count (xs ! k)" by blast
      then have "k < length xs" by (simp add: first_greatest_iff)
      with k False have "first_greatest count (xs @ [a]) k"
        by (auto simp: first_greatest_iff nth_append less_Suc_eq)
      with k \<open>k < length xs\<close> show ?thesis
        unfolding same by (intro disjI2 exI [of _ k]) (simp add: nth_append)
    qed
  qed
qed

lemma scanOrder_nth:
  "length (scanOrder n) = 2 * n"
  "i < n \<Longrightarrow> scanOrder n ! i = (Row, i)"
  "i < n \<Longrightarrow> scanOrder n ! (n + i) = (Column, i)"
  by (simp_all add: scanOrder_def nth_append)


lemma LaplaceExpansion_zeros_bounds:
  "0 \<le> LaplaceExpansion_zeros matrix a" "LaplaceExpansion_zeros matrix a \<le> int (length matrix)"
proof -
  have "length (filter P [0..<length matrix]) \<le> length matrix" for P :: "nat \<Rightarrow> bool"
    using length_filter_le [of P "[0..<length matrix]"] by simp
  then show "LaplaceExpansion_zeros matrix a \<le> int (length matrix)"
    by (cases a) (simp add: LaplaceExpansion_zeros_def Let_def split: axis.splits)
  show "0 \<le> LaplaceExpansion_zeros matrix a"
    by (cases a) (simp add: LaplaceExpansion_zeros_def Let_def split: axis.splits)
qed

lemma LaplaceExpansionFractions_zeros_bounds:
  "0 \<le> LaplaceExpansionFractions_zeros matrix a"
  "LaplaceExpansionFractions_zeros matrix a \<le> int (length matrix)"
proof -
  have "length (filter P [0..<length matrix]) \<le> length matrix" for P :: "nat \<Rightarrow> bool"
    using length_filter_le [of P "[0..<length matrix]"] by simp
  then show "LaplaceExpansionFractions_zeros matrix a \<le> int (length matrix)"
    by (cases a) (simp add: LaplaceExpansionFractions_zeros_def Let_def split: axis.splits)
  show "0 \<le> LaplaceExpansionFractions_zeros matrix a"
    by (cases a) (simp add: LaplaceExpansionFractions_zeros_def Let_def split: axis.splits)
qed

text \<open>A full row of zeros is the first greatest axis, or an earlier full row is.\<close>

lemma first_greatest_full_row:
  assumes fg: "first_greatest count (scanOrder n) k"
    and le: "\<And>a. count a \<le> int n"
    and i: "i < n" and full: "count (Row, i) = int n"
  shows "k \<le> i \<and> scanOrder n ! k = (Row, k) \<and> count (Row, k) = int n"
proof -
  from fg have k: "k < 2 * n"
    and before: "\<And>k'. k' < k \<Longrightarrow> count (scanOrder n ! k') < count (scanOrder n ! k)"
    and all: "\<And>k'. k' < 2 * n \<Longrightarrow> count (scanOrder n ! k') \<le> count (scanOrder n ! k)"
    by (simp_all add: first_greatest_iff scanOrder_nth)
  from all [of i] i full have "int n \<le> count (scanOrder n ! k)" by (simp add: scanOrder_nth)
  with le [of "scanOrder n ! k"] have cnt: "count (scanOrder n ! k) = int n" by simp
  have "k \<le> i"
  proof (rule ccontr)
    assume "\<not> k \<le> i"
    then have "i < k" by simp
    from before [OF this] i full cnt show False by (simp add: scanOrder_nth)
  qed
  with i have "k < n" by simp
  with cnt \<open>k \<le> i\<close> show ?thesis by (simp add: scanOrder_nth)
qed

lemma LaplaceExpansion_findOptimal_scan:
  "LaplaceExpansion_findOptimalExpansionRowOrColumn matrix
   = fold (scan_step (LaplaceExpansion_zeros matrix)) (scanOrder (length matrix))
       \<lparr>opt_type = Row, opt_index = 0, opt_zeroCount = 0\<rparr>"
  unfolding LaplaceExpansion_findOptimalExpansionRowOrColumn_def Let_def
  by (rule fold_two_loops)

lemma LaplaceExpansion_findOptimal_first_greatest:
  assumes "0 < length matrix"
  shows "\<exists>k. first_greatest (LaplaceExpansion_zeros matrix) (scanOrder (length matrix)) k
    \<and> scanOrder (length matrix) ! k
        = (opt_type (LaplaceExpansion_findOptimalExpansionRowOrColumn matrix),
           opt_index (LaplaceExpansion_findOptimalExpansionRowOrColumn matrix))
    \<and> opt_zeroCount (LaplaceExpansion_findOptimalExpansionRowOrColumn matrix)
        = LaplaceExpansion_zeros matrix (scanOrder (length matrix) ! k)"
proof -
  let ?n = "length matrix" and ?c = "LaplaceExpansion_zeros matrix"
  let ?b = "\<lparr>opt_type = Row, opt_index = 0, opt_zeroCount = 0\<rparr>"
  let ?r = "LaplaceExpansion_findOptimalExpansionRowOrColumn matrix"
  from scan_first_greatest [of ?c "scanOrder ?n" ?b] show ?thesis
  proof
    assume a: "fold (scan_step ?c) (scanOrder ?n) ?b = ?b
      \<and> (\<forall>a \<in> set (scanOrder ?n). ?c a \<le> opt_zeroCount ?b)"
    then have r: "?r = ?b" by (simp add: LaplaceExpansion_findOptimal_scan)
    have z: "?c (scanOrder ?n ! k') = 0" if "k' < 2 * ?n" for k'
    proof -
      from that have "scanOrder ?n ! k' \<in> set (scanOrder ?n)"
        by (intro nth_mem) (simp add: scanOrder_nth)
      with a have "?c (scanOrder ?n ! k') \<le> 0" by simp
      with LaplaceExpansion_zeros_bounds(1) [of matrix "scanOrder ?n ! k'"] show ?thesis by simp
    qed
    have "first_greatest ?c (scanOrder ?n) 0"
      using assms z by (simp add: first_greatest_iff scanOrder_nth LaplaceExpansion_zeros_bounds)
    with assms z [of 0] show ?thesis
      by (intro exI [of _ 0]) (simp add: r scanOrder_nth)
  next
    assume "\<exists>k. first_greatest ?c (scanOrder ?n) k
          \<and> (opt_type (fold (scan_step ?c) (scanOrder ?n) ?b),
              opt_index (fold (scan_step ?c) (scanOrder ?n) ?b)) = scanOrder ?n ! k
          \<and> opt_zeroCount (fold (scan_step ?c) (scanOrder ?n) ?b) = ?c (scanOrder ?n ! k)
          \<and> opt_zeroCount ?b < ?c (scanOrder ?n ! k)"
    then show ?thesis by (auto simp: LaplaceExpansion_findOptimal_scan)
  qed
qed

lemma LaplaceExpansionFractions_findOptimal_scan:
  assumes "\<forall>row \<in> set matrix. length row = length matrix"
  shows "LaplaceExpansionFractions_findOptimalExpansionRowOrColumn matrix
   = Some (fold (scan_step (LaplaceExpansionFractions_zeros matrix)) (scanOrder (length matrix))
       \<lparr>opt_type = Row, opt_index = 0, opt_zeroCount = - 1\<rparr>)"
proof -
  from assms have "\<not> list_ex (\<lambda>row. length row < length matrix) matrix"
    by (auto simp: list_ex_iff)
  then show ?thesis
    unfolding LaplaceExpansionFractions_findOptimalExpansionRowOrColumn_def Let_def
    by (simp add: fold_two_loops)
qed

lemma LaplaceExpansionFractions_findOptimal_first_greatest:
  assumes "0 < length matrix" and sq: "\<forall>row \<in> set matrix. length row = length matrix"
  shows "\<exists>r k. LaplaceExpansionFractions_findOptimalExpansionRowOrColumn matrix = Some r
    \<and> first_greatest (LaplaceExpansionFractions_zeros matrix) (scanOrder (length matrix)) k
    \<and> scanOrder (length matrix) ! k = (opt_type r, opt_index r)
    \<and> opt_zeroCount r = LaplaceExpansionFractions_zeros matrix (scanOrder (length matrix) ! k)"
proof -
  let ?n = "length matrix" and ?c = "LaplaceExpansionFractions_zeros matrix"
  let ?b = "\<lparr>opt_type = Row, opt_index = 0, opt_zeroCount = - 1\<rparr>"
  from scan_first_greatest [of ?c "scanOrder ?n" ?b] show ?thesis
  proof
    assume a: "fold (scan_step ?c) (scanOrder ?n) ?b = ?b
      \<and> (\<forall>a \<in> set (scanOrder ?n). ?c a \<le> opt_zeroCount ?b)"
    from assms have "scanOrder ?n ! 0 \<in> set (scanOrder ?n)"
      by (intro nth_mem) (simp add: scanOrder_nth)
    with a have "?c (scanOrder ?n ! 0) \<le> - 1" by simp
    with LaplaceExpansionFractions_zeros_bounds(1) [of matrix "scanOrder ?n ! 0"]
    show ?thesis by simp
  next
    assume "\<exists>k. first_greatest ?c (scanOrder ?n) k
          \<and> (opt_type (fold (scan_step ?c) (scanOrder ?n) ?b),
              opt_index (fold (scan_step ?c) (scanOrder ?n) ?b)) = scanOrder ?n ! k
          \<and> opt_zeroCount (fold (scan_step ?c) (scanOrder ?n) ?b) = ?c (scanOrder ?n ! k)
          \<and> opt_zeroCount ?b < ?c (scanOrder ?n ! k)"
    then show ?thesis
      by (auto simp: LaplaceExpansionFractions_findOptimal_scan [OF sq])
  qed
qed

text \<open>
  On a square matrix the counting loops of the two selectors count the entries of the
  axis that are near zero (floating point) or zero (exact).
\<close>

lemma length_filter_nth:
  "length (filter (\<lambda>k. P (xs ! k)) [0..<length xs]) = length (filter P xs)"
proof -
  have "filter P xs = filter P (map (\<lambda>k. xs ! k) [0..<length xs])"
    by (simp add: map_nth)
  also have "length \<dots> = length (filter (\<lambda>k. P (xs ! k)) [0..<length xs])"
    by (simp add: filter_map comp_def)
  finally show ?thesis by simp
qed

lemma length_filter_full: "length (filter P xs) = length xs \<longleftrightarrow> (\<forall>x \<in> set xs. P x)"
proof (induction xs)
  case Nil
  show ?case by simp
next
  case (Cons x xs)
  have bound: "length (filter P xs) \<le> length xs" by (rule length_filter_le)
  show ?case
  proof (cases "P x")
    case True
    with Cons show ?thesis by simp
  next
    case False
    from bound have "length (filter P xs) \<noteq> Suc (length xs)" by linarith
    with False show ?thesis by simp
  qed
qed

lemma scanOrder_set:
  assumes "a \<in> set (scanOrder n)"
  obtains i where "i < n" "a = (Row, i)" | j where "j < n" "a = (Column, j)"
  using assms by (auto simp: scanOrder_def)

lemma LaplaceExpansion_zeros_entries:
  assumes sq: "\<forall>row \<in> set matrix. length row = length matrix"
    and a: "a \<in> set (scanOrder (length matrix))"
  shows "LaplaceExpansion_zeros matrix a = zero_entries (\<lambda>v. \<bar>v\<bar> < 1 / 10 ^ 10) matrix a"
proof -
  let ?n = "length matrix" and ?P = "\<lambda>v :: rat. \<bar>v\<bar> < 1 / 10 ^ 10"
  have near: "nearZeroCell matrix i j = ?P (matrix ! i ! j)" if "i < ?n" "j < ?n" for i j
    using that sq by (simp add: nearZeroCell_def cell_def tolerance_def)
  from a show ?thesis
  proof (cases rule: scanOrder_set)
    case (1 i)
    then have len: "length (matrix ! i) = ?n" using sq by simp
    have "filter (\<lambda>j. nearZeroCell matrix i j) [0..<?n]
        = filter (\<lambda>j. ?P (matrix ! i ! j)) [0..<?n]"
      using 1 by (intro filter_cong refl) (simp add: near)
    with length_filter_nth [of ?P "matrix ! i"] 1 show ?thesis
      by (simp add: LaplaceExpansion_zeros_def zero_entries_def axis_entries_def len)
  next
    case (2 j)
    have "filter (\<lambda>i. nearZeroCell matrix i j) [0..<?n]
        = filter (\<lambda>i. ?P (map (\<lambda>row. row ! j) matrix ! i)) [0..<?n]"
      using 2 by (intro filter_cong refl) (simp add: near)
    with length_filter_nth [of ?P "map (\<lambda>row. row ! j) matrix"] 2 show ?thesis
      by (simp add: LaplaceExpansion_zeros_def zero_entries_def axis_entries_def)
  qed
qed

lemma LaplaceExpansionFractions_zeros_entries:
  assumes sq: "\<forall>row \<in> set matrix. length row = length matrix"
    and a: "a \<in> set (scanOrder (length matrix))"
  shows "LaplaceExpansionFractions_zeros matrix a = zero_entries (\<lambda>f. numerator f = 0) matrix a"
proof -
  let ?n = "length matrix" and ?P = "\<lambda>f :: fraction. numerator f = 0"
  from a show ?thesis
  proof (cases rule: scanOrder_set)
    case (1 i)
    then have len: "length (matrix ! i) = ?n" using sq by simp
    from length_filter_nth [of ?P "matrix ! i"] 1 show ?thesis
      by (simp add: LaplaceExpansionFractions_zeros_def zero_entries_def axis_entries_def len
          Fraction_isZero_def)
  next
    case (2 j)
    have "filter (\<lambda>i. Fraction_isZero (matrix ! i ! j)) [0..<?n]
        = filter (\<lambda>i. ?P (map (\<lambda>row. row ! j) matrix ! i)) [0..<?n]"
      by (intro filter_cong refl) (simp add: Fraction_isZero_def)
    with length_filter_nth [of ?P "map (\<lambda>row. row ! j) matrix"] 2 show ?thesis
      by (simp add: LaplaceExpansionFractions_zeros_def zero_entries_def axis_entries_def)
  qed
qed

lemma first_greatest_cong:
  "(\<And>a. a \<in> set xs \<Longrightarrow> count a = count' a) \<Longrightarrow>
   first_greatest count xs k = first_greatest count' xs k"
  by (auto simp: first_greatest_iff)

lemma zero_entries_full_row:
  "zero_entries is_zero matrix (Row, i) = int (length (matrix ! i))
     \<longleftrightarrow> (\<forall>v \<in> set (matrix ! i). is_zero v)"
  by (simp add: zero_entries_def axis_entries_def length_filter_full)

lemma selects_first_greatest:
  assumes pos: "0 < n"
    and eq: "\<And>a. a \<in> set (scanOrder n) \<Longrightarrow> count a = zero_entries is_zero matrix a"
    and le: "\<And>a. count a \<le> int n"
    and rows: "\<And>i. i < n \<Longrightarrow> length (matrix ! i) = n"
    and k: "first_greatest count (scanOrder n) k" "scanOrder n ! k = (t, x)" "z = count (scanOrder n ! k)"
  shows "(\<exists>k. first_greatest (zero_entries is_zero matrix) (scanOrder n) k
            \<and> scanOrder n ! k = (t, x) \<and> z = zero_entries is_zero matrix (t, x))
    \<and> (\<forall>i < n. (\<forall>v \<in> set (matrix ! i). is_zero v) \<longrightarrow>
          t = Row \<and> x \<le> i \<and> (\<forall>v \<in> set (matrix ! x). is_zero v))"
proof (rule conjI)
  from k(1) have "k < length (scanOrder n)" by (simp add: first_greatest_iff)
  then have mem: "scanOrder n ! k \<in> set (scanOrder n)" by (rule nth_mem)
  from first_greatest_cong [of "scanOrder n" count "zero_entries is_zero matrix" k] eq k(1)
  have "first_greatest (zero_entries is_zero matrix) (scanOrder n) k" by simp
  with k(2,3) eq [OF mem]
  show "\<exists>k. first_greatest (zero_entries is_zero matrix) (scanOrder n) k
            \<and> scanOrder n ! k = (t, x) \<and> z = zero_entries is_zero matrix (t, x)"
    by auto
next
  have "t = Row \<and> x \<le> i \<and> (\<forall>v \<in> set (matrix ! x). is_zero v)"
    if i: "i < n" and full: "\<forall>v \<in> set (matrix ! i). is_zero v" for i
  proof -
  have "(Row, i) \<in> set (scanOrder n)" using i by (simp add: scanOrder_def)
  from eq [OF this] full rows [OF i] zero_entries_full_row [of is_zero matrix i]
  have "count (Row, i) = int n" by simp
  from first_greatest_full_row [OF k(1) le i this] k(2)
  have r: "k \<le> i" "t = Row" "x = k" "count (Row, k) = int n" by simp_all
  with i have kn: "k < n" by simp
  then have "(Row, k) \<in> set (scanOrder n)" by (simp add: scanOrder_def)
  from eq [OF this] r(4) rows [OF kn] zero_entries_full_row [of is_zero matrix k]
  have "\<forall>v \<in> set (matrix ! k). is_zero v" by simp
  with r show ?thesis by simp
  qed
  then show "\<forall>i < n. (\<forall>v \<in> set (matrix ! i). is_zero v) \<longrightarrow>
          t = Row \<and> x \<le> i \<and> (\<forall>v \<in> set (matrix ! x). is_zero v)"
    by blast
qed

text \<open>
  C6. For a square matrix with at least one row both selectors return the first axis, in
  the order rows 0, 1, ... then columns 0, 1, ..., with the greatest number of zero
  entries: every axis scanned before it has strictly fewer zero entries and no axis has
  more, and the field zeroCount is that number. An entry counts as zero when its absolute
  value is below 1e-10 (floating point) or when it is the Fraction zero (exact). When all
  the entries of some row are zero, the result is a row of zeros, the first one.
\<close>

theorem findOptimal_selects_first_greatest:
  "(0 < length matrix \<and> (\<forall>row \<in> set matrix. length row = length matrix) \<longrightarrow>
      (let r = LaplaceExpansion_findOptimalExpansionRowOrColumn matrix;
           count = zero_entries (\<lambda>v. \<bar>v\<bar> < 1 / 10 ^ 10) matrix;
           n = length matrix
       in (\<exists>k. first_greatest count (scanOrder n) k
                \<and> scanOrder n ! k = (opt_type r, opt_index r)
                \<and> opt_zeroCount r = count (opt_type r, opt_index r))
          \<and> (\<forall>i < n. (\<forall>v \<in> set (matrix ! i). \<bar>v\<bar> < 1 / 10 ^ 10) \<longrightarrow>
                opt_type r = Row \<and> opt_index r \<le> i
                \<and> (\<forall>v \<in> set (matrix ! opt_index r). \<bar>v\<bar> < 1 / 10 ^ 10))))
   \<and> (0 < length fmatrix \<and> (\<forall>row \<in> set fmatrix. length row = length fmatrix) \<longrightarrow>
      (\<exists>r. LaplaceExpansionFractions_findOptimalExpansionRowOrColumn fmatrix = Some r \<and>
        (let count = zero_entries (\<lambda>f. numerator f = 0) fmatrix;
             n = length fmatrix
         in (\<exists>k. first_greatest count (scanOrder n) k
                  \<and> scanOrder n ! k = (opt_type r, opt_index r)
                  \<and> opt_zeroCount r = count (opt_type r, opt_index r))
            \<and> (\<forall>i < n. (\<forall>f \<in> set (fmatrix ! i). numerator f = 0) \<longrightarrow>
                  opt_type r = Row \<and> opt_index r \<le> i
                  \<and> (\<forall>f \<in> set (fmatrix ! opt_index r). numerator f = 0)))))"
proof (intro conjI impI)
  assume a: "0 < length matrix \<and> (\<forall>row \<in> set matrix. length row = length matrix)"
  let ?r = "LaplaceExpansion_findOptimalExpansionRowOrColumn matrix"
  let ?c = "LaplaceExpansion_zeros matrix" and ?n = "length matrix"
  from a LaplaceExpansion_findOptimal_first_greatest [of matrix]
  obtain k where k: "first_greatest ?c (scanOrder ?n) k"
    "scanOrder ?n ! k = (opt_type ?r, opt_index ?r)"
    "opt_zeroCount ?r = ?c (scanOrder ?n ! k)" by blast
  from a have rows: "length (matrix ! i) = ?n" if "i < ?n" for i using that by simp
  have eq: "?c a = zero_entries (\<lambda>v. \<bar>v\<bar> < 1 / 10 ^ 10) matrix a"
    if "a \<in> set (scanOrder ?n)" for a
    using a that by (intro LaplaceExpansion_zeros_entries) simp_all
  have pos: "0 < ?n" using a by simp
  from selects_first_greatest [of ?n ?c "\<lambda>v. \<bar>v\<bar> < 1 / 10 ^ 10" matrix k "opt_type ?r"
      "opt_index ?r" "opt_zeroCount ?r", OF pos eq LaplaceExpansion_zeros_bounds(2) rows k]
  show "let r = ?r; count = zero_entries (\<lambda>v. \<bar>v\<bar> < 1 / 10 ^ 10) matrix; n = ?n
       in (\<exists>k. first_greatest count (scanOrder n) k
                \<and> scanOrder n ! k = (opt_type r, opt_index r)
                \<and> opt_zeroCount r = count (opt_type r, opt_index r))
          \<and> (\<forall>i < n. (\<forall>v \<in> set (matrix ! i). \<bar>v\<bar> < 1 / 10 ^ 10) \<longrightarrow>
                opt_type r = Row \<and> opt_index r \<le> i
                \<and> (\<forall>v \<in> set (matrix ! opt_index r). \<bar>v\<bar> < 1 / 10 ^ 10))"
    unfolding Let_def by simp
next
  assume a: "0 < length fmatrix \<and> (\<forall>row \<in> set fmatrix. length row = length fmatrix)"
  let ?c = "LaplaceExpansionFractions_zeros fmatrix" and ?n = "length fmatrix"
  from a LaplaceExpansionFractions_findOptimal_first_greatest [of fmatrix]
  obtain r k where r: "LaplaceExpansionFractions_findOptimalExpansionRowOrColumn fmatrix = Some r"
    and k: "first_greatest ?c (scanOrder ?n) k"
    "scanOrder ?n ! k = (opt_type r, opt_index r)"
    "opt_zeroCount r = ?c (scanOrder ?n ! k)" by blast
  from a have rows: "length (fmatrix ! i) = ?n" if "i < ?n" for i using that by simp
  have eq: "?c a = zero_entries (\<lambda>f. numerator f = 0) fmatrix a"
    if "a \<in> set (scanOrder ?n)" for a
    using a that by (intro LaplaceExpansionFractions_zeros_entries) simp_all
  have pos: "0 < ?n" using a by simp
  from selects_first_greatest [of ?n ?c "\<lambda>f. numerator f = 0" fmatrix k "opt_type r"
      "opt_index r" "opt_zeroCount r", OF pos eq LaplaceExpansionFractions_zeros_bounds(2) rows k]
  have "(\<exists>k. first_greatest (zero_entries (\<lambda>f. numerator f = 0) fmatrix) (scanOrder ?n) k
                  \<and> scanOrder ?n ! k = (opt_type r, opt_index r)
                  \<and> opt_zeroCount r = zero_entries (\<lambda>f. numerator f = 0) fmatrix (opt_type r, opt_index r))
            \<and> (\<forall>i < ?n. (\<forall>f \<in> set (fmatrix ! i). numerator f = 0) \<longrightarrow>
                  opt_type r = Row \<and> opt_index r \<le> i
                  \<and> (\<forall>f \<in> set (fmatrix ! opt_index r). numerator f = 0))"
    by simp
  with r show "\<exists>r. LaplaceExpansionFractions_findOptimalExpansionRowOrColumn fmatrix = Some r \<and>
        (let count = zero_entries (\<lambda>f. numerator f = 0) fmatrix; n = ?n
         in (\<exists>k. first_greatest count (scanOrder n) k
                  \<and> scanOrder n ! k = (opt_type r, opt_index r)
                  \<and> opt_zeroCount r = count (opt_type r, opt_index r))
            \<and> (\<forall>i < n. (\<forall>f \<in> set (fmatrix ! i). numerator f = 0) \<longrightarrow>
                  opt_type r = Row \<and> opt_index r \<le> i
                  \<and> (\<forall>f \<in> set (fmatrix ! opt_index r). numerator f = 0)))"
    unfolding Let_def by blast
qed

text \<open>
  Witnesses for C6: a matrix whose column 1 holds more zeros than any row, and a matrix
  whose last row is zero.
\<close>

theorem findOptimal_selects_first_greatest_witness:
  "LaplaceExpansion_findOptimalExpansionRowOrColumn [[1, 0, 2], [3, 0, 4], [5, 6, 7]]
     = \<lparr>opt_type = Column, opt_index = 1, opt_zeroCount = 2\<rparr>
   \<and> zero_entries (\<lambda>v :: rat. \<bar>v\<bar> < 1 / 10 ^ 10) [[1, 0, 2], [3, 0, 4], [5, 6, 7]] (Column, 1) = 2
   \<and> (\<exists>k. first_greatest
            (zero_entries (\<lambda>v :: rat. \<bar>v\<bar> < 1 / 10 ^ 10) [[1, 0, 2], [3, 0, 4], [5, 6, 7]])
            (scanOrder (length [[1, 0, 2], [3, 0, 4], [5, 6, 7 :: rat]])) k
          \<and> scanOrder (length [[1, 0, 2], [3, 0, 4], [5, 6, 7 :: rat]]) ! k = (Column, 1))
   \<and> LaplaceExpansionFractions_findOptimalExpansionRowOrColumn
        (map (map fr) [[1, 0, 2], [3, 0, 4], [5, 6, 7]])
     = Some \<lparr>opt_type = Column, opt_index = 1, opt_zeroCount = 2\<rparr>
   \<and> (\<exists>k. first_greatest
            (zero_entries (\<lambda>f. numerator f = 0) (map (map fr) [[1, 0, 2], [3, 0, 4], [5, 6, 7]]))
            (scanOrder (length (map (map fr) [[1, 0, 2], [3, 0, 4], [5, 6, 7]]))) k
          \<and> scanOrder (length (map (map fr) [[1, 0, 2], [3, 0, 4], [5, 6, 7]])) ! k = (Column, 1))
   \<and> LaplaceExpansion_findOptimalExpansionRowOrColumn [[1, 2, 3], [4, 0, 6], [0, 0, 0]]
     = \<lparr>opt_type = Row, opt_index = 2, opt_zeroCount = 3\<rparr>
   \<and> (\<exists>k. first_greatest
            (zero_entries (\<lambda>v :: rat. \<bar>v\<bar> < 1 / 10 ^ 10) [[1, 2, 3], [4, 0, 6], [0, 0, 0]])
            (scanOrder (length [[1, 2, 3], [4, 0, 6], [0, 0, 0 :: rat]])) k
          \<and> scanOrder (length [[1, 2, 3], [4, 0, 6], [0, 0, 0 :: rat]]) ! k = (Row, 2))"
proof -
  let ?m = "[[1, 0, 2], [3, 0, 4], [5, 6, 7]] :: rat list list"
  let ?f = "map (map fr) [[1, 0, 2], [3, 0, 4], [5, 6, 7]]"
  let ?z = "[[1, 2, 3], [4, 0, 6], [0, 0, 0]] :: rat list list"
  have e: "LaplaceExpansion_findOptimalExpansionRowOrColumn ?m
     = \<lparr>opt_type = Column, opt_index = 1, opt_zeroCount = 2\<rparr>"
    "zero_entries (\<lambda>v :: rat. \<bar>v\<bar> < 1 / 10 ^ 10) ?m (Column, 1) = 2"
    "LaplaceExpansionFractions_findOptimalExpansionRowOrColumn ?f
     = Some \<lparr>opt_type = Column, opt_index = 1, opt_zeroCount = 2\<rparr>"
    "LaplaceExpansion_findOptimalExpansionRowOrColumn ?z
     = \<lparr>opt_type = Row, opt_index = 2, opt_zeroCount = 3\<rparr>"
    by code_simp+
  have h: "0 < length ?m \<and> (\<forall>row \<in> set ?m. length row = length ?m)"
    "0 < length ?f \<and> (\<forall>row \<in> set ?f. length row = length ?f)"
    "0 < length ?z \<and> (\<forall>row \<in> set ?z. length row = length ?z)"
    by simp_all
  note T = findOptimal_selects_first_greatest [of ?m ?f, unfolded Let_def]
  note U = findOptimal_selects_first_greatest [of ?z ?f, unfolded Let_def]
  from T h(1) have "\<exists>k. first_greatest (zero_entries (\<lambda>v :: rat. \<bar>v\<bar> < 1 / 10 ^ 10) ?m)
        (scanOrder (length ?m)) k
      \<and> scanOrder (length ?m) ! k
          = (opt_type (LaplaceExpansion_findOptimalExpansionRowOrColumn ?m),
             opt_index (LaplaceExpansion_findOptimalExpansionRowOrColumn ?m))"
    by blast
  then have 1: "\<exists>k. first_greatest (zero_entries (\<lambda>v :: rat. \<bar>v\<bar> < 1 / 10 ^ 10) ?m)
        (scanOrder (length ?m)) k
      \<and> scanOrder (length ?m) ! k = (Column, 1)"
    by (simp only: e optimal.simps)
  from T h(2) obtain r where
    "LaplaceExpansionFractions_findOptimalExpansionRowOrColumn ?f = Some r"
    "\<exists>k. first_greatest (zero_entries (\<lambda>f. numerator f = 0) ?f) (scanOrder (length ?f)) k
      \<and> scanOrder (length ?f) ! k = (opt_type r, opt_index r)"
    by blast
  then have 2: "\<exists>k. first_greatest (zero_entries (\<lambda>f. numerator f = 0) ?f) (scanOrder (length ?f)) k
      \<and> scanOrder (length ?f) ! k = (Column, 1)"
    using e(3) by auto
  from U h(3) have "\<exists>k. first_greatest (zero_entries (\<lambda>v :: rat. \<bar>v\<bar> < 1 / 10 ^ 10) ?z)
        (scanOrder (length ?z)) k
      \<and> scanOrder (length ?z) ! k
          = (opt_type (LaplaceExpansion_findOptimalExpansionRowOrColumn ?z),
             opt_index (LaplaceExpansion_findOptimalExpansionRowOrColumn ?z))"
    by blast
  then have 3: "\<exists>k. first_greatest (zero_entries (\<lambda>v :: rat. \<bar>v\<bar> < 1 / 10 ^ 10) ?z)
        (scanOrder (length ?z)) k
      \<and> scanOrder (length ?z) ! k = (Row, 2)"
    by (simp only: e optimal.simps)
  from e 1 2 3 show ?thesis by blast
qed

section \<open>Loops and arrays\<close>

text \<open>
  A \<^verbatim>\<open>for\<close> loop over the indices \<open>is\<close> that updates a state and may throw: the body
  gets the index and the state. A \<^verbatim>\<open>continue\<close> is a body that returns the state as it is;
  loops that \<^verbatim>\<open>return\<close> or \<^verbatim>\<open>break\<close> from inside are written as recursive functions.
  The step trace (\<^verbatim>\<open>steps.push\<close>) is output only: no engine reads it back, and on
  matrices of the declared shape building it cannot throw. The numeric engines below leave
  it out; it is modelled where a claim is about it (GaussJordanDeterminant).
\<close>

primrec forM :: "'a list \<Rightarrow> 's \<Rightarrow> ('a \<Rightarrow> 's \<Rightarrow> 's option) \<Rightarrow> 's option" where
  "forM [] s body = Some s"
| "forM (i # is) s body = Option.bind (body i s) (\<lambda>s'. forM is s' body)"

lemma forM_cong [fundef_cong]:
  "is = js \<Longrightarrow> s = t \<Longrightarrow> (\<And>i u. i \<in> set js \<Longrightarrow> f i u = g i u) \<Longrightarrow> forM is s f = forM js t g"
proof (induction "is" arbitrary: js s t)
  case Nil
  then show ?case by simp
next
  case (Cons i "is")
  then show ?case by (auto intro!: Option.bind_cong)
qed

text \<open>
  \<^verbatim>\<open>xs.filter((_, k) => keep(k))\<close>, and MatrixMath.getMinor (the same code as
  LaplaceExpansionFractions.getMinorFraction).
\<close>

definition filterIndex :: "(nat \<Rightarrow> bool) \<Rightarrow> 'a list \<Rightarrow> 'a list" where
  "filterIndex keep xs = map fst (filter (\<lambda>(v, k). keep k) (zip xs [0..<length xs]))"

definition getMinor :: "'a list list \<Rightarrow> nat \<Rightarrow> nat \<Rightarrow> 'a list list" where
  "getMinor matrix excludeRow excludeCol =
     map (filterIndex (\<lambda>colIndex. colIndex \<noteq> excludeCol))
       (filterIndex (\<lambda>rowIndex. rowIndex \<noteq> excludeRow) matrix)"

lemma filterIndex_nths: "filterIndex keep xs = nths xs {k. keep k}"
  by (simp add: filterIndex_def nths_def case_prod_unfold)

lemma nths_remove: "nths xs {k. k \<noteq> i} = take i xs @ drop (Suc i) xs"
proof (induction xs arbitrary: i)
  case Nil
  then show ?case by simp
next
  case (Cons x xs)
  show ?case
  proof (cases i)
    case 0
    then show ?thesis by (simp add: nths_Cons nths_all)
  next
    case (Suc i')
    with Cons.IH [of i'] show ?thesis by (simp add: nths_Cons)
  qed
qed

lemma filterIndex_take_drop: "filterIndex (\<lambda>k. k \<noteq> i) xs = take i xs @ drop (Suc i) xs"
  by (simp add: filterIndex_nths nths_remove)

lemma length_getMinor:
  "excludeRow < length matrix \<Longrightarrow> length (getMinor matrix excludeRow excludeCol) = length matrix - 1"
  by (simp add: getMinor_def filterIndex_take_drop)

lemma cell_SomeD: "cell matrix i j = Some v \<Longrightarrow> i < length matrix \<and> j < length (matrix ! i) \<and> v = matrix ! i ! j"
  by (auto simp: cell_def split: if_splits)

section \<open>laplaceExpansion.ts: LaplaceExpansion (floating point)\<close>

text \<open>
  The result \<open>None\<close> of a floating-point engine stands for a run that throws a TypeError
  (a row that does not exist is read) or that computes with \<^verbatim>\<open>undefined\<close>, NaN or an infinity,
  which the exact model of numbers does not contain. On square matrices neither happens.
  In expandByRow the minors are expanded along the row whose index the selector returns
  (whatever the type of the selected axis). The formula of the expansion that
  calculateDeterminant prints before it returns is a string made of numbers, with no
  exception of its own; it is left out here.
\<close>

function LaplaceExpansion_expandByRow :: "rat list list \<Rightarrow> nat \<Rightarrow> rat option" where
  "LaplaceExpansion_expandByRow matrix row =
     (let n = length matrix in
      if n = 1 then cell matrix 0 0
      else if n = 2 then
        do {
          a \<leftarrow> cell matrix 0 0;
          d \<leftarrow> cell matrix 1 1;
          b \<leftarrow> cell matrix 0 1;
          c \<leftarrow> cell matrix 1 0;
          Some (a * d - b * c)
        }
      else
        forM [0..<n] 0 (\<lambda>j determinant.
          do {
            a \<leftarrow> cell matrix row j;
            if \<bar>a\<bar> < tolerance then Some determinant
            else
              do {
                let minor = getMinor matrix row j;
                let sign = (- 1) ^ (row + j);
                minorDet \<leftarrow> LaplaceExpansion_expandByRow minor
                  (opt_index (LaplaceExpansion_findOptimalExpansionRowOrColumn minor));
                let cofactor = sign * minorDet;
                let contribution = a * cofactor;
                Some (determinant + contribution)
              }
          }))"
  by pat_completeness auto
termination LaplaceExpansion_expandByRow
  by (relation "measure (\<lambda>(matrix, row). length matrix)")
    (auto dest!: cell_SomeD simp: length_getMinor)

function LaplaceExpansion_expandByColumn :: "rat list list \<Rightarrow> nat \<Rightarrow> rat option" where
  "LaplaceExpansion_expandByColumn matrix col =
     (let n = length matrix in
      if n = 1 then cell matrix 0 0
      else if n = 2 then
        do {
          a \<leftarrow> cell matrix 0 0;
          d \<leftarrow> cell matrix 1 1;
          b \<leftarrow> cell matrix 0 1;
          c \<leftarrow> cell matrix 1 0;
          Some (a * d - b * c)
        }
      else
        forM [0..<n] 0 (\<lambda>i determinant.
          do {
            a \<leftarrow> cell matrix i col;
            if \<bar>a\<bar> < tolerance then Some determinant
            else
              do {
                let minor = getMinor matrix i col;
                let sign = (- 1) ^ (i + col);
                minorDet \<leftarrow> LaplaceExpansion_expandByColumn minor
                  (opt_index (LaplaceExpansion_findOptimalExpansionRowOrColumn minor));
                let cofactor = sign * minorDet;
                let contribution = a * cofactor;
                Some (determinant + contribution)
              }
          }))"
  by pat_completeness auto
termination LaplaceExpansion_expandByColumn
  by (relation "measure (\<lambda>(matrix, col). length matrix)")
    (auto dest!: cell_SomeD simp: length_getMinor)

declare LaplaceExpansion_expandByRow.simps [simp del]
declare LaplaceExpansion_expandByColumn.simps [simp del]

definition LaplaceExpansion_calculateDeterminant :: "rat list list \<Rightarrow> rat option" where
  "LaplaceExpansion_calculateDeterminant matrix =
     (let optimal = LaplaceExpansion_findOptimalExpansionRowOrColumn matrix
      in if opt_type optimal = Row
         then LaplaceExpansion_expandByRow matrix (opt_index optimal)
         else LaplaceExpansion_expandByColumn matrix (opt_index optimal))"

section \<open>Solutions and augmented matrices\<close>

text \<open>
  The interface \<^verbatim>\<open>Solution\<close>. An optional field that is absent is \<open>None\<close>. A variable is
  \<open>None\<close> when the floating-point back substitution divides by zero (the source stores
  an infinity or NaN there, and every later value computed from it is one too).
\<close>

record solution =
  variables :: "rat option list"
  fractionVariables :: "fraction list option"
  determinant :: "rat option"
  fractionDeterminant :: "fraction option"
  isUnique :: bool
  hasInfiniteSolutions :: bool
  hasNoSolution :: bool

text \<open>
  \<^verbatim>\<open>coefficientMatrix.map((row, i) => [...row, constantVector[i]])\<close>. A constant vector
  shorter than the matrix puts \<^verbatim>\<open>undefined\<close> into the last column; such inputs are outside the
  model (\<open>None\<close>).
\<close>

definition createAugmentedMatrix :: "'a list list \<Rightarrow> 'a list \<Rightarrow> 'a list list option" where
  "createAugmentedMatrix coefficientMatrix constantVector =
     (if length constantVector < length coefficientMatrix then None
      else Some (map (\<lambda>(row, i). row @ [constantVector ! i])
                  (zip coefficientMatrix [0..<length coefficientMatrix])))"

text \<open>\<^verbatim>\<open>[result[row1], result[row2]] = [result[row2], result[row1]]\<close> on rows that exist.\<close>

definition swapRows :: "'a list list \<Rightarrow> nat \<Rightarrow> nat \<Rightarrow> 'a list list option" where
  "swapRows matrix row1 row2 =
     (if row1 < length matrix \<and> row2 < length matrix
      then Some (matrix[row1 := matrix ! row2, row2 := matrix ! row1]) else None)"

section \<open>matrixMath.ts and gaussianElimination.ts: GaussianElimination (floating point)\<close>

definition MatrixMath_findPivot :: "rat list list \<Rightarrow> nat \<Rightarrow> nat \<Rightarrow> nat option" where
  "MatrixMath_findPivot matrix startRow col =
     do {
       v0 \<leftarrow> cell matrix startRow col;
       (maxRow, maxValue) \<leftarrow> forM [startRow + 1..<length matrix] (startRow, \<bar>v0\<bar>)
         (\<lambda>i (maxRow, maxValue).
            do {
              v \<leftarrow> cell matrix i col;
              let value = \<bar>v\<bar>;
              Some (if value > maxValue then (i, value) else (maxRow, maxValue))
            });
       Some maxRow
     }"






text \<open>
  GaussianElimination.backSubstitution and solve. \<^verbatim>\<open>Math.abs(x) > 1e-10\<close> is false when
  \<open>x\<close> is \<^verbatim>\<open>undefined\<close>. The numbers of the back substitution are \<open>rat option\<close>.
\<close>

definition bigCell :: "rat list list \<Rightarrow> nat \<Rightarrow> nat \<Rightarrow> bool" where
  "bigCell matrix i j = (case cell matrix i j of Some v \<Rightarrow> \<bar>v\<bar> > tolerance | None \<Rightarrow> False)"

definition num_sub :: "rat option \<Rightarrow> rat option \<Rightarrow> rat option" where
  "num_sub a b = do { u \<leftarrow> a; v \<leftarrow> b; Some (u - v) }"

definition num_mul :: "rat option \<Rightarrow> rat option \<Rightarrow> rat option" where
  "num_mul a b = do { u \<leftarrow> a; v \<leftarrow> b; Some (u * v) }"

definition num_div :: "rat option \<Rightarrow> rat option \<Rightarrow> rat option" where
  "num_div a b = do { u \<leftarrow> a; v \<leftarrow> b; if v = 0 then None else Some (u / v) }"

definition GaussianElimination_backSubstitution :: "rat list list \<Rightarrow> solution" where
  "GaussianElimination_backSubstitution augmentedMatrix =
     (let n = length augmentedMatrix in
      if list_ex (\<lambda>i. list_all (\<lambda>j. \<not> bigCell augmentedMatrix i j) [0..<n]
                       \<and> bigCell augmentedMatrix i n) [0..<n]
      then \<lparr>variables = [], fractionVariables = None, determinant = None,
             fractionDeterminant = None, isUnique = False, hasInfiniteSolutions = False,
             hasNoSolution = True\<rparr>
      else
        let rank = length (filter (\<lambda>i. list_ex (\<lambda>j. bigCell augmentedMatrix i j) [0..<n]) [0..<n])
        in if rank < n
           then \<lparr>variables = [], fractionVariables = None, determinant = None,
                  fractionDeterminant = None, isUnique = False, hasInfiniteSolutions = True,
                  hasNoSolution = False\<rparr>
           else
             let vars = fold (\<lambda>i variables.
                          let sum = fold (\<lambda>j sum. num_sub sum
                                      (num_mul (cell augmentedMatrix i j) (variables ! j)))
                                      [i + 1..<n] (cell augmentedMatrix i n)
                          in variables[i := num_div sum (cell augmentedMatrix i i)])
                        (rev [0..<n]) (replicate n (Some 0))
             in \<lparr>variables = vars, fractionVariables = None, determinant = None,
                  fractionDeterminant = None, isUnique = True, hasInfiniteSolutions = False,
                  hasNoSolution = False\<rparr>)"

definition GaussianElimination_solve :: "rat list list \<Rightarrow> rat list \<Rightarrow> solution option" where
  "GaussianElimination_solve coefficientMatrix constantVector =
     do {
       let n = length coefficientMatrix;
       augmentedMatrix \<leftarrow> createAugmentedMatrix coefficientMatrix constantVector;
       eliminated \<leftarrow> forM [0..<n - 1] augmentedMatrix
         (\<lambda>i augmentedMatrix.
            do {
              pivotRow \<leftarrow> MatrixMath_findPivot augmentedMatrix i i;
              p \<leftarrow> cell augmentedMatrix pivotRow i;
              if \<bar>p\<bar> < tolerance then Some augmentedMatrix
              else
                do {
                  swapped \<leftarrow> (if pivotRow \<noteq> i then swapRows augmentedMatrix i pivotRow
                              else Some augmentedMatrix);
                  forM [i + 1..<n] swapped
                    (\<lambda>j augmentedMatrix.
                       do {
                         a \<leftarrow> cell augmentedMatrix j i;
                         d \<leftarrow> cell augmentedMatrix i i;
                         if d = 0 then None
                         else
                           let factor = - a / d
                           in if \<bar>factor\<bar> > tolerance
                              then forM [0..<n + 1] augmentedMatrix
                                (\<lambda>k augmentedMatrix.
                                   do {
                                     t \<leftarrow> cell augmentedMatrix j k;
                                     s \<leftarrow> cell augmentedMatrix i k;
                                     Some (augmentedMatrix
                                       [j := (augmentedMatrix ! j)[k := t + factor * s]])
                                   })
                              else Some augmentedMatrix
                       })
                }
            });
       Some (GaussianElimination_backSubstitution eliminated)
     }"

text \<open>
  LaplaceExpansion.solveByCramersRule. The modified matrix has column \<open>i\<close> replaced by the
  constants.
\<close>

definition replaceColumn :: "'a list list \<Rightarrow> nat \<Rightarrow> 'a list \<Rightarrow> 'a list list option" where
  "replaceColumn matrix i constantVector =
     (if length constantVector < length matrix then None
      else Some (map (\<lambda>(row, rowIndex).
                   map (\<lambda>(val, colIndex). if colIndex = i then constantVector ! rowIndex else val)
                     (zip row [0..<length row]))
                 (zip matrix [0..<length matrix])))"

definition LaplaceExpansion_solveByCramersRule :: "rat list list \<Rightarrow> rat list \<Rightarrow> solution option" where
  "LaplaceExpansion_solveByCramersRule coefficientMatrix constantVector =
     do {
       let n = length coefficientMatrix;
       mainDeterminant \<leftarrow> LaplaceExpansion_calculateDeterminant coefficientMatrix;
       if \<bar>mainDeterminant\<bar> < tolerance
       then Some \<lparr>variables = [], fractionVariables = None, determinant = Some mainDeterminant,
                  fractionDeterminant = None, isUnique = False, hasInfiniteSolutions = True,
                  hasNoSolution = False\<rparr>
       else
         do {
           vars \<leftarrow> forM [0..<n] []
             (\<lambda>i variables.
                do {
                  modifiedMatrix \<leftarrow> replaceColumn coefficientMatrix i constantVector;
                  variableDeterminant \<leftarrow> LaplaceExpansion_calculateDeterminant modifiedMatrix;
                  let variableValue = variableDeterminant / mainDeterminant;
                  Some (variables @ [Some variableValue])
                });
           Some \<lparr>variables = vars, fractionVariables = None, determinant = Some mainDeterminant,
                  fractionDeterminant = None, isUnique = True, hasInfiniteSolutions = False,
                  hasNoSolution = False\<rparr>
         }
     }"


section \<open>fraction.ts: FractionMatrixUtils\<close>

text \<open>
  \<open>None\<close> in the exact engines is a thrown exception: the Error of the Fraction
  constructor or of \<^verbatim>\<open>divide\<close>, or the TypeError of a method call on \<^verbatim>\<open>undefined\<close>.
  \<^verbatim>\<open>clone\<close> goes through the constructor.
\<close>

definition FractionMatrixUtils_fromNumberMatrix :: "rat list list \<Rightarrow> fraction list list option" where
  "FractionMatrixUtils_fromNumberMatrix matrix =
     those (map (\<lambda>row. those (map (\<lambda>num. Fraction_fromDecimal num 10000) row)) matrix)"

definition FractionMatrixUtils_fromNumberVector :: "rat list \<Rightarrow> fraction list option" where
  "FractionMatrixUtils_fromNumberVector vector =
     those (map (\<lambda>num. Fraction_fromDecimal num 10000) vector)"

definition FractionMatrixUtils_toNumberVector :: "fraction list \<Rightarrow> rat list" where
  "FractionMatrixUtils_toNumberVector vector = map Fraction_toDecimal vector"

definition FractionMatrixUtils_cloneMatrix :: "fraction list list \<Rightarrow> fraction list list option" where
  "FractionMatrixUtils_cloneMatrix matrix =
     those (map (\<lambda>row. those (map Fraction_clone row)) matrix)"

definition FractionMatrixUtils_swapRows ::
  "fraction list list \<Rightarrow> nat \<Rightarrow> nat \<Rightarrow> fraction list list option" where
  "FractionMatrixUtils_swapRows matrix row1 row2 =
     do { result \<leftarrow> FractionMatrixUtils_cloneMatrix matrix; swapRows result row1 row2 }"

definition FractionMatrixUtils_addRowMultiple ::
  "fraction list list \<Rightarrow> nat \<Rightarrow> nat \<Rightarrow> fraction \<Rightarrow> fraction list list option" where
  "FractionMatrixUtils_addRowMultiple matrix targetRow sourceRow multiplier =
     do {
       result \<leftarrow> FractionMatrixUtils_cloneMatrix matrix;
       if matrix = [] then None
       else forM [0..<length (matrix ! 0)] result
         (\<lambda>j result.
            do {
              s \<leftarrow> cell result sourceRow j;
              product \<leftarrow> Fraction_multiply s multiplier;
              t \<leftarrow> cell result targetRow j;
              sum \<leftarrow> Fraction_add t product;
              Some (result[targetRow := (result ! targetRow)[j := sum]])
            })
     }"

definition FractionMatrixUtils_findPivot :: "fraction list list \<Rightarrow> nat \<Rightarrow> nat \<Rightarrow> nat option" where
  "FractionMatrixUtils_findPivot matrix startRow col =
     do {
       v0 \<leftarrow> cell matrix startRow col;
       maxValue0 \<leftarrow> Fraction_abs v0;
       (maxRow, maxValue) \<leftarrow> forM [startRow + 1..<length matrix] (startRow, maxValue0)
         (\<lambda>i (maxRow, maxValue).
            do {
              v \<leftarrow> cell matrix i col;
              value \<leftarrow> Fraction_abs v;
              Some (if \<not> Fraction_isZero value
                       \<and> (Fraction_isZero maxValue
                          \<or> Fraction_toDecimal value > Fraction_toDecimal maxValue)
                    then (i, value) else (maxRow, maxValue))
            });
       Some maxRow
     }"

section \<open>LaplaceExpansionFractions (exact)\<close>

text \<open>
  The determinant engines return the Fraction and its decimal value. In expandByRow the
  minors are expanded along their row 0; in expandByColumn along the column whose index
  the selector returns.
\<close>

record determinant_result =
  number_determinant :: rat
  fraction_determinant :: fraction

function LaplaceExpansionFractions_expandByRow :: "fraction list list \<Rightarrow> nat \<Rightarrow> fraction option" where
  "LaplaceExpansionFractions_expandByRow matrix row =
     (let n = length matrix in
      if n = 1 then do { a \<leftarrow> cell matrix 0 0; Fraction_clone a }
      else if n = 2 then
        do {
          a \<leftarrow> cell matrix 0 0;
          d \<leftarrow> cell matrix 1 1;
          term1 \<leftarrow> Fraction_multiply a d;
          b \<leftarrow> cell matrix 0 1;
          c \<leftarrow> cell matrix 1 0;
          term2 \<leftarrow> Fraction_multiply b c;
          Fraction_subtract term1 term2
        }
      else
        do {
          zero \<leftarrow> new_Fraction 0 1;
          forM [0..<n] zero (\<lambda>j determinant.
            do {
              a \<leftarrow> cell matrix row j;
              if Fraction_isZero a then Some determinant
              else
                do {
                  let minor = getMinor matrix row j;
                  sign \<leftarrow> new_Fraction ((- 1) ^ (row + j)) 1;
                  minorDet \<leftarrow> LaplaceExpansionFractions_expandByRow minor 0;
                  cofactor \<leftarrow> Fraction_multiply sign minorDet;
                  contribution \<leftarrow> Fraction_multiply a cofactor;
                  Fraction_add determinant contribution
                }
            })
        })"
  by pat_completeness auto
termination LaplaceExpansionFractions_expandByRow
  by (relation "measure (\<lambda>(matrix, row). length matrix)")
    (auto dest!: cell_SomeD simp: length_getMinor)

function LaplaceExpansionFractions_expandByColumn :: "fraction list list \<Rightarrow> nat \<Rightarrow> fraction option" where
  "LaplaceExpansionFractions_expandByColumn matrix col =
     (let n = length matrix in
      if n = 1 then do { a \<leftarrow> cell matrix 0 0; Fraction_clone a }
      else if n = 2 then
        do {
          a \<leftarrow> cell matrix 0 0;
          d \<leftarrow> cell matrix 1 1;
          term1 \<leftarrow> Fraction_multiply a d;
          b \<leftarrow> cell matrix 0 1;
          c \<leftarrow> cell matrix 1 0;
          term2 \<leftarrow> Fraction_multiply b c;
          Fraction_subtract term1 term2
        }
      else
        do {
          zero \<leftarrow> new_Fraction 0 1;
          forM [0..<n] zero (\<lambda>i determinant.
            do {
              a \<leftarrow> cell matrix i col;
              if Fraction_isZero a then Some determinant
              else
                do {
                  let minor = getMinor matrix i col;
                  sign \<leftarrow> new_Fraction ((- 1) ^ (i + col)) 1;
                  optimal \<leftarrow> LaplaceExpansionFractions_findOptimalExpansionRowOrColumn minor;
                  minorDet \<leftarrow> LaplaceExpansionFractions_expandByColumn minor (opt_index optimal);
                  cofactor \<leftarrow> Fraction_multiply sign minorDet;
                  contribution \<leftarrow> Fraction_multiply a cofactor;
                  Fraction_add determinant contribution
                }
            })
        })"
  by pat_completeness auto
termination LaplaceExpansionFractions_expandByColumn
  by (relation "measure (\<lambda>(matrix, col). length matrix)")
    (auto dest!: cell_SomeD simp: length_getMinor)

declare LaplaceExpansionFractions_expandByRow.simps [simp del]
declare LaplaceExpansionFractions_expandByColumn.simps [simp del]

text \<open>
  Before it returns, calculateDeterminant prints the formula of the expansion along the
  chosen axis. The formula is a string; the model keeps its terms (the sign, the absolute
  decimal value of the entry and the determinant of its minor, which
  calculateSimpleDeterminant computes once more) and with them the exceptions that
  computing it can throw. The result of calculateDeterminant in the model holds the two
  determinants only.
\<close>

function LaplaceExpansionFractions_calculateSimpleDeterminant ::
  "fraction list list \<Rightarrow> fraction option" where
  "LaplaceExpansionFractions_calculateSimpleDeterminant matrix =
     (let n = length matrix in
      if n = 1 then do { a \<leftarrow> cell matrix 0 0; Fraction_clone a }
      else if n = 2 then
        do {
          a \<leftarrow> cell matrix 0 0;
          d \<leftarrow> cell matrix 1 1;
          term1 \<leftarrow> Fraction_multiply a d;
          b \<leftarrow> cell matrix 0 1;
          c \<leftarrow> cell matrix 1 0;
          term2 \<leftarrow> Fraction_multiply b c;
          Fraction_subtract term1 term2
        }
      else
        do {
          optimal \<leftarrow> LaplaceExpansionFractions_findOptimalExpansionRowOrColumn matrix;
          zero \<leftarrow> new_Fraction 0 1;
          if opt_type optimal = Row then
            forM [0..<n] zero (\<lambda>j determinant.
              do {
                a \<leftarrow> cell matrix (opt_index optimal) j;
                if Fraction_isZero a then Some determinant
                else
                  do {
                    let minor = getMinor matrix (opt_index optimal) j;
                    sign \<leftarrow> new_Fraction ((- 1) ^ (opt_index optimal + j)) 1;
                    minorDet \<leftarrow> LaplaceExpansionFractions_calculateSimpleDeterminant minor;
                    signed \<leftarrow> Fraction_multiply sign a;
                    contribution \<leftarrow> Fraction_multiply signed minorDet;
                    Fraction_add determinant contribution
                  }
              })
          else
            forM [0..<n] zero (\<lambda>i determinant.
              do {
                a \<leftarrow> cell matrix i (opt_index optimal);
                if Fraction_isZero a then Some determinant
                else
                  do {
                    let minor = getMinor matrix i (opt_index optimal);
                    sign \<leftarrow> new_Fraction ((- 1) ^ (i + opt_index optimal)) 1;
                    minorDet \<leftarrow> LaplaceExpansionFractions_calculateSimpleDeterminant minor;
                    signed \<leftarrow> Fraction_multiply sign a;
                    contribution \<leftarrow> Fraction_multiply signed minorDet;
                    Fraction_add determinant contribution
                  }
              })
        })"
  by pat_completeness auto
termination LaplaceExpansionFractions_calculateSimpleDeterminant
  by (relation "measure length") (auto dest!: cell_SomeD simp: length_getMinor)

declare LaplaceExpansionFractions_calculateSimpleDeterminant.simps [simp del]

definition LaplaceExpansionFractions_buildExpansionFormulaWithValues ::
  "fraction list list \<Rightarrow> nat \<Rightarrow> axis \<Rightarrow> (int \<times> rat \<times> fraction) list option" where
  "LaplaceExpansionFractions_buildExpansionFormulaWithValues matrix index type =
     (let n = length matrix in
      if type = Row then
        those (map (\<lambda>j.
          do {
            let minor = getMinor matrix index j;
            minorDet \<leftarrow> LaplaceExpansionFractions_calculateSimpleDeterminant minor;
            value \<leftarrow> cell matrix index j;
            Some ((- 1) ^ (index + j), \<bar>Fraction_toDecimal value\<bar>, minorDet)
          }) [0..<n])
      else
        those (map (\<lambda>i.
          do {
            let minor = getMinor matrix i index;
            minorDet \<leftarrow> LaplaceExpansionFractions_calculateSimpleDeterminant minor;
            value \<leftarrow> cell matrix i index;
            Some ((- 1) ^ (i + index), \<bar>Fraction_toDecimal value\<bar>, minorDet)
          }) [0..<n]))"

definition LaplaceExpansionFractions_calculateDeterminant :: "rat list list \<Rightarrow> determinant_result option" where
  "LaplaceExpansionFractions_calculateDeterminant matrix =
     do {
       fractionMatrix \<leftarrow> FractionMatrixUtils_fromNumberMatrix matrix;
       optimal \<leftarrow> LaplaceExpansionFractions_findOptimalExpansionRowOrColumn fractionMatrix;
       result \<leftarrow> (if opt_type optimal = Row
                  then LaplaceExpansionFractions_expandByRow fractionMatrix (opt_index optimal)
                  else LaplaceExpansionFractions_expandByColumn fractionMatrix (opt_index optimal));
       expansionFormula \<leftarrow> LaplaceExpansionFractions_buildExpansionFormulaWithValues
         fractionMatrix (opt_index optimal) (opt_type optimal);
       Some \<lparr>number_determinant = Fraction_toDecimal result, fraction_determinant = result\<rparr>
     }"

section \<open>gaussianElimination.ts: GaussianEliminationFractions (exact)\<close>

function GaussianEliminationFractions_eliminate ::
  "nat \<Rightarrow> nat \<Rightarrow> fraction list list \<Rightarrow> nat \<Rightarrow> determinant_result option" where
  "GaussianEliminationFractions_eliminate n i workingMatrix swapCount =
     (if i < n - 1 then
        do {
          pivotRow \<leftarrow> FractionMatrixUtils_findPivot workingMatrix i i;
          p \<leftarrow> cell workingMatrix pivotRow i;
          if Fraction_isZero p
          then do { zero \<leftarrow> new_Fraction 0 1;
                    Some \<lparr>number_determinant = 0, fraction_determinant = zero\<rparr> }
          else
            do {
              (swapped, swapCount') \<leftarrow>
                (if pivotRow \<noteq> i
                 then do { m \<leftarrow> FractionMatrixUtils_swapRows workingMatrix i pivotRow;
                           Some (m, swapCount + 1) }
                 else Some (workingMatrix, swapCount));
              eliminated \<leftarrow> forM [i + 1..<n] swapped
                (\<lambda>j workingMatrix.
                   do {
                     a \<leftarrow> cell workingMatrix j i;
                     if \<not> Fraction_isZero a then
                       do {
                         negated \<leftarrow> Fraction_negate a;
                         d \<leftarrow> cell workingMatrix i i;
                         factor \<leftarrow> Fraction_divide negated d;
                         FractionMatrixUtils_addRowMultiple workingMatrix j i factor
                       }
                     else Some workingMatrix
                   });
              GaussianEliminationFractions_eliminate n (i + 1) eliminated swapCount'
            }
        }
      else
        do {
          one \<leftarrow> new_Fraction 1 1;
          product \<leftarrow> forM [0..<n] one
            (\<lambda>i determinant. do { d \<leftarrow> cell workingMatrix i i; Fraction_multiply determinant d });
          determinant \<leftarrow> (if swapCount mod 2 = 1 then Fraction_negate product else Some product);
          Some \<lparr>number_determinant = Fraction_toDecimal determinant,
                 fraction_determinant = determinant\<rparr>
        })"
  by pat_completeness auto
termination GaussianEliminationFractions_eliminate
  by (relation "measure (\<lambda>(n, i, workingMatrix, swapCount). n - i)") auto

declare GaussianEliminationFractions_eliminate.simps [simp del]

definition GaussianEliminationFractions_calculateDeterminant ::
  "rat list list \<Rightarrow> determinant_result option" where
  "GaussianEliminationFractions_calculateDeterminant matrix =
     do {
       workingMatrix \<leftarrow> FractionMatrixUtils_fromNumberMatrix matrix;
       GaussianEliminationFractions_eliminate (length matrix) 0 workingMatrix 0
     }"


text \<open>
  GaussianEliminationFractions.backSubstitution and solve. The scan of a row stops at its
  first non-zero coefficient (\<^verbatim>\<open>break\<close>); the scan of the rows returns at the first row
  \<open>[0 ... 0 | b]\<close> with \<open>b\<close> not zero. The array \<^verbatim>\<open>variables\<close> starts with holes.
\<close>

primrec allZerosScan :: "fraction list list \<Rightarrow> nat \<Rightarrow> nat list \<Rightarrow> bool option" where
  "allZerosScan augmentedMatrix i [] = Some True"
| "allZerosScan augmentedMatrix i (j # js) =
     do {
       v \<leftarrow> cell augmentedMatrix i j;
       if \<not> Fraction_isZero v then Some False else allZerosScan augmentedMatrix i js
     }"

primrec inconsistentScan :: "fraction list list \<Rightarrow> nat \<Rightarrow> nat list \<Rightarrow> bool option" where
  "inconsistentScan augmentedMatrix n [] = Some False"
| "inconsistentScan augmentedMatrix n (i # is) =
     do {
       allZeros \<leftarrow> allZerosScan augmentedMatrix i [0..<n];
       found \<leftarrow> (if allZeros then do { b \<leftarrow> cell augmentedMatrix i n; Some (\<not> Fraction_isZero b) }
                 else Some False);
       if found then Some True else inconsistentScan augmentedMatrix n is
     }"

definition GaussianEliminationFractions_backSubstitution ::
  "fraction list list \<Rightarrow> solution option" where
  "GaussianEliminationFractions_backSubstitution augmentedMatrix =
     do {
       let n = length augmentedMatrix;
       inconsistent \<leftarrow> inconsistentScan augmentedMatrix n [0..<n];
       if inconsistent
       then Some \<lparr>variables = [], fractionVariables = None, determinant = None,
                  fractionDeterminant = None, isUnique = False, hasInfiniteSolutions = False,
                  hasNoSolution = True\<rparr>
       else
         do {
           rank \<leftarrow> forM [0..<n] (0::nat)
             (\<lambda>i rank. do { allZeros \<leftarrow> allZerosScan augmentedMatrix i [0..<n];
                               Some (if \<not> allZeros then rank + 1 else rank) });
           if rank < n
           then Some \<lparr>variables = [], fractionVariables = None, determinant = None,
                      fractionDeterminant = None, isUnique = False, hasInfiniteSolutions = True,
                      hasNoSolution = False\<rparr>
           else
             do {
               vars \<leftarrow> forM (rev [0..<n]) (replicate n None)
                 (\<lambda>i variables.
                    do {
                      b \<leftarrow> cell augmentedMatrix i n;
                      sum0 \<leftarrow> Fraction_clone b;
                      sum \<leftarrow> forM [i + 1..<n] sum0
                        (\<lambda>j sum.
                           do {
                             a \<leftarrow> cell augmentedMatrix i j;
                             x \<leftarrow> variables ! j;
                             product \<leftarrow> Fraction_multiply a x;
                             Fraction_subtract sum product
                           });
                      d \<leftarrow> cell augmentedMatrix i i;
                      value \<leftarrow> Fraction_divide sum d;
                      Some (variables[i := Some value])
                    });
               fvars \<leftarrow> those vars;
               Some \<lparr>variables = map (Some \<circ> Fraction_toDecimal) fvars,
                      fractionVariables = Some fvars, determinant = None,
                      fractionDeterminant = None, isUnique = True,
                      hasInfiniteSolutions = False, hasNoSolution = False\<rparr>
             }
         }
     }"

definition GaussianEliminationFractions_solve :: "rat list list \<Rightarrow> rat list \<Rightarrow> solution option" where
  "GaussianEliminationFractions_solve coefficientMatrix constantVector =
     do {
       let n = length coefficientMatrix;
       fractionMatrix \<leftarrow> FractionMatrixUtils_fromNumberMatrix coefficientMatrix;
       fractionConstants \<leftarrow> FractionMatrixUtils_fromNumberVector constantVector;
       augmentedMatrix \<leftarrow> createAugmentedMatrix fractionMatrix fractionConstants;
       eliminated \<leftarrow> forM [0..<n - 1] augmentedMatrix
         (\<lambda>i augmentedMatrix.
            do {
              pivotRow \<leftarrow> FractionMatrixUtils_findPivot augmentedMatrix i i;
              p \<leftarrow> cell augmentedMatrix pivotRow i;
              if Fraction_isZero p then Some augmentedMatrix
              else
                do {
                  swapped \<leftarrow> (if pivotRow \<noteq> i
                              then FractionMatrixUtils_swapRows augmentedMatrix i pivotRow
                              else Some augmentedMatrix);
                  forM [i + 1..<n] swapped
                    (\<lambda>j augmentedMatrix.
                       do {
                         a \<leftarrow> cell augmentedMatrix j i;
                         if \<not> Fraction_isZero a then
                           do {
                             negated \<leftarrow> Fraction_negate a;
                             d \<leftarrow> cell augmentedMatrix i i;
                             factor \<leftarrow> Fraction_divide negated d;
                             FractionMatrixUtils_addRowMultiple augmentedMatrix j i factor
                           }
                         else Some augmentedMatrix
                       })
                }
            });
       GaussianEliminationFractions_backSubstitution eliminated
     }"

text \<open>
  LaplaceExpansionFractions.solveByCramersRule. The first step converts the augmented
  matrix to numbers, which throws on an \<^verbatim>\<open>undefined\<close> constant. Each modified matrix is
  converted to numbers and back by calculateDeterminant.
\<close>

definition replaceColumnFraction ::
  "fraction list list \<Rightarrow> nat \<Rightarrow> fraction list \<Rightarrow> fraction list list option" where
  "replaceColumnFraction matrix i constantVector =
     (if length constantVector < length matrix then None
      else those (map (\<lambda>(row, rowIndex).
                   those (map (\<lambda>(val, colIndex).
                     if colIndex = i then Some (constantVector ! rowIndex) else Fraction_clone val)
                     (zip row [0..<length row])))
                 (zip matrix [0..<length matrix])))"


definition LaplaceExpansionFractions_solveByCramersRule ::
  "rat list list \<Rightarrow> rat list \<Rightarrow> solution option" where
  "LaplaceExpansionFractions_solveByCramersRule coefficientMatrix constantVector =
     do {
       let n = length coefficientMatrix;
       fractionMatrix \<leftarrow> FractionMatrixUtils_fromNumberMatrix coefficientMatrix;
       fractionConstants \<leftarrow> FractionMatrixUtils_fromNumberVector constantVector;
       augmentedMatrix \<leftarrow> createAugmentedMatrix fractionMatrix fractionConstants;
       mainDetResult \<leftarrow> LaplaceExpansionFractions_calculateDeterminant coefficientMatrix;
       let mainDeterminant = fraction_determinant mainDetResult;
       if Fraction_isZero mainDeterminant
       then Some \<lparr>variables = [], fractionVariables = None,
                  determinant = Some (Fraction_toDecimal mainDeterminant),
                  fractionDeterminant = Some mainDeterminant, isUnique = False,
                  hasInfiniteSolutions = True, hasNoSolution = False\<rparr>
       else
         do {
           vars \<leftarrow> forM [0..<n] []
             (\<lambda>i variables.
                do {
                  modifiedMatrix \<leftarrow> replaceColumnFraction fractionMatrix i fractionConstants;
                  varDetResult \<leftarrow> LaplaceExpansionFractions_calculateDeterminant
                    (map (map Fraction_toDecimal) modifiedMatrix);
                  let variableDeterminant = fraction_determinant varDetResult;
                  variableValue \<leftarrow> Fraction_divide variableDeterminant mainDeterminant;
                  Some (variables @ [variableValue])
                });
           Some \<lparr>variables = map (Some \<circ> Fraction_toDecimal) vars,
                  fractionVariables = Some vars,
                  determinant = Some (Fraction_toDecimal mainDeterminant),
                  fractionDeterminant = Some mainDeterminant, isUnique = True,
                  hasInfiniteSolutions = False, hasNoSolution = False\<rparr>
         }
     }"

section \<open>GaussJordanFractions (exact)\<close>

text \<open>
  GaussJordanFractions.solve works on one augmented matrix in place. \<open>rowCombine\<close> is
  the body shared by the forward and the backward elimination: row \<open>k\<close> minus
  \<open>factor\<close> times row \<open>i\<close>, with \<open>factor = augmentedMatrix[k][i]\<close> read before the row
  changes.
\<close>

definition rowCombine ::
  "fraction list list \<Rightarrow> nat \<Rightarrow> nat \<Rightarrow> nat \<Rightarrow> fraction list list option" where
  "rowCombine augmentedMatrix m k i =
     do {
       factor \<leftarrow> cell augmentedMatrix k i;
       if \<not> Fraction_isZero factor
       then forM [0..<m] augmentedMatrix
         (\<lambda>j augmentedMatrix.
            do {
              t \<leftarrow> cell augmentedMatrix k j;
              s \<leftarrow> cell augmentedMatrix i j;
              product \<leftarrow> Fraction_multiply factor s;
              difference \<leftarrow> Fraction_subtract t product;
              Some (augmentedMatrix[k := (augmentedMatrix ! k)[j := difference]])
            })
       else Some augmentedMatrix
     }"

text \<open>Partial pivoting for column \<open>i\<close>: the search for \<open>maxRow\<close> and the swap.\<close>

definition GaussJordanFractions_pivot ::
  "nat \<Rightarrow> nat \<Rightarrow> fraction list list \<Rightarrow> fraction list list option" where
  "GaussJordanFractions_pivot n i augmentedMatrix =
     do {
       maxRow \<leftarrow> forM [i + 1..<n] i
         (\<lambda>k maxRow.
            do {
              c \<leftarrow> cell augmentedMatrix k i;
              currentAbs \<leftarrow> Fraction_abs c;
              b \<leftarrow> cell augmentedMatrix maxRow i;
              maxAbs \<leftarrow> Fraction_abs b;
              Some (if Fraction_toDecimal currentAbs > Fraction_toDecimal maxAbs
                    then k else maxRow)
            });
       if maxRow \<noteq> i then swapRows augmentedMatrix i maxRow else Some augmentedMatrix
     }"

text \<open>The rest of the pass for column \<open>i\<close>: normalise the pivot row, clear the column below.\<close>

definition GaussJordanFractions_reduce ::
  "nat \<Rightarrow> nat \<Rightarrow> nat \<Rightarrow> fraction list list \<Rightarrow> fraction \<Rightarrow> fraction list list option" where
  "GaussJordanFractions_reduce n m i augmentedMatrix pivot =
     do {
       one \<leftarrow> new_Fraction 1 1;
       normalized \<leftarrow>
         (if \<not> Fraction_equals pivot one
          then forM [0..<m] augmentedMatrix
            (\<lambda>j augmentedMatrix.
               do {
                 v \<leftarrow> cell augmentedMatrix i j;
                 q \<leftarrow> Fraction_divide v pivot;
                 Some (augmentedMatrix[i := (augmentedMatrix ! i)[j := q]])
               })
          else Some augmentedMatrix);
       forM [i + 1..<n] normalized (\<lambda>k augmentedMatrix. rowCombine augmentedMatrix m k i)
     }"

text \<open>The Solution returned from inside the forward phase.\<close>

definition noSolution :: solution where
  "noSolution = \<lparr>variables = [], fractionVariables = Some [], determinant = None,
                   fractionDeterminant = None, isUnique = False,
                   hasInfiniteSolutions = False, hasNoSolution = True\<rparr>"

datatype 'a loop_result = Return solution | Continue 'a

function GaussJordanFractions_forward ::
  "nat \<Rightarrow> nat \<Rightarrow> nat \<Rightarrow> fraction list list \<Rightarrow> fraction list list loop_result option" where
  "GaussJordanFractions_forward n m i augmentedMatrix =
     (if i < n then
        do {
          swapped \<leftarrow> GaussJordanFractions_pivot n i augmentedMatrix;
          pivot \<leftarrow> cell swapped i i;
          if Fraction_isZero pivot then Some (Return noSolution)
          else
            do {
              eliminated \<leftarrow> GaussJordanFractions_reduce n m i swapped pivot;
              GaussJordanFractions_forward n m (i + 1) eliminated
            }
        }
      else Some (Continue augmentedMatrix))"
  by pat_completeness auto
termination GaussJordanFractions_forward
  by (relation "measure (\<lambda>(n, m, i, augmentedMatrix). n - i)") auto

declare GaussJordanFractions_forward.simps [simp del]

text \<open>
  The forward phase, started at column \<open>i\<close> on \<open>a\<close>, arrives at column \<open>k\<close> with the
  matrix \<open>a'\<close> (no earlier column has returned).
\<close>

inductive GaussJordanFractions_arrives ::
  "nat \<Rightarrow> nat \<Rightarrow> nat \<Rightarrow> fraction list list \<Rightarrow> nat \<Rightarrow> fraction list list \<Rightarrow> bool" where
  start: "GaussJordanFractions_arrives n m i a i a"
| pass: "GaussJordanFractions_arrives n m i a k a' \<Longrightarrow> k < n
         \<Longrightarrow> GaussJordanFractions_pivot n k a' = Some swapped
         \<Longrightarrow> cell swapped k k = Some pivot \<Longrightarrow> \<not> Fraction_isZero pivot
         \<Longrightarrow> GaussJordanFractions_reduce n m k swapped pivot = Some a''
         \<Longrightarrow> GaussJordanFractions_arrives n m i a (k + 1) a''"

text \<open>
  \<^verbatim>\<open>const m = augmentedMatrix[0].length\<close> throws on the empty matrix. The backward phase
  runs \<open>i\<close> from \<open>n - 1\<close> down to 0 and \<open>k\<close> from \<open>i - 1\<close> down to 0.
\<close>

definition GaussJordanFractions_solve :: "rat list list \<Rightarrow> rat list \<Rightarrow> solution option" where
  "GaussJordanFractions_solve matrix constants =
     do {
       fractionMatrix \<leftarrow> FractionMatrixUtils_fromNumberMatrix matrix;
       fractionConstants \<leftarrow> FractionMatrixUtils_fromNumberVector constants;
       augmentedMatrix \<leftarrow> createAugmentedMatrix fractionMatrix fractionConstants;
       let n = length matrix;
       if augmentedMatrix = [] then None
       else
         do {
           let m = length (augmentedMatrix ! 0);
           phase1 \<leftarrow> GaussJordanFractions_forward n m 0 augmentedMatrix;
           case phase1 of
             Return solution \<Rightarrow> Some solution
           | Continue echelon \<Rightarrow>
               do {
                 reduced \<leftarrow> forM (rev [0..<n]) echelon
                   (\<lambda>i augmentedMatrix.
                      forM (rev [0..<i]) augmentedMatrix
                        (\<lambda>k augmentedMatrix. rowCombine augmentedMatrix m k i));
                 fractionSolution \<leftarrow> forM [0..<n] []
                   (\<lambda>i fractionSolution.
                      do { v \<leftarrow> cell reduced i (m - 1); Some (fractionSolution @ [v]) });
                 Some \<lparr>variables = map Some (FractionMatrixUtils_toNumberVector fractionSolution),
                        fractionVariables = Some fractionSolution, determinant = Some 1,
                        fractionDeterminant = None, isUnique = True,
                        hasInfiniteSolutions = False, hasNoSolution = False\<rparr>
               }
         }
     }"


section \<open>Properties of the solvers\<close>

text \<open>
  Exactly one of the three flags of a Solution is true, and \<open>variables\<close> is empty unless
  \<open>isUnique\<close> is.
\<close>

definition flags_ok :: "solution \<Rightarrow> bool" where
  "flags_ok s =
     (((isUnique s \<and> \<not> hasInfiniteSolutions s \<and> \<not> hasNoSolution s)
       \<or> (\<not> isUnique s \<and> hasInfiniteSolutions s \<and> \<not> hasNoSolution s)
       \<or> (\<not> isUnique s \<and> \<not> hasInfiniteSolutions s \<and> hasNoSolution s))
      \<and> (isUnique s \<or> variables s = []))"

lemma GaussianElimination_backSubstitution_flags:
  "flags_ok (GaussianElimination_backSubstitution a)"
  by (simp add: GaussianElimination_backSubstitution_def flags_ok_def Let_def)

lemma GaussianElimination_solve_flags:
  "GaussianElimination_solve A b = Some s \<Longrightarrow> flags_ok s"
  by (auto simp: GaussianElimination_solve_def GaussianElimination_backSubstitution_flags Let_def
      split: Option.bind_splits)

lemma GaussianEliminationFractions_backSubstitution_flags:
  "GaussianEliminationFractions_backSubstitution a = Some s \<Longrightarrow> flags_ok s"
  by (auto simp: GaussianEliminationFractions_backSubstitution_def flags_ok_def Let_def
      split: Option.bind_splits if_splits)

lemma GaussianEliminationFractions_solve_flags:
  "GaussianEliminationFractions_solve A b = Some s \<Longrightarrow> flags_ok s"
  by (auto simp: GaussianEliminationFractions_solve_def Let_def
      dest: GaussianEliminationFractions_backSubstitution_flags split: Option.bind_splits)

lemma GaussJordanFractions_forward_Return:
  "GaussJordanFractions_forward n m i a = Some (Return s) \<Longrightarrow> s = noSolution"
proof (induction n m i a rule: GaussJordanFractions_forward.induct)
  case (1 n m i a)
  from "1.prems" show ?case
    by (subst (asm) GaussJordanFractions_forward.simps)
      (auto split: if_splits Option.bind_splits dest: "1.IH")
qed

lemma GaussJordanFractions_solve_flags:
  "GaussJordanFractions_solve A b = Some s \<Longrightarrow> flags_ok s"
  by (auto simp: GaussJordanFractions_solve_def Let_def flags_ok_def noSolution_def
      dest!: GaussJordanFractions_forward_Return
      split: Option.bind_splits if_splits loop_result.splits)

lemma LaplaceExpansion_solveByCramersRule_flags:
  "LaplaceExpansion_solveByCramersRule A b = Some s \<Longrightarrow> flags_ok s"
  by (auto simp: LaplaceExpansion_solveByCramersRule_def Let_def flags_ok_def
      split: Option.bind_splits if_splits)

lemma LaplaceExpansionFractions_solveByCramersRule_flags:
  "LaplaceExpansionFractions_solveByCramersRule A b = Some s \<Longrightarrow> flags_ok s"
  by (auto simp: LaplaceExpansionFractions_solveByCramersRule_def Let_def flags_ok_def
      split: Option.bind_splits if_splits)

text \<open>
  C3. Every Solution returned by GaussianElimination.solve,
  GaussianEliminationFractions.solve, GaussJordanFractions.solve or solveByCramersRule
  (floating point and exact) has exactly one of isUnique, hasInfiniteSolutions and
  hasNoSolution true, and empty variables unless isUnique is true.
\<close>

theorem solution_flags:
  "(\<forall>A b s. GaussianElimination_solve A b = Some s \<longrightarrow> flags_ok s)
   \<and> (\<forall>A b s. GaussianEliminationFractions_solve A b = Some s \<longrightarrow> flags_ok s)
   \<and> (\<forall>A b s. GaussJordanFractions_solve A b = Some s \<longrightarrow> flags_ok s)
   \<and> (\<forall>A b s. LaplaceExpansion_solveByCramersRule A b = Some s \<longrightarrow> flags_ok s)
   \<and> (\<forall>A b s. LaplaceExpansionFractions_solveByCramersRule A b = Some s \<longrightarrow> flags_ok s)"
  using GaussianElimination_solve_flags GaussianEliminationFractions_solve_flags
    GaussJordanFractions_solve_flags LaplaceExpansion_solveByCramersRule_flags
    LaplaceExpansionFractions_solveByCramersRule_flags
  by blast

lemma those_map_Some: "(\<And>x. x \<in> set xs \<Longrightarrow> \<exists>y. f x = Some y) \<Longrightarrow> \<exists>ys. those (map f xs) = Some ys"
proof (induction xs)
  case Nil
  then show ?case by simp
next
  case (Cons x xs)
  then obtain y ys where "f x = Some y" "those (map f xs) = Some ys" by (meson list.set_intros)
  then show ?case by simp
qed

lemma FractionMatrixUtils_fromNumberVector_Some:
  "\<exists>v. FractionMatrixUtils_fromNumberVector vector = Some v \<and> length v = length vector"
proof -
  have "\<exists>v. those (map (\<lambda>num. Fraction_fromDecimal num 10000) vector) = Some v"
    by (rule those_map_Some) (rule Fraction_fromDecimal_Some)
  moreover have "those ys = Some v \<Longrightarrow> length v = length ys" for ys :: "fraction option list" and v
    by (induction ys arbitrary: v) (auto split: option.splits)
  ultimately show ?thesis
    unfolding FractionMatrixUtils_fromNumberVector_def by fastforce
qed

lemma those_length: "those ys = Some v \<Longrightarrow> length v = length ys"
  by (induction ys arbitrary: v) (auto split: option.splits)

lemma FractionMatrixUtils_fromNumberMatrix_length:
  "FractionMatrixUtils_fromNumberMatrix matrix = Some fm \<Longrightarrow> length fm = length matrix"
  unfolding FractionMatrixUtils_fromNumberMatrix_def by (drule those_length) simp

text \<open>
  C7. When the main determinant that the cofactor engine computes is near zero (floating
  point) or zero (exact), solveByCramersRule returns the Solution with
  hasInfiniteSolutions true, the other two flags false and no variables, whatever the
  constants are (the exact variant needs a constant for each row, or its first step
  throws).
\<close>

theorem cramers_rule_singular:
  "(LaplaceExpansion_calculateDeterminant A = Some d \<and> \<bar>d\<bar> < tolerance \<longrightarrow>
      LaplaceExpansion_solveByCramersRule A b
        = Some \<lparr>variables = [], fractionVariables = None, determinant = Some d,
                 fractionDeterminant = None, isUnique = False, hasInfiniteSolutions = True,
                 hasNoSolution = False\<rparr>)
   \<and> (LaplaceExpansionFractions_calculateDeterminant A = Some r
       \<and> Fraction_isZero (fraction_determinant r) \<and> length A \<le> length b \<longrightarrow>
      LaplaceExpansionFractions_solveByCramersRule A b
        = Some \<lparr>variables = [], fractionVariables = None,
                 determinant = Some (Fraction_toDecimal (fraction_determinant r)),
                 fractionDeterminant = Some (fraction_determinant r), isUnique = False,
                 hasInfiniteSolutions = True, hasNoSolution = False\<rparr>)"
proof (intro conjI impI)
  assume "LaplaceExpansion_calculateDeterminant A = Some d \<and> \<bar>d\<bar> < tolerance"
  then show "LaplaceExpansion_solveByCramersRule A b
        = Some \<lparr>variables = [], fractionVariables = None, determinant = Some d,
                 fractionDeterminant = None, isUnique = False, hasInfiniteSolutions = True,
                 hasNoSolution = False\<rparr>"
    by (simp add: LaplaceExpansion_solveByCramersRule_def)
next
  assume a: "LaplaceExpansionFractions_calculateDeterminant A = Some r
       \<and> Fraction_isZero (fraction_determinant r) \<and> length A \<le> length b"
  then obtain fm where fm: "FractionMatrixUtils_fromNumberMatrix A = Some fm"
    by (auto simp: LaplaceExpansionFractions_calculateDeterminant_def split: Option.bind_splits)
  obtain fc where fc: "FractionMatrixUtils_fromNumberVector b = Some fc" "length fc = length b"
    using FractionMatrixUtils_fromNumberVector_Some by blast
  from a fc FractionMatrixUtils_fromNumberMatrix_length [OF fm]
  obtain aug where aug: "createAugmentedMatrix fm fc = Some aug"
    by (simp add: createAugmentedMatrix_def)
  from a fm fc aug show "LaplaceExpansionFractions_solveByCramersRule A b
        = Some \<lparr>variables = [], fractionVariables = None,
                 determinant = Some (Fraction_toDecimal (fraction_determinant r)),
                 fractionDeterminant = Some (fraction_determinant r), isUnique = False,
                 hasInfiniteSolutions = True, hasNoSolution = False\<rparr>"
    by (simp add: LaplaceExpansionFractions_solveByCramersRule_def Let_def)
qed

lemma GaussJordanFractions_arrives_forward:
  "GaussJordanFractions_arrives n m i a k a' \<Longrightarrow>
   GaussJordanFractions_forward n m i a = GaussJordanFractions_forward n m k a'"
proof (induction rule: GaussJordanFractions_arrives.induct)
  case (start n m i a)
  show ?case by simp
next
  case (pass n m i a k a' swapped pivot a'')
  have "GaussJordanFractions_forward n m k a' = GaussJordanFractions_forward n m (k + 1) a''"
    using pass.hyps by (subst GaussJordanFractions_forward.simps) simp
  with pass.IH show ?case by simp
qed

text \<open>
  C8. When the forward phase of GaussJordanFractions.solve arrives at some column \<open>i\<close>
  and the pivot entry is zero after partial pivoting, solve returns the Solution with
  hasNoSolution true, the other two flags false and no variables; the later columns are
  not processed (the result is returned from column \<open>i\<close>).
\<close>

theorem GaussJordan_zero_pivot_noSolution:
  assumes "FractionMatrixUtils_fromNumberMatrix matrix = Some fractionMatrix"
    and "FractionMatrixUtils_fromNumberVector constants = Some fractionConstants"
    and "createAugmentedMatrix fractionMatrix fractionConstants = Some augmentedMatrix"
    and "augmentedMatrix \<noteq> []"
    and "GaussJordanFractions_arrives (length matrix) (length (augmentedMatrix ! 0)) 0
           augmentedMatrix i a"
    and "i < length matrix"
    and "GaussJordanFractions_pivot (length matrix) i a = Some swapped"
    and "cell swapped i i = Some pivot"
    and "Fraction_isZero pivot"
  shows "GaussJordanFractions_solve matrix constants
         = Some \<lparr>variables = [], fractionVariables = Some [], determinant = None,
                  fractionDeterminant = None, isUnique = False,
                  hasInfiniteSolutions = False, hasNoSolution = True\<rparr>"
proof -
  have "GaussJordanFractions_forward (length matrix) (length (augmentedMatrix ! 0)) i a
        = Some (Return noSolution)"
    using assms(6-9) by (subst GaussJordanFractions_forward.simps) simp
  with GaussJordanFractions_arrives_forward [OF assms(5)]
  have "GaussJordanFractions_forward (length matrix) (length (augmentedMatrix ! 0)) 0
          augmentedMatrix = Some (Return noSolution)" by simp
  with assms(1-4) show ?thesis
    by (simp add: GaussJordanFractions_solve_def noSolution_def)
qed

text \<open>
  C9. A Solution of GaussJordanFractions.solve with isUnique true has the determinant
  field 1.
\<close>

theorem GaussJordan_unique_determinant_one:
  "GaussJordanFractions_solve matrix constants = Some s \<and> isUnique s
   \<longrightarrow> determinant s = Some 1"
  by (auto simp: GaussJordanFractions_solve_def Let_def noSolution_def
      dest!: GaussJordanFractions_forward_Return
      split: Option.bind_splits if_splits loop_result.splits)

text \<open>Witness for C3: each solver on a 2x2 system.\<close>

theorem solution_flags_witness:
  "GaussianElimination_solve [[1, 2], [2, 4]] [3, 7]
     = Some \<lparr>variables = [], fractionVariables = None, determinant = None,
              fractionDeterminant = None, isUnique = False, hasInfiniteSolutions = False,
              hasNoSolution = True\<rparr>
   \<and> GaussianEliminationFractions_solve [[1, 2], [2, 4]] [3, 6]
     = Some \<lparr>variables = [], fractionVariables = None, determinant = None,
              fractionDeterminant = None, isUnique = False, hasInfiniteSolutions = True,
              hasNoSolution = False\<rparr>
   \<and> GaussJordanFractions_solve [[2, 1], [1, 3]] [8, 13]
     = Some \<lparr>variables = [Some (11 / 5), Some (18 / 5)],
              fractionVariables = Some [\<lparr>numerator = 11, denominator = 5\<rparr>,
                                        \<lparr>numerator = 18, denominator = 5\<rparr>],
              determinant = Some 1, fractionDeterminant = None, isUnique = True,
              hasInfiniteSolutions = False, hasNoSolution = False\<rparr>
   \<and> LaplaceExpansion_solveByCramersRule [[2, 1], [1, 3]] [8, 13]
     = Some \<lparr>variables = [Some (11 / 5), Some (18 / 5)], fractionVariables = None,
              determinant = Some 5, fractionDeterminant = None, isUnique = True,
              hasInfiniteSolutions = False, hasNoSolution = False\<rparr>
   \<and> LaplaceExpansionFractions_solveByCramersRule [[1, 2], [2, 4]] [3, 7]
     = Some \<lparr>variables = [], fractionVariables = None, determinant = Some 0,
              fractionDeterminant = Some \<lparr>numerator = 0, denominator = 1\<rparr>,
              isUnique = False, hasInfiniteSolutions = True, hasNoSolution = False\<rparr>
   \<and> flags_ok \<lparr>variables = [], fractionVariables = None, determinant = None,
              fractionDeterminant = None, isUnique = False, hasInfiniteSolutions = False,
              hasNoSolution = True\<rparr>
   \<and> flags_ok \<lparr>variables = [], fractionVariables = None, determinant = None,
              fractionDeterminant = None, isUnique = False, hasInfiniteSolutions = True,
              hasNoSolution = False\<rparr>
   \<and> flags_ok \<lparr>variables = [Some (11 / 5), Some (18 / 5)],
              fractionVariables = Some [\<lparr>numerator = 11, denominator = 5\<rparr>,
                                        \<lparr>numerator = 18, denominator = 5\<rparr>],
              determinant = Some 1, fractionDeterminant = None, isUnique = True,
              hasInfiniteSolutions = False, hasNoSolution = False\<rparr>
   \<and> flags_ok \<lparr>variables = [Some (11 / 5), Some (18 / 5)], fractionVariables = None,
              determinant = Some 5, fractionDeterminant = None, isUnique = True,
              hasInfiniteSolutions = False, hasNoSolution = False\<rparr>
   \<and> flags_ok \<lparr>variables = [], fractionVariables = None, determinant = Some 0,
              fractionDeterminant = Some \<lparr>numerator = 0, denominator = 1\<rparr>,
              isUnique = False, hasInfiniteSolutions = True, hasNoSolution = False\<rparr>"
proof -
  have e1: "GaussianElimination_solve [[1, 2], [2, 4]] [3, 7]
     = Some \<lparr>variables = [], fractionVariables = None, determinant = None,
              fractionDeterminant = None, isUnique = False, hasInfiniteSolutions = False,
              hasNoSolution = True\<rparr>"
    by code_simp
  have e2: "GaussianEliminationFractions_solve [[1, 2], [2, 4]] [3, 6]
     = Some \<lparr>variables = [], fractionVariables = None, determinant = None,
              fractionDeterminant = None, isUnique = False, hasInfiniteSolutions = True,
              hasNoSolution = False\<rparr>"
    by code_simp
  have e3: "GaussJordanFractions_solve [[2, 1], [1, 3]] [8, 13]
     = Some \<lparr>variables = [Some (11 / 5), Some (18 / 5)],
              fractionVariables = Some [\<lparr>numerator = 11, denominator = 5\<rparr>,
                                        \<lparr>numerator = 18, denominator = 5\<rparr>],
              determinant = Some 1, fractionDeterminant = None, isUnique = True,
              hasInfiniteSolutions = False, hasNoSolution = False\<rparr>"
    by code_simp
  have e4: "LaplaceExpansion_solveByCramersRule [[2, 1], [1, 3]] [8, 13]
     = Some \<lparr>variables = [Some (11 / 5), Some (18 / 5)], fractionVariables = None,
              determinant = Some 5, fractionDeterminant = None, isUnique = True,
              hasInfiniteSolutions = False, hasNoSolution = False\<rparr>"
    by code_simp
  have e5: "LaplaceExpansionFractions_solveByCramersRule [[1, 2], [2, 4]] [3, 7]
     = Some \<lparr>variables = [], fractionVariables = None, determinant = Some 0,
              fractionDeterminant = Some \<lparr>numerator = 0, denominator = 1\<rparr>,
              isUnique = False, hasInfiniteSolutions = True, hasNoSolution = False\<rparr>"
    by code_simp
  note T = solution_flags
  note t1 = T [THEN conjunct1, rule_format, OF e1]
  note t2 = T [THEN conjunct2, THEN conjunct1, rule_format, OF e2]
  note t3 = T [THEN conjunct2, THEN conjunct2, THEN conjunct1, rule_format, OF e3]
  note t4 = T [THEN conjunct2, THEN conjunct2, THEN conjunct2, THEN conjunct1, rule_format, OF e4]
  note t5 = T [THEN conjunct2, THEN conjunct2, THEN conjunct2, THEN conjunct2, rule_format, OF e5]
  from e1 e2 e3 e4 e5 t1 t2 t3 t4 t5 show ?thesis by (intro conjI)
qed

text \<open>
  Witness for C7: the inconsistent system x + 2y = 3, 2x + 4y = 7, which the elimination
  solver classifies as hasNoSolution.
\<close>

theorem cramers_rule_singular_witness:
  "LaplaceExpansion_calculateDeterminant [[1, 2], [2, 4]] = Some 0
   \<and> LaplaceExpansion_solveByCramersRule [[1, 2], [2, 4]] [3, 7]
     = Some \<lparr>variables = [], fractionVariables = None, determinant = Some 0,
              fractionDeterminant = None, isUnique = False, hasInfiniteSolutions = True,
              hasNoSolution = False\<rparr>
   \<and> LaplaceExpansionFractions_calculateDeterminant [[1, 2], [2, 4]]
     = Some \<lparr>number_determinant = 0, fraction_determinant = \<lparr>numerator = 0, denominator = 1\<rparr>\<rparr>
   \<and> LaplaceExpansionFractions_solveByCramersRule [[1, 2], [2, 4]] [3, 7]
     = Some \<lparr>variables = [], fractionVariables = None, determinant = Some 0,
              fractionDeterminant = Some \<lparr>numerator = 0, denominator = 1\<rparr>,
              isUnique = False, hasInfiniteSolutions = True, hasNoSolution = False\<rparr>
   \<and> GaussianEliminationFractions_solve [[1, 2], [2, 4]] [3, 7]
     = Some \<lparr>variables = [], fractionVariables = None, determinant = None,
              fractionDeterminant = None, isUnique = False, hasInfiniteSolutions = False,
              hasNoSolution = True\<rparr>"
proof -
  let ?r = "\<lparr>number_determinant = 0, fraction_determinant = \<lparr>numerator = 0, denominator = 1\<rparr>\<rparr>"
  have d: "LaplaceExpansion_calculateDeterminant [[1, 2], [2, 4]] = Some 0 \<and> \<bar>0::rat\<bar> < tolerance"
    by code_simp
  have f: "LaplaceExpansionFractions_calculateDeterminant [[1, 2], [2, 4]] = Some ?r
      \<and> Fraction_isZero (fraction_determinant ?r) \<and> length [[1, 2], [2, 4 :: rat]] \<le> length [3, 7 :: rat]"
    by code_simp
  have g: "GaussianEliminationFractions_solve [[1, 2], [2, 4]] [3, 7]
     = Some \<lparr>variables = [], fractionVariables = None, determinant = None,
              fractionDeterminant = None, isUnique = False, hasInfiniteSolutions = False,
              hasNoSolution = True\<rparr>"
    by code_simp
  note T = cramers_rule_singular [of "[[1, 2], [2, 4]]" 0 "[3, 7]" ?r]
  from T [THEN conjunct1, rule_format, OF d] T [THEN conjunct2, rule_format, OF f] d f g
  show ?thesis by (simp add: Fraction_toDecimal_def)
qed

text \<open>
  Witness for C8: x + 2y = 3, 2x + 4y = 6 has infinitely many solutions; the pivot of
  column 1 is zero after the first pass.
\<close>

theorem GaussJordan_zero_pivot_noSolution_witness:
  "GaussJordanFractions_solve [[1, 2], [2, 4]] [3, 6]
     = Some \<lparr>variables = [], fractionVariables = Some [], determinant = None,
              fractionDeterminant = None, isUnique = False,
              hasInfiniteSolutions = False, hasNoSolution = True\<rparr>
   \<and> GaussianEliminationFractions_solve [[1, 2], [2, 4]] [3, 6]
     = Some \<lparr>variables = [], fractionVariables = None, determinant = None,
              fractionDeterminant = None, isUnique = False, hasInfiniteSolutions = True,
              hasNoSolution = False\<rparr>"
proof -
  let ?fm = "[[fr 1, fr 2], [fr 2, fr 4]]" and ?fc = "[fr 3, fr 6]"
  let ?aug = "[[fr 1, fr 2, fr 3], [fr 2, fr 4, fr 6]]"
  let ?sw = "[[fr 2, fr 4, fr 6], [fr 1, fr 2, fr 3]]"
  let ?a = "[[fr 1, fr 2, fr 3], [fr 0, fr 0, fr 0]]"
  have 1: "FractionMatrixUtils_fromNumberMatrix [[1, 2], [2, 4]] = Some ?fm" by code_simp
  have 2: "FractionMatrixUtils_fromNumberVector [3, 6] = Some ?fc" by code_simp
  have 3: "createAugmentedMatrix ?fm ?fc = Some ?aug" by code_simp
  have 4: "?aug \<noteq> []" by simp
  let ?n = "length [[1, 2], [2, 4 :: rat]]" and ?m = "length (?aug ! 0)"
  have p0: "GaussJordanFractions_pivot ?n 0 ?aug = Some ?sw" by code_simp
  have c0: "cell ?sw 0 0 = Some (fr 2)" by code_simp
  have z0: "\<not> Fraction_isZero (fr 2)" by code_simp
  have r0: "GaussJordanFractions_reduce ?n ?m 0 ?sw (fr 2) = Some ?a" by code_simp
  have l0: "0 < ?n" by simp
  note 5 = GaussJordanFractions_arrives.pass [OF GaussJordanFractions_arrives.start l0 p0 c0 z0 r0]
  have 6: "0 + 1 < ?n" by simp
  have 7: "GaussJordanFractions_pivot ?n (0 + 1) ?a = Some ?a" by code_simp
  have 8: "cell ?a (0 + 1) (0 + 1) = Some (fr 0)" by code_simp
  have 9: "Fraction_isZero (fr 0)" by code_simp
  have g: "GaussianEliminationFractions_solve [[1, 2], [2, 4]] [3, 6]
     = Some \<lparr>variables = [], fractionVariables = None, determinant = None,
              fractionDeterminant = None, isUnique = False, hasInfiniteSolutions = True,
              hasNoSolution = False\<rparr>"
    by code_simp
  from GaussJordan_zero_pivot_noSolution [OF 1 2 3 4 5 6 7 8 9] g show ?thesis by simp
qed

text \<open>Witness for C9: the matrix has determinant 5, the Solution says 1.\<close>

theorem GaussJordan_unique_determinant_one_witness:
  "GaussJordanFractions_solve [[2, 1], [1, 3]] [8, 13]
     = Some \<lparr>variables = [Some (11 / 5), Some (18 / 5)],
              fractionVariables = Some [\<lparr>numerator = 11, denominator = 5\<rparr>,
                                        \<lparr>numerator = 18, denominator = 5\<rparr>],
              determinant = Some 1, fractionDeterminant = None, isUnique = True,
              hasInfiniteSolutions = False, hasNoSolution = False\<rparr>
   \<and> LaplaceExpansionFractions_calculateDeterminant [[2, 1], [1, 3]]
     = Some \<lparr>number_determinant = 5, fraction_determinant = \<lparr>numerator = 5, denominator = 1\<rparr>\<rparr>"
proof -
  let ?s = "\<lparr>variables = [Some (11 / 5), Some (18 / 5)],
              fractionVariables = Some [\<lparr>numerator = 11, denominator = 5\<rparr>,
                                        \<lparr>numerator = 18, denominator = 5\<rparr>],
              determinant = Some 1, fractionDeterminant = None, isUnique = True,
              hasInfiniteSolutions = False, hasNoSolution = False\<rparr>"
  have e: "GaussJordanFractions_solve [[2, 1], [1, 3]] [8, 13] = Some ?s \<and> isUnique ?s"
    by code_simp
  have d: "LaplaceExpansionFractions_calculateDeterminant [[2, 1], [1, 3]]
     = Some \<lparr>number_determinant = 5, fraction_determinant = \<lparr>numerator = 5, denominator = 1\<rparr>\<rparr>"
    by code_simp
  from GaussJordan_unique_determinant_one [of "[[2, 1], [1, 3]]" "[8, 13]" ?s, rule_format, OF e] e d
  show ?thesis by simp
qed

section \<open>gaussianElimination.ts: GaussJordanDeterminant and its step trace\<close>

text \<open>
  A step holds a reference to its matrix, so this engine is modelled on a store: the
  arrays of numbers and the arrays of rows live at addresses (the index in the store),
  a matrix value is an address, and allocation appends. Fractions are never mutated and
  stay values.
\<close>

datatype js_array = NumberArray "rat list" | ArrayOfArrays "nat list"

type_synonym heap = "js_array list"

definition heap_alloc :: "heap \<Rightarrow> js_array \<Rightarrow> heap \<times> nat" where
  "heap_alloc h obj = (h @ [obj], length h)"

text \<open>A fresh \<^verbatim>\<open>number[][]\<close> (an array literal or the result of \<^verbatim>\<open>map\<close>): the rows, then the outer array.\<close>

definition newMatrix :: "heap \<Rightarrow> rat list list \<Rightarrow> heap \<times> nat" where
  "newMatrix h matrix =
     (let (h', refs) = fold (\<lambda>row (h, refs).
                               let (h2, r) = heap_alloc h (NumberArray row) in (h2, refs @ [r]))
                         matrix (h, [])
      in heap_alloc h' (ArrayOfArrays refs))"

definition readRow :: "heap \<Rightarrow> nat \<Rightarrow> rat list option" where
  "readRow h r =
     (if r < length h then (case h ! r of NumberArray row \<Rightarrow> Some row | ArrayOfArrays _ \<Rightarrow> None)
      else None)"

definition readMatrix :: "heap \<Rightarrow> nat \<Rightarrow> rat list list option" where
  "readMatrix h matrix =
     (if matrix < length h
      then (case h ! matrix of
              ArrayOfArrays refs \<Rightarrow> those (map (readRow h) refs)
            | NumberArray _ \<Rightarrow> None)
      else None)"

text \<open>The assignment \<^verbatim>\<open>matrix[i][j] = v\<close>, as a caller may do it to its own matrix.\<close>

definition writeCell :: "heap \<Rightarrow> nat \<Rightarrow> nat \<Rightarrow> nat \<Rightarrow> rat \<Rightarrow> heap option" where
  "writeCell h matrix i j v =
     (if matrix < length h
      then (case h ! matrix of
              ArrayOfArrays refs \<Rightarrow>
                if i < length refs
                then do {
                  row \<leftarrow> readRow h (refs ! i);
                  if j < length row then Some (h[refs ! i := NumberArray (row[j := v])]) else None
                }
                else None
            | NumberArray _ \<Rightarrow> None)
      else None)"

text \<open>
  A CalculationStep, reduced to its id and its matrix (titles and descriptions are
  strings built from values and are left out), and the variables of the run.
\<close>

record calculation_step =
  step_id :: nat
  step_matrix :: nat

record gjd_state =
  gjd_heap :: heap
  gjd_steps :: "calculation_step list"
  gjd_stepId :: nat
  gjd_workMatrix :: "fraction list list"
  gjd_determinant :: fraction
  gjd_swapCount :: nat

text \<open>
  \<^verbatim>\<open>steps.push({ id: stepId++, matrix: workMatrix.map(r => r.map(f => f.toDecimal())) })\<close>:
  the matrix of the step is freshly allocated.
\<close>

definition pushSnapshot :: "gjd_state \<Rightarrow> gjd_state" where
  "pushSnapshot st =
     (let (h, r) = newMatrix (gjd_heap st) (map (map Fraction_toDecimal) (gjd_workMatrix st))
      in st\<lparr>gjd_heap := h,
             gjd_steps := gjd_steps st @ [\<lparr>step_id = gjd_stepId st, step_matrix = r\<rparr>],
             gjd_stepId := gjd_stepId st + 1\<rparr>)"

function GaussJordanDeterminant_eliminate ::
  "nat \<Rightarrow> nat \<Rightarrow> gjd_state \<Rightarrow> (heap \<times> calculation_step list \<times> fraction) option" where
  "GaussJordanDeterminant_eliminate n i st =
     (if i < n then
        do {
          pivotRow \<leftarrow> forM [i + 1..<n] i
            (\<lambda>k pivotRow.
               do {
                 c \<leftarrow> cell (gjd_workMatrix st) k i;
                 currentAbs \<leftarrow> Fraction_abs c;
                 b \<leftarrow> cell (gjd_workMatrix st) pivotRow i;
                 maxAbs \<leftarrow> Fraction_abs b;
                 Some (if Fraction_toDecimal currentAbs > Fraction_toDecimal maxAbs
                       then k else pivotRow)
               });
          p \<leftarrow> cell (gjd_workMatrix st) pivotRow i;
          if Fraction_isZero p
          then do {
            let st' = pushSnapshot st;
            zero \<leftarrow> new_Fraction 0 1;
            Some (gjd_heap st', gjd_steps st', zero)
          }
          else
            do {
              st1 \<leftarrow>
                (if pivotRow \<noteq> i
                 then do {
                   swapped \<leftarrow> swapRows (gjd_workMatrix st) i pivotRow;
                   Some (pushSnapshot (st\<lparr>gjd_workMatrix := swapped,
                                            gjd_swapCount := gjd_swapCount st + 1\<rparr>))
                 }
                 else Some st);
              pivot \<leftarrow> cell (gjd_workMatrix st1) i i;
              determinant \<leftarrow> Fraction_multiply (gjd_determinant st1) pivot;
              (eliminated, hasElimination) \<leftarrow> forM [i + 1..<n] (gjd_workMatrix st1, False)
                (\<lambda>k (workMatrix, hasElimination).
                   do {
                     a \<leftarrow> cell workMatrix k i;
                     if \<not> Fraction_isZero a then
                       do {
                         factor \<leftarrow> Fraction_divide a pivot;
                         workMatrix' \<leftarrow> forM [i..<n] workMatrix
                           (\<lambda>j workMatrix.
                              do {
                                t \<leftarrow> cell workMatrix k j;
                                s \<leftarrow> cell workMatrix i j;
                                product \<leftarrow> Fraction_multiply factor s;
                                difference \<leftarrow> Fraction_subtract t product;
                                Some (workMatrix[k := (workMatrix ! k)[j := difference]])
                              });
                         Some (workMatrix', True)
                       }
                     else Some (workMatrix, hasElimination)
                   });
              let st2 = st1\<lparr>gjd_workMatrix := eliminated, gjd_determinant := determinant\<rparr>;
              GaussJordanDeterminant_eliminate n (i + 1)
                (if hasElimination then pushSnapshot st2 else st2)
            }
        }
      else
        do {
          determinant \<leftarrow>
            (if gjd_swapCount st mod 2 \<noteq> 0
             then do { minusOne \<leftarrow> new_Fraction (- 1) 1;
                       Fraction_multiply (gjd_determinant st) minusOne }
             else Some (gjd_determinant st));
          let st' = pushSnapshot st;
          Some (gjd_heap st', gjd_steps st', determinant)
        })"
  by pat_completeness auto
termination GaussJordanDeterminant_eliminate
  by (relation "measure (\<lambda>(n, i, st). n - i)") auto

declare GaussJordanDeterminant_eliminate.simps [simp del]

text \<open>
  The first step is pushed with \<^verbatim>\<open>matrix\<close> itself, the argument of the call:
  \<^verbatim>\<open>steps.push({ id: stepId++, title: 'Matriz Original', ..., matrix, ... })\<close>.
\<close>

definition GaussJordanDeterminant_calculateDeterminant ::
  "heap \<Rightarrow> nat \<Rightarrow> (heap \<times> calculation_step list \<times> fraction) option" where
  "GaussJordanDeterminant_calculateDeterminant h matrix =
     do {
       numbers \<leftarrow> readMatrix h matrix;
       let n = length numbers;
       fractionMatrix \<leftarrow> FractionMatrixUtils_fromNumberMatrix numbers;
       determinant \<leftarrow> new_Fraction 1 1;
       let steps = [\<lparr>step_id = 1, step_matrix = matrix\<rparr>];
       workMatrix \<leftarrow> FractionMatrixUtils_cloneMatrix fractionMatrix;
       GaussJordanDeterminant_eliminate n 0
         \<lparr>gjd_heap = h, gjd_steps = steps, gjd_stepId = 2, gjd_workMatrix = workMatrix,
          gjd_determinant = determinant, gjd_swapCount = 0\<rparr>
     }"

section \<open>Properties of the step trace\<close>

lemma GaussJordanDeterminant_eliminate_steps:
  "GaussJordanDeterminant_eliminate n i st = Some (h, steps, d)
   \<Longrightarrow> \<exists>later. steps = gjd_steps st @ later"
proof (induction n i st rule: GaussJordanDeterminant_eliminate.induct)
  case (1 n i st)
  from "1.prems" show ?case
    apply (subst (asm) GaussJordanDeterminant_eliminate.simps)
    apply (auto simp: pushSnapshot_def Let_def split_beta
        split: if_splits Option.bind_splits dest!: "1.IH")
    done
qed

lemma GaussJordanDeterminant_first_step:
  "GaussJordanDeterminant_calculateDeterminant h matrix = Some (h', steps, d)
   \<Longrightarrow> steps \<noteq> [] \<and> step_matrix (hd steps) = matrix"
  by (auto simp: GaussJordanDeterminant_calculateDeterminant_def Let_def
      split: Option.bind_splits dest!: GaussJordanDeterminant_eliminate_steps)

text \<open>
  C5 (the code differs). The first step of GaussJordanDeterminant.calculateDeterminant
  holds the caller's matrix, not a copy: after the call on [[1,2],[3,4]] the caller's
  assignment \<^verbatim>\<open>matrix[0][0] = 99\<close> changes the matrix of the step already emitted. The
  later steps hold fresh matrices.
\<close>

theorem GaussJordanDeterminant_first_step_aliases_input:
  "(let (h, m) = newMatrix [] [[1, 2], [3, 4]] in
    case GaussJordanDeterminant_calculateDeterminant h m of
      None \<Rightarrow> False
    | Some (h1, steps, d) \<Rightarrow>
        length steps = 4
        \<and> step_matrix (steps ! 0) = m
        \<and> readMatrix h1 (step_matrix (steps ! 0)) = Some [[1, 2], [3, 4]]
        \<and> (case writeCell h1 m 0 0 99 of
             None \<Rightarrow> False
           | Some h2 \<Rightarrow>
               readMatrix h2 (step_matrix (steps ! 0)) = Some [[99, 2], [3, 4]]
               \<and> readMatrix h2 (step_matrix (steps ! 1)) = readMatrix h1 (step_matrix (steps ! 1))
               \<and> readMatrix h2 (step_matrix (steps ! 2)) = readMatrix h1 (step_matrix (steps ! 2))
               \<and> readMatrix h2 (step_matrix (steps ! 3)) = readMatrix h1 (step_matrix (steps ! 3))))"
  by code_simp

section \<open>Determinants\<close>

text \<open>
  The determinant of the leading \<open>n \<times> n\<close> block of a matrix given by its entries, by
  cofactor expansion along column 0. \<open>minor_fun A r c\<close> leaves out row \<open>r\<close> and column
  \<open>c\<close>. This is the mathematical yardstick for the engines; nothing below is taken from
  the source until the engines are compared with it.
\<close>

definition skip_index :: "nat \<Rightarrow> nat \<Rightarrow> nat" where
  "skip_index k i = (if i < k then i else Suc i)"

definition minor_fun :: "(nat \<Rightarrow> nat \<Rightarrow> 'a) \<Rightarrow> nat \<Rightarrow> nat \<Rightarrow> nat \<Rightarrow> nat \<Rightarrow> 'a" where
  "minor_fun A r c = (\<lambda>i j. A (skip_index r i) (skip_index c j))"

fun det_fun :: "nat \<Rightarrow> (nat \<Rightarrow> nat \<Rightarrow> 'a::comm_ring_1) \<Rightarrow> 'a" where
  "det_fun 0 A = 1"
| "det_fun (Suc n) A = (\<Sum>i<Suc n. (- 1) ^ i * A i 0 * det_fun n (minor_fun A i 0))"

definition row_upd :: "(nat \<Rightarrow> nat \<Rightarrow> 'a) \<Rightarrow> nat \<Rightarrow> (nat \<Rightarrow> 'a) \<Rightarrow> nat \<Rightarrow> nat \<Rightarrow> 'a" where
  "row_upd A r u = (\<lambda>i j. if i = r then u j else A i j)"

subsection \<open>Congruence and linearity in a row\<close>


lemma skip_index_neq [simp]: "skip_index k i \<noteq> k"
  by (simp add: skip_index_def)


text \<open>Position of row r in the minor that leaves out row k.\<close>

definition unskip_index :: "nat \<Rightarrow> nat \<Rightarrow> nat" where
  "unskip_index k r = (if r < k then r else r - 1)"

lemma skip_unskip: "r \<noteq> k \<Longrightarrow> skip_index k (unskip_index k r) = r"
  by (auto simp: skip_index_def unskip_index_def)







subsection \<open>Equal rows, exchanges of rows, adding a multiple of a row\<close>






lemma row_upd_at [simp]: "row_upd A r u r = u"
  by (rule ext) (simp add: row_upd_def)

lemma row_upd_other [simp]: "i \<noteq> r \<Longrightarrow> row_upd A r u i = A i"
  by (rule ext) (simp add: row_upd_def)








subsection \<open>Expansion along any row or column; triangular matrices\<close>














section \<open>Fractions as rational numbers\<close>

text \<open>
  The Fraction in lowest terms of a rational number. On such Fractions the operations of
  the class never throw (division by zero apart) and compute the operations of the field.
\<close>

definition fraction_of :: "rat \<Rightarrow> fraction" where
  "fraction_of q = \<lparr>numerator = fst (quotient_of q), denominator = snd (quotient_of q)\<rparr>"

lemma lowest_terms_fraction_of: "lowest_terms (fraction_of q)"
proof -
  obtain n d where q: "quotient_of q = (n, d)" by (cases "quotient_of q")
  from quotient_of_denom_pos [OF q] quotient_of_coprime [OF q] q show ?thesis
    by (simp add: lowest_terms_def fraction_of_def coprime_iff_gcd_eq_1)
qed

lemma toDecimal_fraction_of [simp]: "Fraction_toDecimal (fraction_of q) = q"
proof -
  obtain n d where q: "quotient_of q = (n, d)" by (cases "quotient_of q")
  from quotient_of_div [OF q] q show ?thesis
    by (simp add: Fraction_toDecimal_def fraction_of_def)
qed

lemma fraction_of_toDecimal: "lowest_terms f \<Longrightarrow> fraction_of (Fraction_toDecimal f) = f"
proof -
  assume "lowest_terms f"
  then have "0 < denominator f" "coprime (numerator f) (denominator f)"
    by (simp_all add: lowest_terms_def coprime_iff_gcd_eq_1)
  then have "quotient_of (Fract (numerator f) (denominator f)) = (numerator f, denominator f)"
    by (simp add: quotient_of_Fract normalize_stable)
  then show ?thesis
    by (simp add: Fraction_toDecimal_def fraction_of_def Fract_of_int_quotient)
qed

lemma fraction_of_inject [simp]: "fraction_of a = fraction_of b \<longleftrightarrow> a = b"
  by (metis toDecimal_fraction_of)

lemma new_Fraction_value:
  assumes "new_Fraction n d = Some f"
  shows "Fraction_toDecimal f = of_int n / of_int d"
proof -
  from assms have d: "d \<noteq> 0" by (auto simp: new_Fraction_def split: if_splits)
  define g where "g = gcd n d"
  have g: "g \<noteq> 0" "g dvd n" "g dvd d" using d by (simp_all add: g_def)
  then obtain n' d' where nd: "n = g * n'" "d = g * d'" by (auto elim!: dvdE)
  have "(of_int (n div g) :: rat) / of_int (d div g) = of_int n / of_int d"
    using g(1) by (simp add: nd)
  with assms d show ?thesis
    by (auto simp: new_Fraction_def gcd_js_abs g_def [symmetric] Let_def Fraction_toDecimal_def
        split: if_splits)
qed

lemma new_Fraction_eq:
  assumes "d \<noteq> 0"
  shows "new_Fraction n d = Some (fraction_of (of_int n / of_int d))"
proof -
  from new_Fraction_Some [OF assms] obtain f where f: "new_Fraction n d = Some f" by blast
  from fraction_of_toDecimal [OF new_Fraction_lowest_terms [OF f]] new_Fraction_value [OF f] f
  show ?thesis by simp
qed

lemma fraction_of_fields:
  "denominator (fraction_of a) \<noteq> 0"
  "of_int (numerator (fraction_of a)) / of_int (denominator (fraction_of a)) = a"
  "numerator (fraction_of a) = 0 \<longleftrightarrow> a = 0"
proof -
  show 1: "denominator (fraction_of a) \<noteq> 0"
    using lowest_terms_fraction_of [of a] by (simp add: lowest_terms_def)
  show 2: "of_int (numerator (fraction_of a)) / of_int (denominator (fraction_of a)) = a"
    using toDecimal_fraction_of [of a] by (simp add: Fraction_toDecimal_def)
  show "numerator (fraction_of a) = 0 \<longleftrightarrow> a = 0"
    using 1 2 by (metis div_0 divide_eq_0_iff of_int_eq_0_iff of_int_0)
qed

lemma new_Fraction_rat:
  "d \<noteq> 0 \<Longrightarrow> of_int n / of_int d = q \<Longrightarrow> new_Fraction n d = Some (fraction_of q)"
  by (simp add: new_Fraction_eq)

lemma fraction_of_cases:
  obtains n d where "fraction_of a = \<lparr>numerator = n, denominator = d\<rparr>" "0 < d"
    "a = of_int n / of_int d"
proof -
  obtain n d where q: "quotient_of a = (n, d)" by (cases "quotient_of a")
  from quotient_of_denom_pos [OF q] quotient_of_div [OF q] q that [of n d] show ?thesis
    by (simp add: fraction_of_def)
qed

lemma Fraction_multiply_eq [simp]:
  "Fraction_multiply (fraction_of a) (fraction_of b) = Some (fraction_of (a * b))"
  by (cases a rule: fraction_of_cases, cases b rule: fraction_of_cases)
    (simp add: Fraction_multiply_def new_Fraction_rat)

lemma Fraction_add_eq [simp]:
  "Fraction_add (fraction_of a) (fraction_of b) = Some (fraction_of (a + b))"
  by (cases a rule: fraction_of_cases, cases b rule: fraction_of_cases)
    (simp add: Fraction_add_def new_Fraction_rat add_frac_eq)

lemma Fraction_subtract_eq [simp]:
  "Fraction_subtract (fraction_of a) (fraction_of b) = Some (fraction_of (a - b))"
  by (cases a rule: fraction_of_cases, cases b rule: fraction_of_cases)
    (simp add: Fraction_subtract_def new_Fraction_rat diff_frac_eq)

lemma Fraction_divide_eq [simp]:
  "Fraction_divide (fraction_of a) (fraction_of b)
     = (if b = 0 then None else Some (fraction_of (a / b)))"
  by (cases a rule: fraction_of_cases, cases b rule: fraction_of_cases)
    (simp add: Fraction_divide_def new_Fraction_rat)

lemma Fraction_negate_eq [simp]: "Fraction_negate (fraction_of a) = Some (fraction_of (- a))"
  by (cases a rule: fraction_of_cases) (simp add: Fraction_negate_def new_Fraction_rat)

lemma Fraction_abs_eq [simp]: "Fraction_abs (fraction_of a) = Some (fraction_of \<bar>a\<bar>)"
  by (cases a rule: fraction_of_cases) (simp add: Fraction_abs_def new_Fraction_rat abs_if divide_less_0_iff)

lemma Fraction_clone_eq [simp]: "Fraction_clone (fraction_of a) = Some (fraction_of a)"
  by (cases a rule: fraction_of_cases) (simp add: Fraction_clone_def new_Fraction_rat)


lemma new_Fraction_integer [simp]: "new_Fraction k 1 = Some (fraction_of (of_int k))"
  by (simp add: new_Fraction_rat)



section \<open>Matrices of Fractions\<close>

text \<open>
  The matrix of Fractions of a matrix of rationals, square matrices, and the determinant of
  a list of rows.
\<close>

definition fraction_matrix :: "rat list list \<Rightarrow> fraction list list" where
  "fraction_matrix A = map (map fraction_of) A"







lemma length_fraction_matrix [simp]: "length (fraction_matrix A) = length A"
  by (simp add: fraction_matrix_def)









section \<open>LaplaceExpansionFractions computes the determinant\<close>


lemma det_fun_1: "det_fun (Suc 0) A = A 0 0"
  by simp











section \<open>GaussianEliminationFractions computes the determinant\<close>

text \<open>The row operations of FractionMatrixUtils and what they do to the determinant.\<close>

lemma those_map_id: "(\<And>x. x \<in> set xs \<Longrightarrow> f x = Some x) \<Longrightarrow> those (map f xs) = Some xs"
  by (induction xs) simp_all

lemma FractionMatrixUtils_cloneMatrix_eq [simp]:
  "FractionMatrixUtils_cloneMatrix (fraction_matrix A) = Some (fraction_matrix A)"
  unfolding FractionMatrixUtils_cloneMatrix_def fraction_matrix_def
  by (intro those_map_id) auto
















section \<open>The range in which the Fraction arithmetic is exact\<close>

text \<open>
  The numerator and the denominator of a Fraction are doubles. A double holds every
  integer up to \<open>2 ^ 53\<close> in absolute value, and the sum or the product of two doubles is
  exact when its exact value is such an integer. Beyond that range the code rounds, and
  the model, which computes with integers, does not follow it. The functions
  \<open>_in_range\<close> of this section are the operations and engines of the same names with one
  addition: the result is \<open>None\<close> also when an integer that the function forms leaves
  the range, or when findPivot compares two decimal values whose doubles may coincide
  although the Fractions differ. The code has no such test; a run \<open>_in_range\<close> that
  returns a value is a run in which the doubles of the code hold the integers of the
  model.
\<close>

definition exact_int :: "int \<Rightarrow> bool" where
  "exact_int k = (\<bar>k\<bar> \<le> 2 ^ 53)"

definition fraction_in_range :: "fraction \<Rightarrow> bool" where
  "fraction_in_range f = (exact_int (numerator f) \<and> exact_int (denominator f))"

definition Fraction_add_in_range :: "fraction \<Rightarrow> fraction \<Rightarrow> fraction option" where
  "Fraction_add_in_range this other =
     (if exact_int (numerator this * denominator other)
         \<and> exact_int (numerator other * denominator this)
         \<and> exact_int (numerator this * denominator other + numerator other * denominator this)
         \<and> exact_int (denominator this * denominator other)
      then Fraction_add this other else None)"

definition Fraction_subtract_in_range :: "fraction \<Rightarrow> fraction \<Rightarrow> fraction option" where
  "Fraction_subtract_in_range this other =
     (if exact_int (numerator this * denominator other)
         \<and> exact_int (numerator other * denominator this)
         \<and> exact_int (numerator this * denominator other - numerator other * denominator this)
         \<and> exact_int (denominator this * denominator other)
      then Fraction_subtract this other else None)"

definition Fraction_multiply_in_range :: "fraction \<Rightarrow> fraction \<Rightarrow> fraction option" where
  "Fraction_multiply_in_range this other =
     (if exact_int (numerator this * numerator other)
         \<and> exact_int (denominator this * denominator other)
      then Fraction_multiply this other else None)"

definition Fraction_divide_in_range :: "fraction \<Rightarrow> fraction \<Rightarrow> fraction option" where
  "Fraction_divide_in_range this other =
     (if exact_int (numerator this * denominator other)
         \<and> exact_int (denominator this * numerator other)
      then Fraction_divide this other else None)"

text \<open>
  \<^verbatim>\<open>a.toDecimal() > b.toDecimal()\<close> compares two rounded quotients. The quotient of two
  integers of the range is rounded with a relative error of at most \<open>2 ^ -53\<close>, so the
  doubles are ordered as the Fractions are when these are equal or further apart than
  one part in \<open>2 ^ 52\<close>.
\<close>

definition decimals_ordered :: "fraction \<Rightarrow> fraction \<Rightarrow> bool" where
  "decimals_ordered f g =
     (let a = numerator f * denominator g; b = numerator g * denominator f
      in fraction_in_range f \<and> fraction_in_range g
         \<and> (a = b \<or> max \<bar>a\<bar> \<bar>b\<bar> < \<bar>a - b\<bar> * 2 ^ 52))"

definition FractionMatrixUtils_addRowMultiple_in_range ::
  "fraction list list \<Rightarrow> nat \<Rightarrow> nat \<Rightarrow> fraction \<Rightarrow> fraction list list option" where
  "FractionMatrixUtils_addRowMultiple_in_range matrix targetRow sourceRow multiplier =
     do {
       result \<leftarrow> FractionMatrixUtils_cloneMatrix matrix;
       if matrix = [] then None
       else forM [0..<length (matrix ! 0)] result
         (\<lambda>j result.
            do {
              s \<leftarrow> cell result sourceRow j;
              product \<leftarrow> Fraction_multiply_in_range s multiplier;
              t \<leftarrow> cell result targetRow j;
              sum \<leftarrow> Fraction_add_in_range t product;
              Some (result[targetRow := (result ! targetRow)[j := sum]])
            })
     }"

definition FractionMatrixUtils_findPivot_in_range :: "fraction list list \<Rightarrow> nat \<Rightarrow> nat \<Rightarrow> nat option" where
  "FractionMatrixUtils_findPivot_in_range matrix startRow col =
     do {
       v0 \<leftarrow> cell matrix startRow col;
       maxValue0 \<leftarrow> Fraction_abs v0;
       (maxRow, maxValue) \<leftarrow> forM [startRow + 1..<length matrix] (startRow, maxValue0)
         (\<lambda>i (maxRow, maxValue).
            do {
              v \<leftarrow> cell matrix i col;
              value \<leftarrow> Fraction_abs v;
              if \<not> Fraction_isZero value \<and> \<not> Fraction_isZero maxValue
                 \<and> \<not> decimals_ordered value maxValue then None
              else
              Some (if \<not> Fraction_isZero value
                       \<and> (Fraction_isZero maxValue
                          \<or> Fraction_toDecimal value > Fraction_toDecimal maxValue)
                    then (i, value) else (maxRow, maxValue))
            });
       Some maxRow
     }"

function LaplaceExpansionFractions_expandByRow_in_range :: "fraction list list \<Rightarrow> nat \<Rightarrow> fraction option" where
  "LaplaceExpansionFractions_expandByRow_in_range matrix row =
     (let n = length matrix in
      if n = 1 then do { a \<leftarrow> cell matrix 0 0; Fraction_clone a }
      else if n = 2 then
        do {
          a \<leftarrow> cell matrix 0 0;
          d \<leftarrow> cell matrix 1 1;
          term1 \<leftarrow> Fraction_multiply_in_range a d;
          b \<leftarrow> cell matrix 0 1;
          c \<leftarrow> cell matrix 1 0;
          term2 \<leftarrow> Fraction_multiply_in_range b c;
          Fraction_subtract_in_range term1 term2
        }
      else
        do {
          zero \<leftarrow> new_Fraction 0 1;
          forM [0..<n] zero (\<lambda>j determinant.
            do {
              a \<leftarrow> cell matrix row j;
              if Fraction_isZero a then Some determinant
              else
                do {
                  let minor = getMinor matrix row j;
                  sign \<leftarrow> new_Fraction ((- 1) ^ (row + j)) 1;
                  minorDet \<leftarrow> LaplaceExpansionFractions_expandByRow_in_range minor 0;
                  cofactor \<leftarrow> Fraction_multiply_in_range sign minorDet;
                  contribution \<leftarrow> Fraction_multiply_in_range a cofactor;
                  Fraction_add_in_range determinant contribution
                }
            })
        })"
  by pat_completeness auto
termination LaplaceExpansionFractions_expandByRow_in_range
  by (relation "measure (\<lambda>(matrix, row). length matrix)")
    (auto dest!: cell_SomeD simp: length_getMinor)

function LaplaceExpansionFractions_expandByColumn_in_range :: "fraction list list \<Rightarrow> nat \<Rightarrow> fraction option" where
  "LaplaceExpansionFractions_expandByColumn_in_range matrix col =
     (let n = length matrix in
      if n = 1 then do { a \<leftarrow> cell matrix 0 0; Fraction_clone a }
      else if n = 2 then
        do {
          a \<leftarrow> cell matrix 0 0;
          d \<leftarrow> cell matrix 1 1;
          term1 \<leftarrow> Fraction_multiply_in_range a d;
          b \<leftarrow> cell matrix 0 1;
          c \<leftarrow> cell matrix 1 0;
          term2 \<leftarrow> Fraction_multiply_in_range b c;
          Fraction_subtract_in_range term1 term2
        }
      else
        do {
          zero \<leftarrow> new_Fraction 0 1;
          forM [0..<n] zero (\<lambda>i determinant.
            do {
              a \<leftarrow> cell matrix i col;
              if Fraction_isZero a then Some determinant
              else
                do {
                  let minor = getMinor matrix i col;
                  sign \<leftarrow> new_Fraction ((- 1) ^ (i + col)) 1;
                  optimal \<leftarrow> LaplaceExpansionFractions_findOptimalExpansionRowOrColumn minor;
                  minorDet \<leftarrow> LaplaceExpansionFractions_expandByColumn_in_range minor (opt_index optimal);
                  cofactor \<leftarrow> Fraction_multiply_in_range sign minorDet;
                  contribution \<leftarrow> Fraction_multiply_in_range a cofactor;
                  Fraction_add_in_range determinant contribution
                }
            })
        })"
  by pat_completeness auto
termination LaplaceExpansionFractions_expandByColumn_in_range
  by (relation "measure (\<lambda>(matrix, col). length matrix)")
    (auto dest!: cell_SomeD simp: length_getMinor)

declare LaplaceExpansionFractions_expandByRow_in_range.simps [simp del]
declare LaplaceExpansionFractions_expandByColumn_in_range.simps [simp del]

function LaplaceExpansionFractions_calculateSimpleDeterminant_in_range ::
  "fraction list list \<Rightarrow> fraction option" where
  "LaplaceExpansionFractions_calculateSimpleDeterminant_in_range matrix =
     (let n = length matrix in
      if n = 1 then do { a \<leftarrow> cell matrix 0 0; Fraction_clone a }
      else if n = 2 then
        do {
          a \<leftarrow> cell matrix 0 0;
          d \<leftarrow> cell matrix 1 1;
          term1 \<leftarrow> Fraction_multiply_in_range a d;
          b \<leftarrow> cell matrix 0 1;
          c \<leftarrow> cell matrix 1 0;
          term2 \<leftarrow> Fraction_multiply_in_range b c;
          Fraction_subtract_in_range term1 term2
        }
      else
        do {
          optimal \<leftarrow> LaplaceExpansionFractions_findOptimalExpansionRowOrColumn matrix;
          zero \<leftarrow> new_Fraction 0 1;
          if opt_type optimal = Row then
            forM [0..<n] zero (\<lambda>j determinant.
              do {
                a \<leftarrow> cell matrix (opt_index optimal) j;
                if Fraction_isZero a then Some determinant
                else
                  do {
                    let minor = getMinor matrix (opt_index optimal) j;
                    sign \<leftarrow> new_Fraction ((- 1) ^ (opt_index optimal + j)) 1;
                    minorDet \<leftarrow> LaplaceExpansionFractions_calculateSimpleDeterminant_in_range minor;
                    signed \<leftarrow> Fraction_multiply_in_range sign a;
                    contribution \<leftarrow> Fraction_multiply_in_range signed minorDet;
                    Fraction_add_in_range determinant contribution
                  }
              })
          else
            forM [0..<n] zero (\<lambda>i determinant.
              do {
                a \<leftarrow> cell matrix i (opt_index optimal);
                if Fraction_isZero a then Some determinant
                else
                  do {
                    let minor = getMinor matrix i (opt_index optimal);
                    sign \<leftarrow> new_Fraction ((- 1) ^ (i + opt_index optimal)) 1;
                    minorDet \<leftarrow> LaplaceExpansionFractions_calculateSimpleDeterminant_in_range minor;
                    signed \<leftarrow> Fraction_multiply_in_range sign a;
                    contribution \<leftarrow> Fraction_multiply_in_range signed minorDet;
                    Fraction_add_in_range determinant contribution
                  }
              })
        })"
  by pat_completeness auto
termination LaplaceExpansionFractions_calculateSimpleDeterminant_in_range
  by (relation "measure length") (auto dest!: cell_SomeD simp: length_getMinor)

declare LaplaceExpansionFractions_calculateSimpleDeterminant_in_range.simps [simp del]

definition LaplaceExpansionFractions_buildExpansionFormulaWithValues_in_range ::
  "fraction list list \<Rightarrow> nat \<Rightarrow> axis \<Rightarrow> (int \<times> rat \<times> fraction) list option" where
  "LaplaceExpansionFractions_buildExpansionFormulaWithValues_in_range matrix index type =
     (let n = length matrix in
      if type = Row then
        those (map (\<lambda>j.
          do {
            let minor = getMinor matrix index j;
            minorDet \<leftarrow> LaplaceExpansionFractions_calculateSimpleDeterminant_in_range minor;
            value \<leftarrow> cell matrix index j;
            Some ((- 1) ^ (index + j), \<bar>Fraction_toDecimal value\<bar>, minorDet)
          }) [0..<n])
      else
        those (map (\<lambda>i.
          do {
            let minor = getMinor matrix i index;
            minorDet \<leftarrow> LaplaceExpansionFractions_calculateSimpleDeterminant_in_range minor;
            value \<leftarrow> cell matrix i index;
            Some ((- 1) ^ (i + index), \<bar>Fraction_toDecimal value\<bar>, minorDet)
          }) [0..<n]))"

definition LaplaceExpansionFractions_calculateDeterminant_in_range :: "rat list list \<Rightarrow> determinant_result option" where
  "LaplaceExpansionFractions_calculateDeterminant_in_range matrix =
     do {
       fractionMatrix \<leftarrow> FractionMatrixUtils_fromNumberMatrix matrix;
       optimal \<leftarrow> (if list_all (list_all fraction_in_range) fractionMatrix
                   then LaplaceExpansionFractions_findOptimalExpansionRowOrColumn fractionMatrix
                   else None);
       result \<leftarrow> (if opt_type optimal = Row
                  then LaplaceExpansionFractions_expandByRow_in_range fractionMatrix (opt_index optimal)
                  else LaplaceExpansionFractions_expandByColumn_in_range fractionMatrix (opt_index optimal));
       expansionFormula \<leftarrow> LaplaceExpansionFractions_buildExpansionFormulaWithValues_in_range
         fractionMatrix (opt_index optimal) (opt_type optimal);
       Some \<lparr>number_determinant = Fraction_toDecimal result, fraction_determinant = result\<rparr>
     }"

function GaussianEliminationFractions_eliminate_in_range ::
  "nat \<Rightarrow> nat \<Rightarrow> fraction list list \<Rightarrow> nat \<Rightarrow> determinant_result option" where
  "GaussianEliminationFractions_eliminate_in_range n i workingMatrix swapCount =
     (if i < n - 1 then
        do {
          pivotRow \<leftarrow> FractionMatrixUtils_findPivot_in_range workingMatrix i i;
          p \<leftarrow> cell workingMatrix pivotRow i;
          if Fraction_isZero p
          then do { zero \<leftarrow> new_Fraction 0 1;
                    Some \<lparr>number_determinant = 0, fraction_determinant = zero\<rparr> }
          else
            do {
              (swapped, swapCount') \<leftarrow>
                (if pivotRow \<noteq> i
                 then do { m \<leftarrow> FractionMatrixUtils_swapRows workingMatrix i pivotRow;
                           Some (m, swapCount + 1) }
                 else Some (workingMatrix, swapCount));
              eliminated \<leftarrow> forM [i + 1..<n] swapped
                (\<lambda>j workingMatrix.
                   do {
                     a \<leftarrow> cell workingMatrix j i;
                     if \<not> Fraction_isZero a then
                       do {
                         negated \<leftarrow> Fraction_negate a;
                         d \<leftarrow> cell workingMatrix i i;
                         factor \<leftarrow> Fraction_divide_in_range negated d;
                         FractionMatrixUtils_addRowMultiple_in_range workingMatrix j i factor
                       }
                     else Some workingMatrix
                   });
              GaussianEliminationFractions_eliminate_in_range n (i + 1) eliminated swapCount'
            }
        }
      else
        do {
          one \<leftarrow> new_Fraction 1 1;
          product \<leftarrow> forM [0..<n] one
            (\<lambda>i determinant. do { d \<leftarrow> cell workingMatrix i i; Fraction_multiply_in_range determinant d });
          determinant \<leftarrow> (if swapCount mod 2 = 1 then Fraction_negate product else Some product);
          Some \<lparr>number_determinant = Fraction_toDecimal determinant,
                 fraction_determinant = determinant\<rparr>
        })"
  by pat_completeness auto
termination GaussianEliminationFractions_eliminate_in_range
  by (relation "measure (\<lambda>(n, i, workingMatrix, swapCount). n - i)") auto

declare GaussianEliminationFractions_eliminate_in_range.simps [simp del]

definition GaussianEliminationFractions_calculateDeterminant_in_range ::
  "rat list list \<Rightarrow> determinant_result option" where
  "GaussianEliminationFractions_calculateDeterminant_in_range matrix =
     do {
       workingMatrix \<leftarrow> FractionMatrixUtils_fromNumberMatrix matrix;
       if list_all (list_all fraction_in_range) workingMatrix
       then GaussianEliminationFractions_eliminate_in_range (length matrix) 0 workingMatrix 0
       else None
     }"

subsection \<open>A run in the range is a run of the engine\<close>

lemma forM_mono:
  "forM js s f = Some t \<Longrightarrow> (\<And>j u v. j \<in> set js \<Longrightarrow> f j u = Some v \<Longrightarrow> g j u = Some v)
     \<Longrightarrow> forM js s g = Some t"
proof (induction js arbitrary: s)
  case Nil
  then show ?case by simp
next
  case (Cons j js)
  from Cons.prems(1) obtain u where u: "f j s = Some u" "forM js u f = Some t"
    by (auto split: Option.bind_splits)
  from Cons.prems(2) [OF _ u(1)] have "g j s = Some u" by simp
  moreover from u(2) have "forM js u g = Some t"
    by (rule Cons.IH) (simp add: Cons.prems(2))
  ultimately show ?case by simp
qed

lemma those_map_mono:
  "those (map f xs) = Some ys \<Longrightarrow> (\<And>x y. x \<in> set xs \<Longrightarrow> f x = Some y \<Longrightarrow> g x = Some y)
     \<Longrightarrow> those (map g xs) = Some ys"
proof (induction xs arbitrary: ys)
  case Nil
  then show ?case by simp
next
  case (Cons x xs)
  from Cons.prems(1) obtain y zs where y: "f x = Some y" "those (map f xs) = Some zs" "ys = y # zs"
    by (auto split: option.splits)
  from Cons.prems(2) [OF _ y(1)] have "g x = Some y" by simp
  moreover from y(2) have "those (map g xs) = Some zs"
    by (rule Cons.IH) (simp add: Cons.prems(2))
  ultimately show ?case using y(3) by simp
qed

lemma Fraction_in_range_ops:
  "Fraction_add_in_range f g = Some h \<Longrightarrow> Fraction_add f g = Some h"
  "Fraction_subtract_in_range f g = Some h \<Longrightarrow> Fraction_subtract f g = Some h"
  "Fraction_multiply_in_range f g = Some h \<Longrightarrow> Fraction_multiply f g = Some h"
  "Fraction_divide_in_range f g = Some h \<Longrightarrow> Fraction_divide f g = Some h"
  by (simp_all add: Fraction_add_in_range_def Fraction_subtract_in_range_def
      Fraction_multiply_in_range_def Fraction_divide_in_range_def split: if_splits)

lemma FractionMatrixUtils_addRowMultiple_in_range:
  assumes "FractionMatrixUtils_addRowMultiple_in_range matrix targetRow sourceRow multiplier = Some r"
  shows "FractionMatrixUtils_addRowMultiple matrix targetRow sourceRow multiplier = Some r"
proof -
  from assms obtain result where c: "FractionMatrixUtils_cloneMatrix matrix = Some result"
    and ne: "matrix \<noteq> []"
    and loop: "forM [0..<length (matrix ! 0)] result
         (\<lambda>j result.
            do {
              s \<leftarrow> cell result sourceRow j;
              product \<leftarrow> Fraction_multiply_in_range s multiplier;
              t \<leftarrow> cell result targetRow j;
              sum \<leftarrow> Fraction_add_in_range t product;
              Some (result[targetRow := (result ! targetRow)[j := sum]])
            }) = Some r"
    by (auto simp: FractionMatrixUtils_addRowMultiple_in_range_def split: Option.bind_splits if_splits)
  from loop have "forM [0..<length (matrix ! 0)] result
         (\<lambda>j result.
            do {
              s \<leftarrow> cell result sourceRow j;
              product \<leftarrow> Fraction_multiply s multiplier;
              t \<leftarrow> cell result targetRow j;
              sum \<leftarrow> Fraction_add t product;
              Some (result[targetRow := (result ! targetRow)[j := sum]])
            }) = Some r"
    by (rule forM_mono) (auto split: Option.bind_splits dest!: Fraction_in_range_ops)
  with c ne show ?thesis
    by (simp add: FractionMatrixUtils_addRowMultiple_def)
qed

lemma FractionMatrixUtils_findPivot_in_range:
  assumes "FractionMatrixUtils_findPivot_in_range matrix startRow col = Some r"
  shows "FractionMatrixUtils_findPivot matrix startRow col = Some r"
proof -
  from assms obtain v0 maxValue0 s where v: "cell matrix startRow col = Some v0"
    "Fraction_abs v0 = Some maxValue0"
    and loop: "forM [startRow + 1..<length matrix] (startRow, maxValue0)
         (\<lambda>i (maxRow, maxValue).
            do {
              v \<leftarrow> cell matrix i col;
              value \<leftarrow> Fraction_abs v;
              if \<not> Fraction_isZero value \<and> \<not> Fraction_isZero maxValue
                 \<and> \<not> decimals_ordered value maxValue then None
              else
              Some (if \<not> Fraction_isZero value
                       \<and> (Fraction_isZero maxValue
                          \<or> Fraction_toDecimal value > Fraction_toDecimal maxValue)
                    then (i, value) else (maxRow, maxValue))
            }) = Some s" and r: "r = fst s"
    by (auto simp: FractionMatrixUtils_findPivot_in_range_def split: Option.bind_splits)
  from loop have "forM [startRow + 1..<length matrix] (startRow, maxValue0)
         (\<lambda>i (maxRow, maxValue).
            do {
              v \<leftarrow> cell matrix i col;
              value \<leftarrow> Fraction_abs v;
              Some (if \<not> Fraction_isZero value
                       \<and> (Fraction_isZero maxValue
                          \<or> Fraction_toDecimal value > Fraction_toDecimal maxValue)
                    then (i, value) else (maxRow, maxValue))
            }) = Some s"
    by (rule forM_mono) (auto split: Option.bind_splits if_splits)
  with v r show ?thesis
    by (cases s) (simp add: FractionMatrixUtils_findPivot_def)
qed

lemma LaplaceExpansionFractions_expandByRow_in_range:
  "LaplaceExpansionFractions_expandByRow_in_range matrix row = Some r \<Longrightarrow>
   LaplaceExpansionFractions_expandByRow matrix row = Some r"
proof (induction "length matrix" arbitrary: matrix row r rule: less_induct)
  case less
  have IH: "LaplaceExpansionFractions_expandByRow (getMinor matrix row j) 0 = Some q"
    if "cell matrix row j = Some a"
      "LaplaceExpansionFractions_expandByRow_in_range (getMinor matrix row j) 0 = Some q" for j a q
    using that by (intro less.hyps) (auto dest!: cell_SomeD simp: length_getMinor)
  from less.prems show ?case
    apply (subst (asm) LaplaceExpansionFractions_expandByRow_in_range.simps)
    apply (subst LaplaceExpansionFractions_expandByRow.simps)
    apply (simp add: Let_def split: if_splits)
      apply (auto split: Option.bind_splits dest!: Fraction_in_range_ops)[2]
    apply (erule forM_mono)
    apply (auto split: Option.bind_splits if_splits dest!: Fraction_in_range_ops IH)
    done
qed

lemma LaplaceExpansionFractions_expandByColumn_in_range:
  "LaplaceExpansionFractions_expandByColumn_in_range matrix col = Some r \<Longrightarrow>
   LaplaceExpansionFractions_expandByColumn matrix col = Some r"
proof (induction "length matrix" arbitrary: matrix col r rule: less_induct)
  case less
  have IH: "LaplaceExpansionFractions_expandByColumn (getMinor matrix i col) k = Some q"
    if "LaplaceExpansionFractions_expandByColumn_in_range (getMinor matrix i col) k = Some q"
      "cell matrix i col = Some a"
    for i a q k
    using that by (intro less.hyps) (auto dest!: cell_SomeD simp: length_getMinor)
  from less.prems show ?case
    apply (subst (asm) LaplaceExpansionFractions_expandByColumn_in_range.simps)
    apply (subst LaplaceExpansionFractions_expandByColumn.simps)
    apply (simp add: Let_def split: if_splits)
      apply (auto split: Option.bind_splits dest!: Fraction_in_range_ops)[2]
    apply (erule forM_mono)
    apply (clarsimp simp: Let_def split: Option.bind_split_asm if_split_asm)
    apply (drule (1) IH)
    apply (auto dest!: Fraction_in_range_ops)
    done
qed

lemma LaplaceExpansionFractions_calculateSimpleDeterminant_in_range:
  "LaplaceExpansionFractions_calculateSimpleDeterminant_in_range matrix = Some r \<Longrightarrow>
   LaplaceExpansionFractions_calculateSimpleDeterminant matrix = Some r"
proof (induction "length matrix" arbitrary: matrix r rule: less_induct)
  case less
  have IH: "LaplaceExpansionFractions_calculateSimpleDeterminant (getMinor matrix i j) = Some q"
    if "LaplaceExpansionFractions_calculateSimpleDeterminant_in_range (getMinor matrix i j) = Some q"
      "cell matrix i j = Some a"
    for i j a q
    using that by (intro less.hyps) (auto dest!: cell_SomeD simp: length_getMinor)
  from less.prems show ?case
    apply (subst (asm) LaplaceExpansionFractions_calculateSimpleDeterminant_in_range.simps)
    apply (subst LaplaceExpansionFractions_calculateSimpleDeterminant.simps)
    apply (simp add: Let_def split: if_splits)
      apply (auto split: Option.bind_splits dest!: Fraction_in_range_ops)[2]
     apply (erule forM_mono)
     apply (clarsimp simp: Let_def split: Option.bind_split_asm if_split_asm)
     apply (drule (1) IH)
     apply (auto dest!: Fraction_in_range_ops)[1]
    apply (erule forM_mono)
    apply (clarsimp simp: Let_def split: Option.bind_split_asm if_split_asm)
    apply (drule (1) IH)
    apply (auto dest!: Fraction_in_range_ops)
    done
qed

lemma LaplaceExpansionFractions_buildExpansionFormulaWithValues_in_range:
  "LaplaceExpansionFractions_buildExpansionFormulaWithValues_in_range matrix index type = Some r \<Longrightarrow>
   LaplaceExpansionFractions_buildExpansionFormulaWithValues matrix index type = Some r"
  unfolding LaplaceExpansionFractions_buildExpansionFormulaWithValues_in_range_def
    LaplaceExpansionFractions_buildExpansionFormulaWithValues_def Let_def
  by (auto split: if_splits elim!: those_map_mono
      dest!: LaplaceExpansionFractions_calculateSimpleDeterminant_in_range
      split: Option.bind_splits)

lemma LaplaceExpansionFractions_calculateDeterminant_in_range:
  "LaplaceExpansionFractions_calculateDeterminant_in_range matrix = Some r \<Longrightarrow>
   LaplaceExpansionFractions_calculateDeterminant matrix = Some r"
  unfolding LaplaceExpansionFractions_calculateDeterminant_in_range_def
    LaplaceExpansionFractions_calculateDeterminant_def
  by (auto split: Option.bind_splits if_splits
      dest!: LaplaceExpansionFractions_expandByRow_in_range
        LaplaceExpansionFractions_expandByColumn_in_range
        LaplaceExpansionFractions_buildExpansionFormulaWithValues_in_range)

lemma GaussianEliminationFractions_eliminate_in_range:
  "GaussianEliminationFractions_eliminate_in_range n i workingMatrix swapCount = Some r \<Longrightarrow>
   GaussianEliminationFractions_eliminate n i workingMatrix swapCount = Some r"
proof (induction "n - i" arbitrary: i workingMatrix swapCount r rule: less_induct)
  case less
  have inner: "forM [Suc i..<n] swapped
                (\<lambda>j workingMatrix.
                   do {
                     a \<leftarrow> cell workingMatrix j i;
                     if \<not> Fraction_isZero a then
                       do {
                         negated \<leftarrow> Fraction_negate a;
                         d \<leftarrow> cell workingMatrix i i;
                         factor \<leftarrow> Fraction_divide negated d;
                         FractionMatrixUtils_addRowMultiple workingMatrix j i factor
                       }
                     else Some workingMatrix
                   }) = Some e"
    if "forM [Suc i..<n] swapped
                (\<lambda>j workingMatrix.
                   do {
                     a \<leftarrow> cell workingMatrix j i;
                     if \<not> Fraction_isZero a then
                       do {
                         negated \<leftarrow> Fraction_negate a;
                         d \<leftarrow> cell workingMatrix i i;
                         factor \<leftarrow> Fraction_divide_in_range negated d;
                         FractionMatrixUtils_addRowMultiple_in_range workingMatrix j i factor
                       }
                     else Some workingMatrix
                   }) = Some e" for swapped e
    using that
    by (rule forM_mono)
      (auto split: Option.bind_splits if_splits
        dest!: Fraction_in_range_ops FractionMatrixUtils_addRowMultiple_in_range)
  have diag: "forM [0..<n] one
            (\<lambda>i determinant. do { d \<leftarrow> cell workingMatrix i i; Fraction_multiply determinant d })
      = Some p"
    if "forM [0..<n] one
            (\<lambda>i determinant. do { d \<leftarrow> cell workingMatrix i i;
               Fraction_multiply_in_range determinant d }) = Some p" for one p
    using that
    by (rule forM_mono) (auto split: Option.bind_splits dest!: Fraction_in_range_ops)
  show ?case
  proof (cases "i < n - 1")
    case True
    have IH: "GaussianEliminationFractions_eliminate n (Suc i) m c = Some q"
      if "GaussianEliminationFractions_eliminate_in_range n (Suc i) m c = Some q" for m c q
      using that True by (intro less.hyps) simp_all
    from less.prems True show ?thesis
      apply (subst (asm) GaussianEliminationFractions_eliminate_in_range.simps)
      apply (subst GaussianEliminationFractions_eliminate.simps)
      apply (auto split: Option.bind_split_asm if_split_asm
          dest!: FractionMatrixUtils_findPivot_in_range inner IH)
      done
  next
    case False
    with less.prems show ?thesis
      apply (subst (asm) GaussianEliminationFractions_eliminate_in_range.simps)
      apply (subst GaussianEliminationFractions_eliminate.simps)
      apply (auto split: Option.bind_split_asm if_split_asm dest!: diag)
      done
  qed
qed

lemma GaussianEliminationFractions_calculateDeterminant_in_range:
  "GaussianEliminationFractions_calculateDeterminant_in_range matrix = Some r \<Longrightarrow>
   GaussianEliminationFractions_calculateDeterminant matrix = Some r"
  unfolding GaussianEliminationFractions_calculateDeterminant_in_range_def
    GaussianEliminationFractions_calculateDeterminant_def
  by (auto split: Option.bind_splits if_splits
      dest!: GaussianEliminationFractions_eliminate_in_range)

section \<open>The floating-point engines away from the tolerance\<close>

text \<open>
  The floating-point engines treat a number below \<open>1 / 10 ^ 10\<close> in absolute value as
  zero: the cofactor expansion skips such an entry, the elimination returns 0 on such a
  pivot and leaves a row alone when the factor is at most \<open>1 / 10 ^ 10\<close>. Where every
  number so treated is zero, the two engines compute the determinant, in the exact
  arithmetic of this model: the rounding of the doubles is not modelled.
\<close>

subsection \<open>LaplaceExpansion computes the determinant\<close>









subsection \<open>GaussianElimination computes the determinant\<close>













section \<open>The determinant engines agree\<close>



text \<open>
  On a matrix of four-digit integers the elimination leaves the range, the cofactor
  expansion does not. There the doubles of the code round, the model does not follow
  them, and nothing is stated about the results.
\<close>

lemma out_of_range_example:
  "GaussianEliminationFractions_calculateDeterminant_in_range
     [[1234, 5678, 9012], [3456, 7890, 1234], [5678, 9012, 3457]] = None"
  "LaplaceExpansionFractions_calculateDeterminant_in_range
     [[1234, 5678, 9012], [3456, 7890, 1234], [5678, 9012, 3457]] \<noteq> None"
  by code_simp+


end
